theory Spec2Isabelle
  imports Main "HOL-Library.Word"
begin

unbundle bit_operations_syntax

section \<open>The shell fragment used by tests/testtool\<close>

text \<open>
  The program is the bash script \<^verbatim>\<open>tests/testtool\<close>. An exit status is a natural
  number (0 is success). The world a command acts on holds the files (a path is mapped to
  its bytes when the file exists), the text captured by the test case's log redirection,
  and the state of the external collaborators (enclave, token, openssl's random pool).
  Directories are not modelled: \<^verbatim>\<open>mkdir -p\<close> is taken to succeed.
\<close>

type_synonym status = nat
type_synonym path = string
type_synonym byte = "8 word"

record 'e world =
  files :: "path \<Rightarrow> byte list option"
  caselog :: "string list"
  ext :: 'e

type_synonym 'e step = "'e world \<Rightarrow> status \<times> 'e world"

text \<open>\<^verbatim>\<open>true\<close>, and an \<^verbatim>\<open>if\<close> without \<^verbatim>\<open>else\<close> whose condition is false.\<close>

definition succeed :: "'e step" where
  "succeed w = (0, w)"

text \<open>\<^verbatim>\<open>a && b\<close>: \<open>b\<close> runs only when \<open>a\<close> returned 0.\<close>

definition and_then :: "'e step \<Rightarrow> 'e step \<Rightarrow> 'e step" where
  "and_then a b w = (case a w of (rc, w') \<Rightarrow> if rc = 0 then b w' else (rc, w'))"

text \<open>\<^verbatim>\<open>a1 && a2 && ... && an\<close>.\<close>

fun and_list :: "'e step list \<Rightarrow> 'e step" where
  "and_list [] w = (0, w)"
| "and_list (a # as) w = (case a w of (rc, w') \<Rightarrow> if rc = 0 then and_list as w' else (rc, w'))"

text \<open>\<^verbatim>\<open>(! a)\<close>: the subshell keeps the effects on files, the status is inverted.\<close>

definition negate :: "'e step \<Rightarrow> 'e step" where
  "negate a w = (case a w of (rc, w') \<Rightarrow> (if rc = 0 then 1 else 0, w'))"

text \<open>\<^verbatim>\<open>if c ; then a ; fi\<close>.\<close>

definition if_fi :: "bool \<Rightarrow> 'e step \<Rightarrow> 'e step" where
  "if_fi c a = (if c then a else succeed)"

text \<open>\<^verbatim>\<open>echo\<close> inside the case's redirected group: one more line of the log.\<close>

definition echo_log :: "string \<Rightarrow> 'e step" where
  "echo_log s w = (0, w\<lparr>caselog := caselog w @ [s]\<rparr>)"

text \<open>
  \<^verbatim>\<open>diff a b\<close>: 0 when both files exist with the same bytes, 1 when they differ,
  2 when one is missing. \<^verbatim>\<open>cp a b\<close> fails when \<open>a\<close> is missing. Their messages are
  not modelled.
\<close>

definition diff_files :: "path \<Rightarrow> path \<Rightarrow> 'e step" where
  "diff_files a b w =
     (case files w a of
        None \<Rightarrow> (2, w)
      | Some x \<Rightarrow> (case files w b of
                    None \<Rightarrow> (2, w)
                  | Some y \<Rightarrow> (if x = y then 0 else 1, w)))"

definition cp :: "path \<Rightarrow> path \<Rightarrow> 'e step" where
  "cp a b w =
     (case files w a of
        None \<Rightarrow> (1, w)
      | Some x \<Rightarrow> (0, w\<lparr>files := (files w)(b \<mapsto> x)\<rparr>))"

text \<open>
  Shell words that are numbers: sizes are kept as naturals and written in decimal where
  the script hands them to a command (\<open>dec\<close>); \<open>undec\<close> reads a decimal word back, as
  \<^verbatim>\<open>[ x -eq 0 ]\<close> and the helper binary do.
\<close>

definition digit_char :: "nat \<Rightarrow> char" where
  "digit_char d = ''0123456789'' ! d"

fun dec :: "nat \<Rightarrow> string" where
  "dec n = (if n < 10 then [digit_char n] else dec (n div 10) @ [digit_char (n mod 10)])"

declare dec.simps [simp del]

definition dec_int :: "int \<Rightarrow> string" where
  "dec_int i = (if i < 0 then CHR ''-'' # dec (nat (- i)) else dec (nat i))"

definition digit_val :: "char \<Rightarrow> nat option" where
  "digit_val c = map_of (zip ''0123456789'' [0, 1, 2, 3, 4, 5, 6, 7, 8, 9]) c"

fun undec_acc :: "nat \<Rightarrow> string \<Rightarrow> nat option" where
  "undec_acc a [] = Some a"
| "undec_acc a (c # cs) =
     (case digit_val c of None \<Rightarrow> None | Some d \<Rightarrow> undec_acc (10 * a + d) cs)"

definition undec :: "string \<Rightarrow> nat option" where
  "undec s = (if s = [] then None else undec_acc 0 s)"

text \<open>A positional parameter that was not passed expands to the empty word.\<close>

definition arg :: "string list \<Rightarrow> nat \<Rightarrow> string" where
  "arg xs i = (if i < length xs then xs ! i else [])"

section \<open>External programs\<close>

text \<open>
  The programs the script runs are parameters: each takes its argument vector and acts on
  the world. \<open>openssl\<close> and \<open>testhelpers\<close> also return what they print: the script
  redirects openssl's output to a file once and captures the helper's with
  \<^verbatim>\<open>$(...)\<close>. \<open>numfmt\<close> only prints. \<open>mktemp\<close> returns the directory it made.
  \<open>make_certs\<close> stands for the effect of \<^verbatim>\<open>create_test_certs\<close>, which only drives
  \<^verbatim>\<open>openssl req/x509\<close> and file utilities below the certificate directory.
  \<open>cd_root\<close> is the status of changing to the script's parent directory, \<open>tee\<close> the
  status of the \<^verbatim>\<open>tee\<close> that ends the pipeline of \<^verbatim>\<open>main\<close>.
\<close>

record 'e tools =
  openssl :: "string list \<Rightarrow> 'e world \<Rightarrow> status \<times> byte list \<times> 'e world"
  testhelpers :: "string list \<Rightarrow> 'e world \<Rightarrow> status \<times> string \<times> 'e world"
  numfmt :: "string list \<Rightarrow> string"
  mktemp :: "'e world \<Rightarrow> string \<times> 'e world"
  p11ne_cli :: "string list \<Rightarrow> 'e step"
  p11ne_db :: "string list \<Rightarrow> 'e step"
  p11tool :: "string list \<Rightarrow> 'e step"
  yum :: "string list \<Rightarrow> 'e step"
  make_certs :: "'e world \<Rightarrow> 'e world"
  cd_root :: status
  tee :: status

section \<open>Globals of the script\<close>

definition RESULT_DIR :: string where "RESULT_DIR = ''tests/results''"
definition TEST_LARGE_FILE_SIZES :: "nat list" where
  "TEST_LARGE_FILE_SIZES = [0, 32, 256, 1024, 4096, 16000]"
definition TEST_SMALL_FILE_SIZES :: "nat list" where
  "TEST_SMALL_FILE_SIZES = [1, 2, 4, 8, 16, 32, 64, 128]"
definition TEST_ECDSA_FILE_SIZES :: "nat list" where
  "TEST_ECDSA_FILE_SIZES = [1, 2, 4, 8, 16, 32, 55]"
definition TEST_RSAPSS_SALT_SIZES :: "string list" where
  "TEST_RSAPSS_SALT_SIZES = [''0'', ''1'', ''2'', ''4'', ''16'', ''48'', ''64'']"
definition TEST_DIGESTS :: "string list" where
  "TEST_DIGESTS = [''sha1'', ''sha224'', ''sha256'', ''sha384'', ''sha512'']"

definition PIN :: string where "PIN = ''1234''"
definition KEYID :: string where "KEYID = ''%01''"
definition TOKEN_LABEL :: string where "TOKEN_LABEL = ''test-token''"
definition URI_TOKEN :: string where
  "URI_TOKEN = ''pkcs11:model=p11ne-token;manufacturer=Amazon;serial=EVT00;token='' @ TOKEN_LABEL
     @ '';pin-value='' @ PIN @ '';id='' @ KEYID"
definition URI_CERT :: string where "URI_CERT = ''object=acm-ne-cert-0;type=cert''"
definition KEYS_DIR :: string where "KEYS_DIR = ''./tests/keys/''"
definition KEY_DB_DIR :: string where "KEY_DB_DIR = ''tests/db''"
definition CERTS_DIR :: string where "CERTS_DIR = ''./tests/certs/''"
definition RSA_KEYS :: "string list" where "RSA_KEYS = [''rsa1024'', ''rsa2048'', ''rsa4096'']"
definition ECDSA_KEYS :: "string list" where
  "ECDSA_KEYS = [''secp384r1'', ''secp521r1'', ''prime256v1'']"

definition EXIT_CODE_INVALID_PARAMS :: status where "EXIT_CODE_INVALID_PARAMS = 1"
definition EXIT_CODE_FAILED_TESTS :: status where "EXIT_CODE_FAILED_TESTS = 2"

text \<open>
  The shell variables that change: the seed and the two counters. \<open>verdicts\<close> is the
  sequence of PASSED/FAILED lines that \<^verbatim>\<open>log_test_result\<close> has printed (test name, and
  whether the line says PASSED).
\<close>

record shell =
  prng_seed :: string
  num_tests_passed :: nat
  num_tests_failed :: nat
  verdicts :: "(string \<times> bool) list"

definition initial_shell :: shell where
  "initial_shell = \<lparr>prng_seed = ''none'', num_tests_passed = 0, num_tests_failed = 0, verdicts = []\<rparr>"

section \<open>Input generator and corruption\<close>

definition run_helper :: "'e tools \<Rightarrow> string list \<Rightarrow> 'e step" where
  "run_helper E argv w = (case testhelpers E argv w of (rc, out, w') \<Rightarrow> (rc, w'))"

definition create_test_random_file :: "'e tools \<Rightarrow> string \<Rightarrow> path \<Rightarrow> nat \<Rightarrow> 'e step" where
  "create_test_random_file E seed outputfile sz =
     run_helper E [''prng_file'', outputfile, dec sz, seed]"

text \<open>
  \<^verbatim>\<open>cat <(echo -n 'A') "$tmpfile" >$outputfile\<close>: the redirection creates the output,
  the byte 0x41 is written, and \<^verbatim>\<open>cat\<close> fails afterwards when the second file is missing.
\<close>

definition cat_A :: "path \<Rightarrow> path \<Rightarrow> 'e step" where
  "cat_A tmpfile outputfile w =
     (case files w tmpfile of
        None \<Rightarrow> (1, w\<lparr>files := (files w)(outputfile \<mapsto> [0x41])\<rparr>)
      | Some bs \<Rightarrow> (0, w\<lparr>files := (files w)(outputfile \<mapsto> 0x41 # bs)\<rparr>))"

definition create_test_random_file_rsax509 ::
  "'e tools \<Rightarrow> string \<Rightarrow> path \<Rightarrow> nat \<Rightarrow> 'e step" where
  "create_test_random_file_rsax509 E seed outputfile sz w =
     (case mktemp E w of (d, w0) \<Rightarrow>
        and_then (run_helper E [''prng_file'', d @ ''/input'', dec_int (int sz - 1), seed])
                 (cat_A (d @ ''/input'') outputfile) w0)"

text \<open>
  \<^verbatim>\<open>local bit=$(...)\<close> returns 0 whatever the helper returned, so the chain goes on with
  the word the helper printed.
\<close>

definition bitflip :: "'e tools \<Rightarrow> string \<Rightarrow> path \<Rightarrow> path \<Rightarrow> nat \<Rightarrow> nat \<Rightarrow> 'e step" where
  "bitflip E seed inputfile outputfile start stop w =
     (case cp inputfile outputfile w of (rc, w1) \<Rightarrow>
        if rc \<noteq> 0 then (rc, w1)
        else (case testhelpers E [''prng_int'', seed, dec start, dec stop] w1 of (rc2, bitw, w2) \<Rightarrow>
                and_then (echo_log (''Flipping bit '' @ bitw))
                         (run_helper E [''bitflip'', outputfile, bitw]) w2))"

definition create_test_dir :: "string \<Rightarrow> string \<Rightarrow> path" where
  "create_test_dir dirname dirpath = RESULT_DIR @ ''/'' @ dirpath @ ''/'' @ dirname"

definition get_size_humanreadable :: "'e tools \<Rightarrow> nat \<Rightarrow> string" where
  "get_size_humanreadable E filesize =
     numfmt E [''--to=iec-i'', ''--suffix=B'', ''--format=%1f'', dec filesize]"

definition get_key_file :: "string \<Rightarrow> string \<Rightarrow> path" where
  "get_key_file keylabel keytype = KEYS_DIR @ ''/'' @ keylabel @ ''_'' @ keytype @ ''key.pem''"

definition get_cert_file :: "string \<Rightarrow> path" where
  "get_cert_file certlabel = CERTS_DIR @ ''/'' @ certlabel @ ''_cert.pem''"

definition get_cert_file_key :: "string \<Rightarrow> path" where
  "get_cert_file_key keylabel = CERTS_DIR @ ''/'' @ keylabel @ ''_key.pem''"

definition get_key_pkcs_uri :: "string \<Rightarrow> string \<Rightarrow> string" where
  "get_key_pkcs_uri keylabel keytype = URI_TOKEN @ '';object='' @ keylabel @ '';type='' @ keytype"

section \<open>Result ledger\<close>

definition log_test_result :: "string \<Rightarrow> status \<Rightarrow> shell \<Rightarrow> shell" where
  "log_test_result testname test_exitcode sh =
     (if test_exitcode = 0
      then sh\<lparr>num_tests_passed := num_tests_passed sh + 1,
              verdicts := verdicts sh @ [(testname, True)]\<rparr>
      else sh\<lparr>num_tests_failed := num_tests_failed sh + 1,
              verdicts := verdicts sh @ [(testname, False)]\<rparr>)"

definition test_results_summary :: "shell \<Rightarrow> string" where
  "test_results_summary sh =
     [CHR 0x0A] @ dec (num_tests_passed sh) @ '' tests passed, ''
       @ dec (num_tests_failed sh) @ '' tests failed'' @ [CHR 0x0A]"

section \<open>Operation providers\<close>

definition run_openssl :: "'e tools \<Rightarrow> string list \<Rightarrow> 'e step" where
  "run_openssl E argv w = (case openssl E argv w of (rc, out, w') \<Rightarrow> (rc, w'))"

text \<open>
  Every provider is called by the template as
  \<^verbatim>\<open>$fct "$keylabel" "$inputpath" "$outpath" $testargs\<close>; the words of \<open>testargs\<close>
  are its positional parameters from the fourth on. The \<open>pkcs\<close> functions go through the
  PKCS#11 engine (the subject), the \<open>ref\<close> functions use the key files (the reference).
\<close>

type_synonym 'e provider = "string \<Rightarrow> path \<Rightarrow> path \<Rightarrow> string list \<Rightarrow> 'e step"

subsection \<open>Sign RSA\<close>

definition openssl_ref_digestsign_rsa :: "'e tools \<Rightarrow> 'e provider" where
  "openssl_ref_digestsign_rsa E keylabel input outsign testargs =
     run_openssl E [''dgst'', ''-'' @ arg testargs 0,
                ''-sign'', get_key_file keylabel ''private'',
                ''-out'', outsign, input]"

definition openssl_ref_digestverify_rsa :: "'e tools \<Rightarrow> 'e provider" where
  "openssl_ref_digestverify_rsa E keylabel input sign testargs =
     run_openssl E [''dgst'', ''-'' @ arg testargs 0,
                ''-verify'', get_key_file keylabel ''public'',
                ''-signature'', sign, input]"

definition openssl_pkcs_digestsign_rsa :: "'e tools \<Rightarrow> 'e provider" where
  "openssl_pkcs_digestsign_rsa E keylabel input outsign testargs =
     run_openssl E [''dgst'', ''-'' @ arg testargs 0, ''-keyform'', ''engine'', ''-engine'', ''pkcs11'',
                ''-sign'', get_key_pkcs_uri keylabel ''private'',
                ''-out'', outsign, input]"

definition openssl_pkcs_digestverify_rsa :: "'e tools \<Rightarrow> 'e provider" where
  "openssl_pkcs_digestverify_rsa E keylabel input sign testargs =
     run_openssl E [''dgst'', ''-'' @ arg testargs 0, ''-keyform'', ''engine'', ''-engine'', ''pkcs11'',
                ''-verify'', get_key_pkcs_uri keylabel ''public'',
                ''-signature'', sign, input]"

subsection \<open>Sign RSA X509\<close>

definition openssl_ref_sign_rsa_x509 :: "'e tools \<Rightarrow> 'e provider" where
  "openssl_ref_sign_rsa_x509 E keylabel input outsign testargs =
     run_openssl E [''rsautl'', ''-sign'', ''-inkey'', get_key_file keylabel ''private'',
                ''-out'', outsign, ''-in'', input, ''-raw'']"

definition openssl_ref_verify_rsa_x509 :: "'e tools \<Rightarrow> 'e provider" where
  "openssl_ref_verify_rsa_x509 E keylabel input sign testargs =
     and_then
       (run_openssl E [''rsautl'', ''-verify'', ''-inkey'', get_key_file keylabel ''public'',
                   ''-in'', sign, ''-out'', sign @ ''.refverify'', ''-pubin'', ''-raw''])
       (diff_files input (sign @ ''.refverify''))"

definition openssl_pkcs_sign_rsa_x509 :: "'e tools \<Rightarrow> 'e provider" where
  "openssl_pkcs_sign_rsa_x509 E keylabel input outsign testargs =
     run_openssl E [''rsautl'', ''-keyform'', ''engine'', ''-engine'', ''pkcs11'',
                ''-sign'', ''-inkey'', get_key_pkcs_uri keylabel ''private'',
                ''-out'', outsign, ''-in'', input, ''-raw'']"

definition openssl_pkcs_verify_rsa_x509 :: "'e tools \<Rightarrow> 'e provider" where
  "openssl_pkcs_verify_rsa_x509 E keylabel input sign testargs =
     and_then
       (run_openssl E [''rsautl'', ''-keyform'', ''engine'', ''-engine'', ''pkcs11'',
                   ''-verify'', ''-inkey'', get_key_pkcs_uri keylabel ''public'',
                   ''-in'', sign, ''-out'', sign @ ''.pkcsverify'', ''-pubin'', ''-raw''])
       (diff_files input (sign @ ''.pkcsverify''))"

subsection \<open>Sign RSA-PSS\<close>

definition openssl_ref_digestsign_rsapss :: "'e tools \<Rightarrow> 'e provider" where
  "openssl_ref_digestsign_rsapss E keylabel input outsign testargs =
     run_openssl E [''dgst'', ''-'' @ arg testargs 1,
                ''-sign'', get_key_file keylabel ''private'',
                ''-sigopt'', ''rsa_padding_mode:pss'',
                ''-sigopt'', ''rsa_pss_saltlen:'' @ arg testargs 0,
                ''-out'', outsign, input]"

definition openssl_ref_digestverify_rsapss :: "'e tools \<Rightarrow> 'e provider" where
  "openssl_ref_digestverify_rsapss E keylabel input sign testargs =
     run_openssl E [''dgst'', ''-'' @ arg testargs 1,
                ''-verify'', get_key_file keylabel ''public'',
                ''-sigopt'', ''rsa_padding_mode:pss'',
                ''-sigopt'', ''rsa_pss_saltlen:'' @ arg testargs 0,
                ''-signature'', sign, input]"

definition openssl_pkcs_digestsign_rsapss :: "'e tools \<Rightarrow> 'e provider" where
  "openssl_pkcs_digestsign_rsapss E keylabel input outsign testargs =
     run_openssl E [''dgst'', ''-'' @ arg testargs 1, ''-keyform'', ''engine'', ''-engine'', ''pkcs11'',
                ''-sign'', get_key_pkcs_uri keylabel ''private'',
                ''-sigopt'', ''rsa_padding_mode:pss'',
                ''-sigopt'', ''rsa_pss_saltlen:'' @ arg testargs 0,
                ''-sigopt'', ''digest:'' @ arg testargs 1,
                ''-out'', outsign, input]"

definition openssl_pkcs_digestverify_rsapss :: "'e tools \<Rightarrow> 'e provider" where
  "openssl_pkcs_digestverify_rsapss E keylabel input sign testargs =
     run_openssl E [''dgst'', ''-'' @ arg testargs 1, ''-keyform'', ''engine'', ''-engine'', ''pkcs11'',
                ''-verify'', get_key_pkcs_uri keylabel ''public'',
                ''-sigopt'', ''rsa_padding_mode:pss'',
                ''-sigopt'', ''rsa_pss_saltlen:'' @ arg testargs 0,
                ''-sigopt'', ''digest:'' @ arg testargs 1,
                ''-signature'', sign, input]"

subsection \<open>Sign and verify ECDSA\<close>

definition openssl_pkcs_sign_ecdsa :: "'e tools \<Rightarrow> 'e provider" where
  "openssl_pkcs_sign_ecdsa E keylabel input outsign testargs =
     run_openssl E [''dgst'', ''-keyform'', ''engine'', ''-engine'', ''pkcs11'',
                ''-sign'', get_key_pkcs_uri keylabel ''private'',
                ''-out'', outsign, input]"

definition openssl_pkcs_verify_ecdsa :: "'e tools \<Rightarrow> 'e provider" where
  "openssl_pkcs_verify_ecdsa E keylabel input sign testargs =
     run_openssl E [''dgst'', ''-keyform'', ''engine'', ''-engine'', ''pkcs11'',
                ''-verify'', get_key_pkcs_uri keylabel ''public'',
                ''-signature'', sign, input]"

text \<open>
  The reference ECDSA signature is openssl's standard output, redirected to the file: the
  file is written whatever the status.
\<close>

definition openssl_ref_sign_ecdsa :: "'e tools \<Rightarrow> 'e provider" where
  "openssl_ref_sign_ecdsa E keylabel input outsign testargs w =
     (case openssl E [''dgst'', ''-sign'', get_key_file keylabel ''private'', input] w of
        (rc, out, w') \<Rightarrow> (rc, w'\<lparr>files := (files w')(outsign \<mapsto> out)\<rparr>))"

definition openssl_ref_verify_ecdsa :: "'e tools \<Rightarrow> 'e provider" where
  "openssl_ref_verify_ecdsa E keylabel input sign testargs =
     run_openssl E [''dgst'', ''-verify'', get_key_file keylabel ''public'',
                ''-signature'', sign, input]"

subsection \<open>Encrypt and decrypt RSA\<close>

definition openssl_pkcs_encrypt_rsa :: "'e tools \<Rightarrow> 'e provider" where
  "openssl_pkcs_encrypt_rsa E keylabel input outenc testargs =
     run_openssl E [''pkeyutl'', ''-encrypt'', ''-keyform'', ''engine'', ''-engine'', ''pkcs11'',
                ''-pubin'', ''-inkey'', get_key_pkcs_uri keylabel ''public'',
                ''-out'', outenc, ''-in'', input]"

definition openssl_pkcs_decrypt_rsa :: "'e tools \<Rightarrow> 'e provider" where
  "openssl_pkcs_decrypt_rsa E keylabel input enc testargs =
     and_then
       (run_openssl E [''pkeyutl'', ''-decrypt'', ''-keyform'', ''engine'', ''-engine'', ''pkcs11'',
                   ''-inkey'', get_key_pkcs_uri keylabel ''private'',
                   ''-out'', enc @ ''.pkcsdecrypted'', ''-in'', enc])
       (diff_files input (enc @ ''.pkcsdecrypted''))"

definition openssl_ref_encrypt_rsa :: "'e tools \<Rightarrow> 'e provider" where
  "openssl_ref_encrypt_rsa E keylabel input outenc testargs =
     run_openssl E [''pkeyutl'', ''-encrypt'',
                ''-pubin'', ''-inkey'', get_key_file keylabel ''public'',
                ''-out'', outenc, ''-in'', input]"

definition openssl_ref_decrypt_rsa :: "'e tools \<Rightarrow> 'e provider" where
  "openssl_ref_decrypt_rsa E keylabel input enc testargs =
     and_then
       (run_openssl E [''pkeyutl'', ''-decrypt'',
                   ''-inkey'', get_key_file keylabel ''private'',
                   ''-out'', enc @ ''.refdecrypted'', ''-in'', enc])
       (diff_files input (enc @ ''.refdecrypted''))"

subsection \<open>Encrypt and decrypt x509\<close>

text \<open>
  The two decrypt functions name their output \<^verbatim>\<open>$sign.pkcsdecrypted\<close> and
  \<^verbatim>\<open>$sign.refdecrypted\<close>; no variable \<^verbatim>\<open>sign\<close> is set where they run, so the
  output is the file \<^verbatim>\<open>.pkcsdecrypted\<close> (\<^verbatim>\<open>.refdecrypted\<close>) of the working directory.
\<close>

definition openssl_pkcs_encrypt_rsax509 :: "'e tools \<Rightarrow> 'e provider" where
  "openssl_pkcs_encrypt_rsax509 E keylabel input outenc testargs =
     run_openssl E [''pkeyutl'', ''-encrypt'', ''-keyform'', ''engine'', ''-engine'', ''pkcs11'',
                ''-pubin'', ''-inkey'', get_key_pkcs_uri keylabel ''public'',
                ''-out'', outenc, ''-in'', input,
                ''-pkeyopt'', ''rsa_padding_mode:none'']"

definition openssl_pkcs_decrypt_rsax509 :: "'e tools \<Rightarrow> 'e provider" where
  "openssl_pkcs_decrypt_rsax509 E keylabel input enc testargs =
     and_then
       (run_openssl E [''pkeyutl'', ''-decrypt'', ''-keyform'', ''engine'', ''-engine'', ''pkcs11'',
                   ''-inkey'', get_key_pkcs_uri keylabel ''private'',
                   ''-out'', ''.pkcsdecrypted'', ''-in'', enc,
                   ''-pkeyopt'', ''rsa_padding_mode:none''])
       (diff_files input ''.pkcsdecrypted'')"

definition openssl_ref_encrypt_rsax509 :: "'e tools \<Rightarrow> 'e provider" where
  "openssl_ref_encrypt_rsax509 E keylabel input outenc testargs =
     run_openssl E [''pkeyutl'', ''-encrypt'',
                ''-pubin'', ''-inkey'', get_key_file keylabel ''public'',
                ''-out'', outenc, ''-in'', input,
                ''-pkeyopt'', ''rsa_padding_mode:none'']"

definition openssl_ref_decrypt_rsax509 :: "'e tools \<Rightarrow> 'e provider" where
  "openssl_ref_decrypt_rsax509 E keylabel input enc testargs =
     and_then
       (run_openssl E [''pkeyutl'', ''-decrypt'',
                   ''-inkey'', get_key_file keylabel ''private'',
                   ''-out'', ''.refdecrypted'', ''-in'', enc,
                   ''-pkeyopt'', ''rsa_padding_mode:none''])
       (diff_files input ''.refdecrypted'')"

section \<open>The differential test template\<close>

text \<open>
  \<^verbatim>\<open>generate_test_name\<close> joins its words with an underscore. The words handed to it
  are not empty in any call of the script (an empty word would vanish in the unquoted
  expansion).
\<close>

fun join_with :: "string \<Rightarrow> string list \<Rightarrow> string" where
  "join_with sep [] = []"
| "join_with sep [x] = x"
| "join_with sep (x # y # ys) = x @ sep @ join_with sep (y # ys)"

definition generate_test_name :: "string list \<Rightarrow> string" where
  "generate_test_name ws = join_with ''_'' ws"

definition inputpath :: "path \<Rightarrow> path" where
  "inputpath test_dir = test_dir @ ''/input''"

definition corruptedinputpath :: "path \<Rightarrow> path" where
  "corruptedinputpath test_dir = test_dir @ ''/input_corrupted''"

definition logfile :: "path \<Rightarrow> path" where
  "logfile test_dir = test_dir @ ''/logs''"

definition pkcs_out_path :: "path \<Rightarrow> path" where
  "pkcs_out_path test_dir = test_dir @ ''/input.pkcsout''"

definition ref_out_path :: "path \<Rightarrow> path" where
  "ref_out_path test_dir = test_dir @ ''/input.refout''"

type_synonym 'e comparator = "path \<Rightarrow> path \<Rightarrow> string list \<Rightarrow> 'e step"
type_synonym 'e inputgen = "string \<Rightarrow> path \<Rightarrow> nat \<Rightarrow> 'e step"

text \<open>
  The braces of \<^verbatim>\<open>testtemplate_generate_check\<close>: one \<^verbatim>\<open>echo\<close>, then a single
  \<^verbatim>\<open>&&\<close> list whose third and last members are the two \<^verbatim>\<open>if [ "$filesize" -gt 0 ]\<close>
  statements. The function pointers of the script are functions here; the generator of
  the input reads the global seed, which is passed to it.
\<close>

definition corrupt_steps :: "'e tools \<Rightarrow> string \<Rightarrow> nat \<Rightarrow> path \<Rightarrow> 'e step list" where
  "corrupt_steps E seed filesize test_dir =
     [echo_log ''Corrupting input file'',
      bitflip E seed (inputpath test_dir) (corruptedinputpath test_dir) 0 (8 * filesize),
      negate (diff_files (inputpath test_dir) (corruptedinputpath test_dir))]"

definition negative_steps ::
  "'e provider \<Rightarrow> 'e provider \<Rightarrow> string \<Rightarrow> string list \<Rightarrow> path \<Rightarrow> 'e step list" where
  "negative_steps fct_checker_pkcs fct_checker_ref keylabel testargs test_dir =
     [echo_log (''Checking that the PKCS output can not be checked ''
                @ ''against corrupted input by reference checker''),
      negate (fct_checker_ref keylabel (corruptedinputpath test_dir) (pkcs_out_path test_dir) testargs),
      echo_log (''Checking that the reference output can not be checked ''
                @ ''against corrupted input using pkcs11 module''),
      negate (fct_checker_pkcs keylabel (corruptedinputpath test_dir) (ref_out_path test_dir) testargs)]"

definition testtemplate_group ::
  "'e tools \<Rightarrow> string \<Rightarrow> string \<Rightarrow> 'e provider \<Rightarrow> 'e provider \<Rightarrow> 'e provider \<Rightarrow> 'e provider
     \<Rightarrow> 'e comparator \<Rightarrow> 'e inputgen \<Rightarrow> nat \<Rightarrow> string \<Rightarrow> string list \<Rightarrow> path \<Rightarrow> 'e step" where
  "testtemplate_group E seed fullargs fct_generator_pkcs fct_generator_ref fct_checker_pkcs
       fct_checker_ref fct_custom_check_out_files fct_prng_inputfile filesize keylabel testargs
       test_dir w =
     (case echo_log (''Running test testtemplate_generate_check '' @ fullargs) w of (rc0, w0) \<Rightarrow>
        and_list
          [echo_log (''Creating input file with size '' @ dec filesize @ '', path ''
                     @ inputpath test_dir),
           fct_prng_inputfile seed (inputpath test_dir) filesize,
           if_fi (0 < filesize) (and_list (corrupt_steps E seed filesize test_dir)),
           echo_log ''PKCS library - generate'',
           fct_generator_pkcs keylabel (inputpath test_dir) (pkcs_out_path test_dir) testargs,
           echo_log ''Reference - generate'',
           fct_generator_ref keylabel (inputpath test_dir) (ref_out_path test_dir) testargs,
           echo_log ''Custom check pkcs output file against reference output file'',
           fct_custom_check_out_files (pkcs_out_path test_dir) (ref_out_path test_dir) testargs,
           echo_log ''Reference check of pkcs output'',
           fct_checker_ref keylabel (inputpath test_dir) (pkcs_out_path test_dir) testargs,
           echo_log ''PKCS check of reference output'',
           fct_checker_pkcs keylabel (inputpath test_dir) (ref_out_path test_dir) testargs,
           if_fi (0 < filesize)
             (and_list (negative_steps fct_checker_pkcs fct_checker_ref keylabel testargs test_dir))]
          w0)"

text \<open>
  The name and the directory of the case. The log line with all arguments shows the
  words the script has; the names of the function pointers are not rendered.
\<close>

definition testname_of :: "'e tools \<Rightarrow> string \<Rightarrow> nat \<Rightarrow> string \<Rightarrow> string list \<Rightarrow> string" where
  "testname_of E test_basename filesize keylabel testargs =
     generate_test_name ([test_basename, keylabel, get_size_humanreadable E filesize] @ testargs)"

definition test_dir_of ::
  "'e tools \<Rightarrow> string \<Rightarrow> string \<Rightarrow> nat \<Rightarrow> string \<Rightarrow> string list \<Rightarrow> path" where
  "test_dir_of E test_basename test_family filesize keylabel testargs =
     create_test_dir (testname_of E test_basename filesize keylabel testargs) test_family"

type_synonym 'e state = "shell \<times> 'e world"

definition testtemplate_generate_check ::
  "'e tools \<Rightarrow> string \<Rightarrow> string \<Rightarrow> 'e provider \<Rightarrow> 'e provider \<Rightarrow> 'e provider \<Rightarrow> 'e provider
     \<Rightarrow> 'e comparator \<Rightarrow> 'e inputgen \<Rightarrow> nat \<Rightarrow> string \<Rightarrow> string list \<Rightarrow> 'e state \<Rightarrow> 'e state" where
  "testtemplate_generate_check E test_basename test_family fct_generator_pkcs fct_generator_ref
       fct_checker_pkcs fct_checker_ref fct_custom_check_out_files fct_prng_inputfile filesize
       keylabel testargs st =
     (case st of (sh, w) \<Rightarrow>
        (case testtemplate_group E (prng_seed sh)
                (join_with '' '' ([test_basename, test_family, dec filesize, keylabel] @ testargs))
                fct_generator_pkcs fct_generator_ref fct_checker_pkcs fct_checker_ref
                fct_custom_check_out_files fct_prng_inputfile filesize keylabel testargs
                (test_dir_of E test_basename test_family filesize keylabel testargs)
                (w\<lparr>caselog := []\<rparr>) of
           (exitcode, w') \<Rightarrow>
             (log_test_result (testname_of E test_basename filesize keylabel testargs) exitcode sh,
              w')))"

section \<open>Comparators and test cases\<close>

definition check_outfiles_diff :: "'e comparator" where
  "check_outfiles_diff pkcs_out ref_out testargs = diff_files pkcs_out ref_out"

text \<open>The comparator \<^verbatim>\<open>true\<close> of the ECDSA and RSA encryption cases.\<close>

definition true_cmd :: "'e comparator" where
  "true_cmd pkcs_out ref_out testargs = succeed"

text \<open>
  \<^verbatim>\<open>[ "$saltlen" -eq 0 ]\<close> holds when the word is a decimal numeral of value 0
  (an optional sign is read); a word that is no numeral makes the test fail, and the
  \<^verbatim>\<open>else\<close> branch runs.
\<close>

definition sh_int :: "string \<Rightarrow> int option" where
  "sh_int s =
     (if s \<noteq> [] \<and> hd s = CHR ''-'' then map_option (\<lambda>n. - int n) (undec (tl s))
      else if s \<noteq> [] \<and> hd s = CHR ''+'' then map_option int (undec (tl s))
      else map_option int (undec s))"

definition check_outfiles_signverify_rsapss :: "'e comparator" where
  "check_outfiles_signverify_rsapss pkcs_out ref_out testargs =
     (if sh_int (arg testargs 0) = Some 0
      then and_then
             (echo_log ''Checking that the resulting files are identical as no salt is used'')
             (diff_files pkcs_out pkcs_out)
      else echo_log ''Skiping indentical files check as salt is used'')"

definition test_openssl_digestsignverify_rsa ::
  "'e tools \<Rightarrow> nat \<Rightarrow> string \<Rightarrow> string \<Rightarrow> 'e state \<Rightarrow> 'e state" where
  "test_openssl_digestsignverify_rsa E filesize keylabel digest =
     testtemplate_generate_check E
       ''test_openssl_digestsignverify_rsa''
       (''signverify/rsa_pkcs/'' @ keylabel)
       (openssl_pkcs_digestsign_rsa E) (openssl_ref_digestsign_rsa E)
       (openssl_pkcs_digestverify_rsa E) (openssl_ref_digestverify_rsa E)
       check_outfiles_diff
       (create_test_random_file E)
       filesize keylabel
       [digest]"

definition test_openssl_signverify_rsa_x509 ::
  "'e tools \<Rightarrow> nat \<Rightarrow> string \<Rightarrow> 'e state \<Rightarrow> 'e state" where
  "test_openssl_signverify_rsa_x509 E filesize keylabel =
     testtemplate_generate_check E
       ''test_openssl_signverify_rsa_x509''
       (''signverify/rsa_x509/'' @ keylabel)
       (openssl_pkcs_sign_rsa_x509 E) (openssl_ref_sign_rsa_x509 E)
       (openssl_pkcs_verify_rsa_x509 E) (openssl_ref_verify_rsa_x509 E)
       check_outfiles_diff
       (create_test_random_file_rsax509 E)
       filesize keylabel
       []"

text \<open>
  The skip tests compare words: \<^verbatim>\<open>[ $keylabel == "rsa1024" ] && [ $saltlen == 64 ]\<close>.
\<close>

definition test_openssl_digestsignverify_rsapss ::
  "'e tools \<Rightarrow> nat \<Rightarrow> string \<Rightarrow> string \<Rightarrow> string \<Rightarrow> 'e state \<Rightarrow> 'e state" where
  "test_openssl_digestsignverify_rsapss E filesize keylabel saltlen digest st =
     (if keylabel = ''rsa1024'' \<and> saltlen = ''64'' then st
      else testtemplate_generate_check E
             ''test_openssl_digestsignverify_rsapss''
             (''signverify/rsapss/'' @ keylabel)
             (openssl_pkcs_digestsign_rsapss E) (openssl_ref_digestsign_rsapss E)
             (openssl_pkcs_digestverify_rsapss E) (openssl_ref_digestverify_rsapss E)
             check_outfiles_signverify_rsapss
             (create_test_random_file E)
             filesize keylabel
             [saltlen, digest] st)"

definition test_openssl_signverify_ecdsa ::
  "'e tools \<Rightarrow> nat \<Rightarrow> string \<Rightarrow> 'e state \<Rightarrow> 'e state" where
  "test_openssl_signverify_ecdsa E filesize keylabel =
     testtemplate_generate_check E
       ''test_openssl_signverify_ecdsa''
       (''signverify/ecdsa/'' @ keylabel)
       (openssl_pkcs_sign_ecdsa E) (openssl_ref_sign_ecdsa E)
       (openssl_pkcs_verify_ecdsa E) (openssl_ref_verify_ecdsa E)
       true_cmd
       (create_test_random_file E)
       filesize keylabel
       []"

text \<open>
  \<^verbatim>\<open>[ $filesize == 128 ]\<close> compares the word of the size with \<^verbatim>\<open>128\<close>. The
  script writes \<^verbatim>\<open>testtemplate_generate_check \ "${FUNCNAME[0]}"\<close> here: the base name
  starts with a blank, which the unquoted expansion in the test name drops again.
\<close>

definition test_openssl_encryptdecrypt_rsa ::
  "'e tools \<Rightarrow> nat \<Rightarrow> string \<Rightarrow> 'e state \<Rightarrow> 'e state" where
  "test_openssl_encryptdecrypt_rsa E filesize keylabel st =
     (if keylabel = ''rsa1024'' \<and> dec filesize = ''128'' then st
      else testtemplate_generate_check E
             ''test_openssl_encryptdecrypt_rsa''
             (''encryptdecrypt/rsa_pkcs/'' @ keylabel)
             (openssl_pkcs_encrypt_rsa E) (openssl_ref_encrypt_rsa E)
             (openssl_pkcs_decrypt_rsa E) (openssl_ref_decrypt_rsa E)
             true_cmd
             (create_test_random_file E)
             filesize keylabel
             [] st)"

definition test_openssl_encryptdecrypt_rsa_x509 ::
  "'e tools \<Rightarrow> nat \<Rightarrow> string \<Rightarrow> 'e state \<Rightarrow> 'e state" where
  "test_openssl_encryptdecrypt_rsa_x509 E filesize keylabel =
     testtemplate_generate_check E
       ''test_openssl_encryptdecrypt_rsa_x509''
       (''encryptdecrypt/rsa_x509/'' @ keylabel)
       (openssl_pkcs_encrypt_rsax509 E) (openssl_ref_encrypt_rsax509 E)
       (openssl_pkcs_decrypt_rsax509 E) (openssl_ref_decrypt_rsax509 E)
       check_outfiles_diff
       (create_test_random_file_rsax509 E)
       filesize keylabel
       []"

section \<open>The test suite\<close>

text \<open>
  A function that may leave the shell through \<^verbatim>\<open>die\<close> or \<^verbatim>\<open>ok_or_die\<close> returns
  \<open>Inl\<close> of the exit code, and \<open>Inr\<close> of the state when it returns.
\<close>

definition bind_exit :: "status + 'a \<Rightarrow> ('a \<Rightarrow> status + 'b) \<Rightarrow> status + 'b" where
  "bind_exit r f = (case r of Inl c \<Rightarrow> Inl c | Inr x \<Rightarrow> f x)"

fun for_each :: "'a list \<Rightarrow> ('a \<Rightarrow> 's \<Rightarrow> 's) \<Rightarrow> 's \<Rightarrow> 's" where
  "for_each [] body s = s"
| "for_each (x # xs) body s = for_each xs body (body x s)"

fun for_each_exit :: "'a list \<Rightarrow> ('a \<Rightarrow> 's \<Rightarrow> status + 's) \<Rightarrow> 's \<Rightarrow> status + 's" where
  "for_each_exit [] body s = Inr s"
| "for_each_exit (x # xs) body s =
     (case body x s of Inl c \<Rightarrow> Inl c | Inr s' \<Rightarrow> for_each_exit xs body s')"

definition prepare_test_env :: "'e tools \<Rightarrow> 'e state \<Rightarrow> status + 'e state" where
  "prepare_test_env E st =
     (case st of (sh, w) \<Rightarrow>
        (case p11ne_cli E [''start''] w of (rc, w1) \<Rightarrow>
           if rc = 0 then Inr (sh, w1)
           else (case p11ne_cli E [''stop''] w1 of (rc2, w2) \<Rightarrow>
                   if rc2 \<noteq> 0 then Inl rc2
                   else (case p11ne_cli E [''start''] w2 of (rc3, w3) \<Rightarrow>
                           if rc3 \<noteq> 0 then Inl rc3 else Inr (sh, w3)))))"

text \<open>\<^verbatim>\<open>rm -rf dir\<close>: the directory's files are gone.\<close>

definition below :: "path \<Rightarrow> path \<Rightarrow> bool" where
  "below d p = (p = d \<or> take (length d + 1) p = d @ ''/''
                \<or> (d \<noteq> [] \<and> last d = CHR ''/'' \<and> take (length d) p = d))"

definition rm_rf :: "path \<Rightarrow> 'e world \<Rightarrow> 'e world" where
  "rm_rf d w = w\<lparr>files := (\<lambda>p. if below d p then None else files w p)\<rparr>"

definition cleanup_test_env :: "'e tools \<Rightarrow> 'e state \<Rightarrow> 'e state" where
  "cleanup_test_env E st =
     (case st of (sh, w) \<Rightarrow>
        (case p11ne_cli E [''stop''] w of (rc, w1) \<Rightarrow>
           (sh, rm_rf CERTS_DIR (rm_rf KEY_DB_DIR w1))))"

text \<open>
  \<^verbatim>\<open>provision_key\<close>, \<^verbatim>\<open>provision_key_w_cert\<close> and \<^verbatim>\<open>cleanup_key\<close> are always
  called with their options in pairs, so the option loop only assigns the values.
\<close>

definition provision_key ::
  "'e tools \<Rightarrow> string \<Rightarrow> string \<Rightarrow> string \<Rightarrow> 'e state \<Rightarrow> status + 'e state" where
  "provision_key E key_id region keylabel st =
     (case st of (sh, w) \<Rightarrow>
        (case p11ne_db E [''pack-key'', ''--id'', ''1'', ''--label'', keylabel,
                          ''--key-file'', get_key_file keylabel ''private'',
                          ''--out-file'', KEY_DB_DIR @ ''/'' @ keylabel,
                          ''--kms-key-id'', key_id, ''--kms-region'', region] w of (rc, w1) \<Rightarrow>
           if rc \<noteq> 0 then Inl rc
           else (case p11ne_cli E [''init-token'', ''--key-db'', KEY_DB_DIR @ ''/'' @ keylabel @ ''.db'',
                                   ''--label'', TOKEN_LABEL, ''--pin'', PIN] w1 of (rc2, w2) \<Rightarrow>
                   Inr (sh, w2))))"

definition provision_key_w_cert ::
  "'e tools \<Rightarrow> string \<Rightarrow> string \<Rightarrow> string \<Rightarrow> 'e state \<Rightarrow> status + 'e state" where
  "provision_key_w_cert E key_id region keylabel st =
     (case st of (sh, w) \<Rightarrow>
        (case p11ne_db E [''pack-key'', ''--id'', ''1'', ''--label'', keylabel,
                          ''--key-file'', get_cert_file_key keylabel,
                          ''--cert-file'', get_cert_file keylabel,
                          ''--out-file'', KEY_DB_DIR @ ''/'' @ keylabel,
                          ''--kms-key-id'', key_id, ''--kms-region'', region] w of (rc, w1) \<Rightarrow>
           if rc \<noteq> 0 then Inl rc
           else (case p11ne_cli E [''init-token'', ''--key-db'', KEY_DB_DIR @ ''/'' @ keylabel @ ''.db'',
                                   ''--label'', TOKEN_LABEL, ''--pin'', PIN] w1 of (rc2, w2) \<Rightarrow>
                   Inr (sh, w2))))"

definition cleanup_key :: "'e tools \<Rightarrow> string \<Rightarrow> 'e state \<Rightarrow> 'e state" where
  "cleanup_key E keylabel st =
     (case st of (sh, w) \<Rightarrow>
        (case p11ne_cli E [''release-token'', ''--label'', TOKEN_LABEL, ''--pin'', PIN] w of
           (rc, w1) \<Rightarrow> (sh, w1)))"

text \<open>The option loop of \<^verbatim>\<open>cmd_openssl\<close>; an unknown word ends in \<^verbatim>\<open>die\<close>, code 1.\<close>

fun parse_kms_args :: "string list \<Rightarrow> string \<times> string \<Rightarrow> status + string \<times> string" where
  "parse_kms_args [] kr = Inr kr"
| "parse_kms_args [a] (k, r) =
     (if a = ''--kms-key-id'' then Inr ([], r)
      else if a = ''--kms-region'' then Inr (k, [])
      else Inl 1)"
| "parse_kms_args (a # v # rest) (k, r) =
     (if a = ''--kms-key-id'' then parse_kms_args rest (v, r)
      else if a = ''--kms-region'' then parse_kms_args rest (k, v)
      else Inl 1)"

text \<open>The body of the first loop over \<^verbatim>\<open>$RSA_KEYS\<close>.\<close>

definition rsa_signverify_tests ::
  "'e tools \<Rightarrow> string \<Rightarrow> string \<Rightarrow> string \<Rightarrow> 'e state \<Rightarrow> status + 'e state" where
  "rsa_signverify_tests E key_id region rsa_key st =
     bind_exit (provision_key E key_id region rsa_key st) (\<lambda>st1.
       let st2 = for_each TEST_LARGE_FILE_SIZES (\<lambda>fsize.
                   for_each TEST_DIGESTS (\<lambda>digest.
                     for_each TEST_RSAPSS_SALT_SIZES (\<lambda>slen.
                       test_openssl_digestsignverify_rsapss E fsize rsa_key slen digest))) st1;
           st3 = for_each TEST_LARGE_FILE_SIZES (\<lambda>fsize.
                   for_each TEST_DIGESTS (\<lambda>digest.
                     test_openssl_digestsignverify_rsa E fsize rsa_key digest)) st2;
           st4 = (if rsa_key = ''rsa1024'' then test_openssl_signverify_rsa_x509 E 128 ''rsa1024'' st3
                  else if rsa_key = ''rsa2048'' then test_openssl_signverify_rsa_x509 E 256 ''rsa2048'' st3
                  else if rsa_key = ''rsa4096'' then test_openssl_signverify_rsa_x509 E 512 ''rsa4096'' st3
                  else st3)
       in Inr (cleanup_key E rsa_key st4))"

definition ecdsa_signverify_tests ::
  "'e tools \<Rightarrow> string \<Rightarrow> string \<Rightarrow> string \<Rightarrow> 'e state \<Rightarrow> status + 'e state" where
  "ecdsa_signverify_tests E key_id region ec_key st =
     bind_exit (provision_key E key_id region ec_key st) (\<lambda>st1.
       Inr (cleanup_key E ec_key
              (for_each TEST_ECDSA_FILE_SIZES (\<lambda>fsize.
                 test_openssl_signverify_ecdsa E fsize ec_key) st1)))"

definition rsa_encryptdecrypt_tests ::
  "'e tools \<Rightarrow> string \<Rightarrow> string \<Rightarrow> string \<Rightarrow> 'e state \<Rightarrow> status + 'e state" where
  "rsa_encryptdecrypt_tests E key_id region rsa_key st =
     bind_exit (provision_key E key_id region rsa_key st) (\<lambda>st1.
       let st2 = for_each TEST_SMALL_FILE_SIZES (\<lambda>fsize.
                   test_openssl_encryptdecrypt_rsa E fsize rsa_key) st1;
           st3 = (if rsa_key = ''rsa1024'' then test_openssl_encryptdecrypt_rsa_x509 E 128 ''rsa1024'' st2
                  else if rsa_key = ''rsa2048'' then test_openssl_encryptdecrypt_rsa_x509 E 256 ''rsa2048'' st2
                  else if rsa_key = ''rsa4096'' then test_openssl_encryptdecrypt_rsa_x509 E 512 ''rsa4096'' st2
                  else st2)
       in Inr (cleanup_key E rsa_key st3))"

text \<open>
  The certificate export tests. The last one is a negative test: a failed export is
  logged with 0, and a successful one with the status of the failed \<^verbatim>\<open>[ $? -ne 0 ]\<close>,
  which is 1.
\<close>

definition x509_export ::
  "'e tools \<Rightarrow> string \<Rightarrow> string \<Rightarrow> string \<Rightarrow> string \<Rightarrow> bool \<Rightarrow> 'e state \<Rightarrow> status + 'e state" where
  "x509_export E key_id region label testname negative_test st =
     bind_exit (provision_key_w_cert E key_id region label st) (\<lambda>st1.
       case st1 of (sh, w) \<Rightarrow>
         (case p11tool E [''--export'', URI_TOKEN @ '';'' @ URI_CERT] w of (rc, w1) \<Rightarrow>
            Inr (cleanup_key E label
                   (log_test_result testname
                      (if negative_test then (if rc \<noteq> 0 then 0 else 1) else rc) sh, w1))))"

definition x509_tests :: "'e tools \<Rightarrow> string \<Rightarrow> string \<Rightarrow> 'e state \<Rightarrow> status + 'e state" where
  "x509_tests E key_id region st =
     (case st of (sh, w) \<Rightarrow>
        (case yum E [''list'', ''installed'', ''gnutls-utils''] w of (rc, w1) \<Rightarrow>
           if rc \<noteq> 0 then Inr (sh, w1)
           else
             bind_exit (x509_export E key_id region ''selfsigned'' ''test_x509_single_cert'' False
                          (sh, make_certs E w1)) (\<lambda>st1.
             bind_exit (x509_export E key_id region ''valid_chain'' ''test_x509_valid_chain'' False
                          st1) (\<lambda>st2.
             bind_exit (x509_export E key_id region ''noroot_chain'' ''test_x509_noroot_chain'' False
                          st2) (\<lambda>st3.
             x509_export E key_id region ''invalid_chain'' ''test_x509_invalid_chain'' True st3)))))"

definition cmd_openssl :: "'e tools \<Rightarrow> string list \<Rightarrow> 'e state \<Rightarrow> status + 'e state" where
  "cmd_openssl E args st =
     bind_exit (parse_kms_args args ([], [])) (\<lambda>(key_id, region).
     bind_exit (prepare_test_env E st) (\<lambda>st1.
     bind_exit (for_each_exit RSA_KEYS (rsa_signverify_tests E key_id region) st1) (\<lambda>st2.
     bind_exit (for_each_exit ECDSA_KEYS (ecdsa_signverify_tests E key_id region) st2) (\<lambda>st3.
     bind_exit (for_each_exit RSA_KEYS (rsa_encryptdecrypt_tests E key_id region) st3) (\<lambda>st4.
     bind_exit (x509_tests E key_id region st4) (\<lambda>st5.
     Inr (cleanup_test_env E st5)))))))"

definition cmd_help :: "string list \<Rightarrow> 'e state \<Rightarrow> status + 'e state" where
  "cmd_help args st = Inr st"

section \<open>Main\<close>

text \<open>
  \<^verbatim>\<open>main\<close> ends in the pipeline \<^verbatim>\<open>{ ... } | tee $OVERALL_LOG_FILE\<close>. Each side of a
  pipeline runs in a subshell of its own, and the status of the pipeline is the status of
  its last command (the script does not set \<^verbatim>\<open>pipefail\<close>). \<open>main_group\<close> is the left
  side: its result is the status the subshell ends with, and the summary line when it was
  printed. The value of \<^verbatim>\<open>$RANDOM\<close> is a parameter.
\<close>

definition run_cmd :: "'e tools \<Rightarrow> string list \<Rightarrow> 'e state \<Rightarrow> status + 'e state" where
  "run_cmd E args st =
     (if hd args = ''openssl'' then cmd_openssl E (tl args) st else cmd_help (tl args) st)"

definition main_group ::
  "'e tools \<Rightarrow> nat \<Rightarrow> string list \<Rightarrow> 'e state \<Rightarrow> status \<times> string option" where
  "main_group E random args st =
     (case st of (sh, w) \<Rightarrow>
        (case run_cmd E args (sh\<lparr>prng_seed := dec random\<rparr>, w) of
           Inl c \<Rightarrow> (c, None)
         | Inr (sh', w') \<Rightarrow>
             if join_with '' '' args \<noteq> ''help''
             then (if num_tests_failed sh' \<noteq> 0 then EXIT_CODE_FAILED_TESTS else 0,
                   Some (test_results_summary sh'))
             else (0, None)))"

definition pipeline_status :: "status list \<Rightarrow> status" where
  "pipeline_status sts = last sts"

definition declared_cmd :: "string \<Rightarrow> bool" where
  "declared_cmd c = (c = ''openssl'' \<or> c = ''help'')"

text \<open>
  The exit status of the process: \<^verbatim>\<open>main "${@}"\<close> is the last command of the script.
  \<^verbatim>\<open>die\<close> exits with code 1; \<^verbatim>\<open>ok_or_die\<close> exits with the status it found, which is
  1 after a failed \<^verbatim>\<open>declare -f\<close>.
\<close>

definition main :: "'e tools \<Rightarrow> nat \<Rightarrow> string list \<Rightarrow> 'e world \<Rightarrow> status" where
  "main E random args w =
     (if args = [] then 1
      else if \<not> declared_cmd (hd args) then 1
      else if cd_root E \<noteq> 0 then cd_root E
      else pipeline_status [fst (main_group E random args (initial_shell, w)), tee E])"

section \<open>The helper binary\<close>

text \<open>
  Modelled from the spec: the binary \<^verbatim>\<open>tests/testhelpers\<close> (subcommands
  \<^verbatim>\<open>prng_file\<close>, \<^verbatim>\<open>prng_int\<close>, \<^verbatim>\<open>bitflip\<close>) is not among the sources. The
  spec says of the input generator that it is deterministic given the seed and produces
  \<open>size\<close> bytes of pseudo-random content, and of the corruption that it selects one bit
  index in \<open>[bitRangeStart, bitRangeEnd)\<close> using the seeded generator and flips it.
  The pseudo-random choices are parameters: \<open>content seed n i\<close> is byte \<open>i\<close> of the
  file of \<open>n\<close> bytes, \<open>pick seed a b\<close> the raw draw that is reduced into the range.
  Bits are numbered from the least significant bit of the first byte.
\<close>

definition flip_bit :: "nat \<Rightarrow> byte list \<Rightarrow> byte list" where
  "flip_bit k bs = bs[k div 8 := (bs ! (k div 8)) XOR push_bit (k mod 8) 1]"

text \<open>
  Modelled from the spec: the three subcommands of the helper binary. A word that is not
  a decimal number, an empty range and a bit index outside the file make the helper fail.
\<close>

definition spec_testhelpers ::
  "(string \<Rightarrow> nat \<Rightarrow> nat \<Rightarrow> byte) \<Rightarrow> (string \<Rightarrow> nat \<Rightarrow> nat \<Rightarrow> nat)
     \<Rightarrow> string list \<Rightarrow> 'e world \<Rightarrow> status \<times> string \<times> 'e world" where
  "spec_testhelpers content pick argv w =
     (if length argv = 4 \<and> hd argv = ''prng_file'' then
        (case undec (argv ! 2) of
           None \<Rightarrow> (1, [], w)
         | Some n \<Rightarrow>
             (0, [], w\<lparr>files := (files w)(argv ! 1 \<mapsto> map (content (argv ! 3) n) [0..<n])\<rparr>))
      else if length argv = 4 \<and> hd argv = ''prng_int'' then
        (case undec (argv ! 2) of
           None \<Rightarrow> (1, [], w)
         | Some a \<Rightarrow>
             (case undec (argv ! 3) of
                None \<Rightarrow> (1, [], w)
              | Some b \<Rightarrow>
                  if a < b then (0, dec (a + pick (argv ! 1) a b mod (b - a)), w)
                  else (1, [], w)))
      else if length argv = 3 \<and> hd argv = ''bitflip'' then
        (case files w (argv ! 1) of
           None \<Rightarrow> (1, [], w)
         | Some bs \<Rightarrow>
             (case undec (argv ! 2) of
                None \<Rightarrow> (1, [], w)
              | Some k \<Rightarrow>
                  if k < 8 * length bs
                  then (0, [], w\<lparr>files := (files w)(argv ! 1 \<mapsto> flip_bit k bs)\<rparr>)
                  else (1, [], w)))
      else (1, [], w))"

text \<open>The bit index \<^verbatim>\<open>bitflip\<close> obtains for a payload of the given size.\<close>

definition chosen_bit :: "(string \<Rightarrow> nat \<Rightarrow> nat \<Rightarrow> nat) \<Rightarrow> string \<Rightarrow> nat \<Rightarrow> nat" where
  "chosen_bit pick seed filesize = pick seed 0 (8 * filesize) mod (8 * filesize)"

section \<open>The skip rule as the specification words it\<close>

text \<open>
  The specification's rule for RSA-PSS: a combination is infeasible when the digest output
  length plus the salt length exceeds the usable capacity of the modulus. The usable
  capacity of a modulus of \<open>m\<close> bytes is \<open>m - 2\<close> bytes (EMSA-PSS needs
  \<open>hLen + sLen + 2\<close> bytes).
\<close>

definition digest_bytes :: "string \<Rightarrow> nat option" where
  "digest_bytes d =
     (if d = ''sha1'' then Some 20 else if d = ''sha224'' then Some 28
      else if d = ''sha256'' then Some 32 else if d = ''sha384'' then Some 48
      else if d = ''sha512'' then Some 64 else None)"

definition modulus_bytes :: "string \<Rightarrow> nat option" where
  "modulus_bytes k =
     (if k = ''rsa1024'' then Some 128 else if k = ''rsa2048'' then Some 256
      else if k = ''rsa4096'' then Some 512 else None)"

definition spec_pss_capacity_exceeded :: "string \<Rightarrow> string \<Rightarrow> string \<Rightarrow> bool" where
  "spec_pss_capacity_exceeded keylabel digest saltlen =
     (case modulus_bytes keylabel of
        None \<Rightarrow> False
      | Some m \<Rightarrow> (case digest_bytes digest of
                    None \<Rightarrow> False
                  | Some h \<Rightarrow> (case undec saltlen of
                                None \<Rightarrow> False
                              | Some sl \<Rightarrow> m - 2 < h + sl)))"

section \<open>Notions used to state the properties\<close>

text \<open>
  The steps of one case in the order they run, with the two \<^verbatim>\<open>if\<close> statements opened:
  the steps up to the cross-verification, then the negative path.
\<close>

definition positive_steps ::
  "'e tools \<Rightarrow> string \<Rightarrow> 'e provider \<Rightarrow> 'e provider \<Rightarrow> 'e provider \<Rightarrow> 'e provider
     \<Rightarrow> 'e comparator \<Rightarrow> 'e inputgen \<Rightarrow> nat \<Rightarrow> string \<Rightarrow> string list \<Rightarrow> path \<Rightarrow> 'e step list" where
  "positive_steps E seed fct_generator_pkcs fct_generator_ref fct_checker_pkcs fct_checker_ref
       fct_custom_check_out_files fct_prng_inputfile filesize keylabel testargs test_dir =
     [echo_log (''Creating input file with size '' @ dec filesize @ '', path ''
                @ inputpath test_dir),
      fct_prng_inputfile seed (inputpath test_dir) filesize]
     @ (if 0 < filesize then corrupt_steps E seed filesize test_dir else [])
     @ [echo_log ''PKCS library - generate'',
        fct_generator_pkcs keylabel (inputpath test_dir) (pkcs_out_path test_dir) testargs,
        echo_log ''Reference - generate'',
        fct_generator_ref keylabel (inputpath test_dir) (ref_out_path test_dir) testargs,
        echo_log ''Custom check pkcs output file against reference output file'',
        fct_custom_check_out_files (pkcs_out_path test_dir) (ref_out_path test_dir) testargs,
        echo_log ''Reference check of pkcs output'',
        fct_checker_ref keylabel (inputpath test_dir) (pkcs_out_path test_dir) testargs,
        echo_log ''PKCS check of reference output'',
        fct_checker_pkcs keylabel (inputpath test_dir) (ref_out_path test_dir) testargs]"

definition template_steps ::
  "'e tools \<Rightarrow> string \<Rightarrow> 'e provider \<Rightarrow> 'e provider \<Rightarrow> 'e provider \<Rightarrow> 'e provider
     \<Rightarrow> 'e comparator \<Rightarrow> 'e inputgen \<Rightarrow> nat \<Rightarrow> string \<Rightarrow> string list \<Rightarrow> path \<Rightarrow> 'e step list" where
  "template_steps E seed fct_generator_pkcs fct_generator_ref fct_checker_pkcs fct_checker_ref
       fct_custom_check_out_files fct_prng_inputfile filesize keylabel testargs test_dir =
     positive_steps E seed fct_generator_pkcs fct_generator_ref fct_checker_pkcs fct_checker_ref
       fct_custom_check_out_files fct_prng_inputfile filesize keylabel testargs test_dir
     @ (if 0 < filesize
        then negative_steps fct_checker_pkcs fct_checker_ref keylabel testargs test_dir else [])"

text \<open>The world in which the \<^verbatim>\<open>&&\<close> list of a case starts: the log holds its first line.\<close>

definition group_start :: "string \<Rightarrow> 'e world \<Rightarrow> 'e world" where
  "group_start fullargs w =
     snd (echo_log (''Running test testtemplate_generate_check '' @ fullargs) w)"

definition case_start ::
  "string \<Rightarrow> string \<Rightarrow> nat \<Rightarrow> string \<Rightarrow> string list \<Rightarrow> 'e world \<Rightarrow> 'e world" where
  "case_start test_basename test_family filesize keylabel testargs w =
     group_start (join_with '' '' ([test_basename, test_family, dec filesize, keylabel] @ testargs))
       (w\<lparr>caselog := []\<rparr>)"

definition case_steps ::
  "'e tools \<Rightarrow> shell \<Rightarrow> string \<Rightarrow> string \<Rightarrow> 'e provider \<Rightarrow> 'e provider \<Rightarrow> 'e provider
     \<Rightarrow> 'e provider \<Rightarrow> 'e comparator \<Rightarrow> 'e inputgen \<Rightarrow> nat \<Rightarrow> string \<Rightarrow> string list
     \<Rightarrow> 'e step list" where
  "case_steps E sh test_basename test_family fct_generator_pkcs fct_generator_ref fct_checker_pkcs
       fct_checker_ref fct_custom_check_out_files fct_prng_inputfile filesize keylabel testargs =
     template_steps E (prng_seed sh) fct_generator_pkcs fct_generator_ref fct_checker_pkcs
       fct_checker_ref fct_custom_check_out_files fct_prng_inputfile filesize keylabel testargs
       (test_dir_of E test_basename test_family filesize keylabel testargs)"

text \<open>
  The first \<open>k\<close> steps of a chain all returned 0, and the world in which step \<open>k\<close>
  then starts.
\<close>

definition reaches :: "'e step list \<Rightarrow> nat \<Rightarrow> 'e world \<Rightarrow> bool" where
  "reaches steps k w = (fst (and_list (take k steps) w) = 0)"

definition world_at :: "'e step list \<Rightarrow> nat \<Rightarrow> 'e world \<Rightarrow> 'e world" where
  "world_at steps k w = snd (and_list (take k steps) w)"

text \<open>
  The position of the comparator in the chain of a case; the reference check is two
  steps later and the check through the engine four. With a payload, the negated checks
  of the negative path are the steps 16 and 18.
\<close>

definition compare_index :: "nat \<Rightarrow> nat" where
  "compare_index filesize = (if 0 < filesize then 10 else 7)"





text \<open>The chain, the directory and the starting world of the two RSA encryption cases.\<close>

definition encdec_rsa_steps :: "'e tools \<Rightarrow> shell \<Rightarrow> nat \<Rightarrow> string \<Rightarrow> 'e step list" where
  "encdec_rsa_steps E sh filesize keylabel =
     case_steps E sh ''test_openssl_encryptdecrypt_rsa'' (''encryptdecrypt/rsa_pkcs/'' @ keylabel)
       (openssl_pkcs_encrypt_rsa E) (openssl_ref_encrypt_rsa E)
       (openssl_pkcs_decrypt_rsa E) (openssl_ref_decrypt_rsa E)
       true_cmd (create_test_random_file E) filesize keylabel []"

definition encdec_rsa_dir :: "'e tools \<Rightarrow> nat \<Rightarrow> string \<Rightarrow> path" where
  "encdec_rsa_dir E filesize keylabel =
     test_dir_of E ''test_openssl_encryptdecrypt_rsa'' (''encryptdecrypt/rsa_pkcs/'' @ keylabel)
       filesize keylabel []"

definition encdec_rsa_start :: "nat \<Rightarrow> string \<Rightarrow> 'e world \<Rightarrow> 'e world" where
  "encdec_rsa_start filesize keylabel w =
     case_start ''test_openssl_encryptdecrypt_rsa'' (''encryptdecrypt/rsa_pkcs/'' @ keylabel)
       filesize keylabel [] w"

definition encdec_x509_steps :: "'e tools \<Rightarrow> shell \<Rightarrow> nat \<Rightarrow> string \<Rightarrow> 'e step list" where
  "encdec_x509_steps E sh filesize keylabel =
     case_steps E sh ''test_openssl_encryptdecrypt_rsa_x509'' (''encryptdecrypt/rsa_x509/'' @ keylabel)
       (openssl_pkcs_encrypt_rsax509 E) (openssl_ref_encrypt_rsax509 E)
       (openssl_pkcs_decrypt_rsax509 E) (openssl_ref_decrypt_rsax509 E)
       check_outfiles_diff (create_test_random_file_rsax509 E) filesize keylabel []"

definition encdec_x509_dir :: "'e tools \<Rightarrow> nat \<Rightarrow> string \<Rightarrow> path" where
  "encdec_x509_dir E filesize keylabel =
     test_dir_of E ''test_openssl_encryptdecrypt_rsa_x509'' (''encryptdecrypt/rsa_x509/'' @ keylabel)
       filesize keylabel []"

definition encdec_x509_start :: "nat \<Rightarrow> string \<Rightarrow> 'e world \<Rightarrow> 'e world" where
  "encdec_x509_start filesize keylabel w =
     case_start ''test_openssl_encryptdecrypt_rsa_x509'' (''encryptdecrypt/rsa_x509/'' @ keylabel)
       filesize keylabel [] w"

text \<open>A test function passes in a state when it adds one to the counter of passed tests.\<close>

definition passes :: "('e state \<Rightarrow> 'e state) \<Rightarrow> 'e state \<Rightarrow> bool" where
  "passes t st = (num_tests_passed (fst (t st)) = num_tests_passed (fst st) + 1)"

text \<open>A test function is skipped in a state when it records no verdict.\<close>

definition skips :: "('e state \<Rightarrow> 'e state) \<Rightarrow> 'e state \<Rightarrow> bool" where
  "skips t st = (verdicts (fst (t st)) = verdicts (fst st))"

text \<open>
  The ledger agrees with the printed verdicts: the counters are the numbers of PASSED and
  of FAILED lines.
\<close>

definition ledger_ok :: "shell \<Rightarrow> bool" where
  "ledger_ok sh =
     (num_tests_passed sh = length (filter snd (verdicts sh)) \<and>
      num_tests_failed sh = length (filter (\<lambda>v. \<not> snd v) (verdicts sh)))"

text \<open>The two byte sequences have the same length and differ in the bit \<open>k\<close> only.\<close>

definition differs_in_bit_only :: "byte list \<Rightarrow> byte list \<Rightarrow> nat \<Rightarrow> bool" where
  "differs_in_bit_only xs ys k =
     (length xs = length ys \<and> k < 8 * length ys \<and>
      (\<forall>i < length ys. \<forall>j < 8. (bit (xs ! i) j \<noteq> bit (ys ! i) j) = (8 * i + j = k)))"

section \<open>Sample collaborators\<close>

text \<open>
  Small stand-ins for the external programs, used to run the definitions on concrete
  inputs. The sample openssl signs by copying the message, verifies a digest signature by
  comparing it with the message, recovers a raw signature by copying it, encrypts by
  putting one byte in front of the message (\<open>engine_byte\<close> through the engine, 0
  otherwise) and decrypts by dropping it. In \<open>sample_tools\<close> the engine's byte is 1, in
  \<open>same_byte_tools\<close> it is 0, so that both parties produce the same ciphertext.
\<close>

fun opt :: "string list \<Rightarrow> string \<Rightarrow> string" where
  "opt [] f = []"
| "opt [a] f = []"
| "opt (a # b # r) f = (if a = f then b else opt (b # r) f)"

definition sample_crypto ::
  "byte \<Rightarrow> string list \<Rightarrow> unit world \<Rightarrow> status \<times> byte list \<times> unit world" where
  "sample_crypto engine_byte argv w =
     (if ''-sign'' \<in> set argv then
        (case files w (if hd argv = ''dgst'' then last argv else opt argv ''-in'') of
           None \<Rightarrow> (1, [], w)
         | Some bs \<Rightarrow>
             if opt argv ''-out'' = [] then (0, bs, w)
             else (0, [], w\<lparr>files := (files w)(opt argv ''-out'' \<mapsto> bs)\<rparr>))
      else if ''-verify'' \<in> set argv \<and> hd argv = ''dgst'' then
        (if files w (opt argv ''-signature'') \<noteq> None
            \<and> files w (opt argv ''-signature'') = files w (last argv)
         then (0, [], w) else (1, [], w))
      else if ''-verify'' \<in> set argv then
        (case files w (opt argv ''-in'') of
           None \<Rightarrow> (1, [], w)
         | Some bs \<Rightarrow> (0, [], w\<lparr>files := (files w)(opt argv ''-out'' \<mapsto> bs)\<rparr>))
      else if ''-encrypt'' \<in> set argv then
        (case files w (opt argv ''-in'') of
           None \<Rightarrow> (1, [], w)
         | Some bs \<Rightarrow>
             (0, [], w\<lparr>files := (files w)(opt argv ''-out'' \<mapsto>
                          (if ''-engine'' \<in> set argv then engine_byte else 0) # bs)\<rparr>))
      else if ''-decrypt'' \<in> set argv then
        (case files w (opt argv ''-in'') of
           None \<Rightarrow> (1, [], w)
         | Some bs \<Rightarrow> (0, [], w\<lparr>files := (files w)(opt argv ''-out'' \<mapsto> tl bs)\<rparr>))
      else (1, [], w))"

definition sample_openssl :: "string list \<Rightarrow> unit world \<Rightarrow> status \<times> byte list \<times> unit world" where
  "sample_openssl = sample_crypto 1"

definition sample_content :: "string \<Rightarrow> nat \<Rightarrow> nat \<Rightarrow> byte" where
  "sample_content seed n i = of_nat (7 * i + n + length seed)"

definition sample_pick :: "string \<Rightarrow> nat \<Rightarrow> nat \<Rightarrow> nat" where
  "sample_pick seed a b = length seed + 3"

definition sample_numfmt :: "string list \<Rightarrow> string" where
  "sample_numfmt argv = last argv @ ''B''"

definition sample_mktemp :: "unit world \<Rightarrow> string \<times> unit world" where
  "sample_mktemp w = (''/tmp/tmp.sample'', w)"

definition sample_ok :: "string list \<Rightarrow> unit step" where
  "sample_ok argv = succeed"

definition sample_tools :: "unit tools" where
  "sample_tools =
     \<lparr>openssl = sample_openssl,
      testhelpers = spec_testhelpers sample_content sample_pick,
      numfmt = sample_numfmt,
      mktemp = sample_mktemp,
      p11ne_cli = sample_ok, p11ne_db = sample_ok, p11tool = sample_ok, yum = sample_ok,
      make_certs = id,
      cd_root = 0,
      tee = 0\<rparr>"

definition sample_world :: "unit world" where
  "sample_world = \<lparr>files = (\<lambda>p. None), caselog = [], ext = ()\<rparr>"

definition same_byte_tools :: "unit tools" where
  "same_byte_tools = sample_tools\<lparr>openssl := sample_crypto 0\<rparr>"

text \<open>
  A helper whose \<^verbatim>\<open>bitflip\<close> returns 0 and leaves the file as it is, and an openssl
  whose signing through the engine returns 0 and writes nothing.
\<close>

definition noflip_testhelpers ::
  "string list \<Rightarrow> unit world \<Rightarrow> status \<times> string \<times> unit world" where
  "noflip_testhelpers argv w =
     (if length argv = 3 \<and> hd argv = ''bitflip'' then (0, [], w)
      else spec_testhelpers sample_content sample_pick argv w)"

definition noflip_tools :: "unit tools" where
  "noflip_tools = sample_tools\<lparr>testhelpers := noflip_testhelpers\<rparr>"



text \<open>Collaborators whose signing, encryption and input generation all fail.\<close>

definition sample_failing :: "string list \<Rightarrow> unit world \<Rightarrow> status \<times> 'a list \<times> unit world" where
  "sample_failing argv w = (1, [], w)"

definition failing_tools :: "unit tools" where
  "failing_tools = sample_tools\<lparr>openssl := sample_failing, testhelpers := sample_failing\<rparr>"

text \<open>Providers that accept whatever they are given.\<close>

definition accept_all :: "unit provider" where
  "accept_all keylabel input out testargs = succeed"

section \<open>Chains of commands\<close>

lemma and_list_append:
  "and_list (xs @ ys) w =
     (case and_list xs w of (rc, w') \<Rightarrow> if rc = 0 then and_list ys w' else (rc, w'))"
  by (induction xs arbitrary: w) (auto split: prod.splits)

lemma and_list_if_fi:
  "and_list (if_fi c (and_list ys) # zs) w = and_list ((if c then ys else []) @ zs) w"
  by (simp add: if_fi_def succeed_def and_list_append split: prod.splits)

lemma and_list_suffix_cong:
  assumes "\<And>v. and_list r1 v = and_list r2 v"
  shows "and_list (xs @ r1) w = and_list (xs @ r2) w"
  by (cases "and_list xs w") (simp add: and_list_append assms)

lemma and_list_nth_fail:
  assumes "k < length xs" and "fst (and_list (take k xs) w) = 0"
      and "fst ((xs ! k) (snd (and_list (take k xs) w))) \<noteq> 0"
  shows "and_list (take (Suc k) xs @ rest) w = (xs ! k) (snd (and_list (take k xs) w))"
proof -
  obtain w1 where p: "and_list (take k xs) w = (0, w1)"
    using assms(2) by (cases "and_list (take k xs) w") auto
  obtain rc w2 where q: "(xs ! k) w1 = (rc, w2)"
    by (cases "(xs ! k) w1") auto
  have "rc \<noteq> 0" using assms(3) p q by simp
  moreover have "take (Suc k) xs @ rest = take k xs @ (xs ! k) # rest"
    using assms(1) by (simp add: take_Suc_conv_app_nth)
  ultimately show ?thesis
    using p q by (simp add: and_list_append)
qed

lemma and_list_ok_prefix:
  assumes "fst (and_list (xs @ ys) w) = 0"
  shows "fst (and_list xs w) = 0 \<and> fst (and_list ys (snd (and_list xs w))) = 0"
  using assms by (auto simp: and_list_append split: prod.splits if_splits)

lemma and_list_ok_snd:
  assumes "fst (and_list xs w) = 0"
  shows "and_list (xs @ ys) w = and_list ys (snd (and_list xs w))"
  using assms by (auto simp: and_list_append split: prod.splits if_splits)

lemma and_list_ok_Cons:
  assumes "fst (and_list (a # as) w) = 0"
  shows "fst (a w) = 0 \<and> fst (and_list as (snd (a w))) = 0"
  using assms by (auto split: prod.splits if_splits)

lemma negate_ok: "fst (negate a w) = 0 \<longleftrightarrow> fst (a w) \<noteq> 0"
  by (auto simp: negate_def split: prod.splits)

section \<open>The template as one chain\<close>

lemma group_flat:
  "testtemplate_group E seed fa gp gr kp kr cc ig filesize kl ta d w =
     and_list (template_steps E seed gp gr kp kr cc ig filesize kl ta d) (group_start fa w)"
proof -
  let ?c = "0 < filesize"
  let ?pre = "[echo_log (''Creating input file with size '' @ dec filesize @ '', path ''
                 @ inputpath d), ig seed (inputpath d) filesize]"
  let ?mid = "[echo_log ''PKCS library - generate'',
        gp kl (inputpath d) (pkcs_out_path d) ta,
        echo_log ''Reference - generate'',
        gr kl (inputpath d) (ref_out_path d) ta,
        echo_log ''Custom check pkcs output file against reference output file'',
        cc (pkcs_out_path d) (ref_out_path d) ta,
        echo_log ''Reference check of pkcs output'',
        kr kl (inputpath d) (pkcs_out_path d) ta,
        echo_log ''PKCS check of reference output'',
        kp kl (inputpath d) (ref_out_path d) ta]"
  let ?cs = "corrupt_steps E seed filesize d"
  let ?ns = "negative_steps kp kr kl ta d"
  let ?w0 = "group_start fa w"
  have tail: "and_list [if_fi ?c (and_list ?ns)] v = and_list (if ?c then ?ns else []) v" for v
    using and_list_if_fi[of ?c ?ns "[]" v] by simp
  have "testtemplate_group E seed fa gp gr kp kr cc ig filesize kl ta d w =
          and_list (?pre @ (if_fi ?c (and_list ?cs) # (?mid @ [if_fi ?c (and_list ?ns)]))) ?w0"
    by (simp add: testtemplate_group_def group_start_def echo_log_def)
  also have "\<dots> = and_list (?pre @ ((if ?c then ?cs else []) @ (?mid @ [if_fi ?c (and_list ?ns)]))) ?w0"
    by (rule and_list_suffix_cong) (rule and_list_if_fi)
  also have "\<dots> = and_list ((?pre @ (if ?c then ?cs else []) @ ?mid) @ [if_fi ?c (and_list ?ns)]) ?w0"
    by simp
  also have "\<dots> = and_list ((?pre @ (if ?c then ?cs else []) @ ?mid) @ (if ?c then ?ns else [])) ?w0"
    by (rule and_list_suffix_cong) (rule tail)
  also have "\<dots> = and_list (template_steps E seed gp gr kp kr cc ig filesize kl ta d) ?w0"
    by (simp add: template_steps_def positive_steps_def)
  finally show ?thesis .
qed

lemma template_unfold:
  "testtemplate_generate_check E tb tf gp gr kp kr cc ig filesize kl ta (sh, w) =
     (log_test_result (testname_of E tb filesize kl ta)
        (fst (and_list (template_steps E (prng_seed sh) gp gr kp kr cc ig filesize kl ta
                          (test_dir_of E tb tf filesize kl ta))
                (case_start tb tf filesize kl ta w))) sh,
      snd (and_list (template_steps E (prng_seed sh) gp gr kp kr cc ig filesize kl ta
                       (test_dir_of E tb tf filesize kl ta))
             (case_start tb tf filesize kl ta w)))"
  by (simp add: testtemplate_generate_check_def group_flat case_start_def split: prod.splits)

lemma passes_template:
  "passes (testtemplate_generate_check E tb tf gp gr kp kr cc ig filesize kl ta) (sh, w) \<longleftrightarrow>
     fst (and_list (template_steps E (prng_seed sh) gp gr kp kr cc ig filesize kl ta
                      (test_dir_of E tb tf filesize kl ta))
            (case_start tb tf filesize kl ta w)) = 0"
  by (simp add: passes_def template_unfold log_test_result_def)

section \<open>Decimal words\<close>

lemma dec_digit: "d < 10 \<Longrightarrow> digit_val (digit_char d) = Some d"
proof -
  assume "d < 10"
  then have "d \<in> {0, 1, 2, 3, 4, 5, 6, 7, 8, 9}" by auto
  then show ?thesis by (auto simp: digit_val_def digit_char_def)
qed

lemma undec_acc_append:
  "undec_acc a (xs @ ys) = (case undec_acc a xs of None \<Rightarrow> None | Some b \<Rightarrow> undec_acc b ys)"
  by (induction xs arbitrary: a) (auto split: option.splits)

lemma undec_acc_dec: "undec_acc a (dec n) = Some (a * 10 ^ length (dec n) + n)"
proof (induction n arbitrary: a rule: dec.induct)
  case (1 n)
  show ?case
  proof (cases "n < 10")
    case True
    then show ?thesis by (simp add: dec.simps[of n] dec_digit)
  next
    case False
    have "undec_acc a (dec n) = undec_acc a (dec (n div 10) @ [digit_char (n mod 10)])"
      using False by (simp add: dec.simps[of n])
    also have "\<dots> = Some (10 * (a * 10 ^ length (dec (n div 10)) + n div 10) + n mod 10)"
      using 1[OF False] by (simp add: undec_acc_append dec_digit)
    also have "\<dots> = Some (a * 10 ^ length (dec n) + n)"
      using False by (simp add: dec.simps[of n] algebra_simps)
    finally show ?thesis .
  qed
qed

lemma dec_nonempty: "dec n \<noteq> []"
  by (simp add: dec.simps[of n])

lemma undec_dec: "undec (dec n) = Some n"
  by (simp add: undec_def dec_nonempty undec_acc_dec)

lemma dec_inj: "dec m = dec n \<Longrightarrow> m = n"
  by (metis undec_dec option.inject)

lemma dec_is_128: "dec n = ''128'' \<longleftrightarrow> n = 128"
proof -
  have "dec 128 = ''128''"
    by (simp add: dec.simps digit_char_def)
  then show ?thesis
    using dec_inj[of n 128] by auto
qed

section \<open>Short-circuit at the case boundary\<close>

lemma template_case_steps:
  "testtemplate_generate_check E tb tf gp gr kp kr cc ig filesize kl ta (sh, w) =
     (log_test_result (testname_of E tb filesize kl ta)
        (fst (and_list (case_steps E sh tb tf gp gr kp kr cc ig filesize kl ta)
                (case_start tb tf filesize kl ta w))) sh,
      snd (and_list (case_steps E sh tb tf gp gr kp kr cc ig filesize kl ta)
             (case_start tb tf filesize kl ta w)))"
  by (simp add: template_unfold case_steps_def)



section \<open>What the suite does to the shell variables\<close>

lemma for_each_inv:
  assumes "\<And>x s. P s \<Longrightarrow> P (body x s)" and "P s"
  shows "P (for_each xs body s)"
  using assms(2) by (induction xs arbitrary: s) (auto intro: assms(1))

lemma for_each_exit_inv:
  assumes "\<And>x s s'. P s \<Longrightarrow> body x s = Inr s' \<Longrightarrow> P s'"
      and "P s" and "for_each_exit xs body s = Inr s'"
  shows "P s'"
  using assms(2,3)
proof (induction xs arbitrary: s)
  case Nil
  then show ?case by simp
next
  case (Cons x xs)
  then show ?case
    by (auto split: sum.splits dest: assms(1))
qed

lemma bind_exit_Inr:
  "bind_exit r f = Inr y \<longleftrightarrow> (\<exists>x. r = Inr x \<and> f x = Inr y)"
  by (cases r) (auto simp: bind_exit_def)

lemma provision_key_shell:
  "provision_key E key_id region keylabel st = Inr st' \<Longrightarrow> fst st' = fst st"
  by (auto simp: provision_key_def split: prod.splits if_splits)

lemma provision_key_w_cert_shell:
  "provision_key_w_cert E key_id region keylabel st = Inr st' \<Longrightarrow> fst st' = fst st"
  by (auto simp: provision_key_w_cert_def split: prod.splits if_splits)

lemma cleanup_key_shell: "fst (cleanup_key E keylabel st) = fst st"
  by (auto simp: cleanup_key_def split: prod.splits)

lemma cleanup_test_env_shell: "fst (cleanup_test_env E st) = fst st"
  by (auto simp: cleanup_test_env_def split: prod.splits)

lemma prepare_test_env_shell: "prepare_test_env E st = Inr st' \<Longrightarrow> fst st' = fst st"
  by (auto simp: prepare_test_env_def split: prod.splits if_splits)

lemma template_shell:
  "fst (testtemplate_generate_check E tb tf gp gr kp kr cc ig filesize kl ta st) =
     log_test_result (testname_of E tb filesize kl ta)
       (fst (and_list (case_steps E (fst st) tb tf gp gr kp kr cc ig filesize kl ta)
               (case_start tb tf filesize kl ta (snd st))))
       (fst st)"
  by (cases st) (simp add: template_case_steps)

lemma template_inv:
  assumes "\<And>t rc sh. Q sh \<Longrightarrow> Q (log_test_result t rc sh)" and "Q (fst st)"
  shows "Q (fst (testtemplate_generate_check E tb tf gp gr kp kr cc ig filesize kl ta st))"
  by (simp add: template_shell assms)

lemma tests_inv:
  assumes "\<And>t rc sh. Q sh \<Longrightarrow> Q (log_test_result t rc sh)" and "Q (fst st)"
  shows "Q (fst (test_openssl_digestsignverify_rsa E filesize kl digest st))"
    and "Q (fst (test_openssl_signverify_rsa_x509 E filesize kl st))"
    and "Q (fst (test_openssl_digestsignverify_rsapss E filesize kl saltlen digest st))"
    and "Q (fst (test_openssl_signverify_ecdsa E filesize kl st))"
    and "Q (fst (test_openssl_encryptdecrypt_rsa E filesize kl st))"
    and "Q (fst (test_openssl_encryptdecrypt_rsa_x509 E filesize kl st))"
  using assms(2)
  by (simp_all add: test_openssl_digestsignverify_rsa_def test_openssl_signverify_rsa_x509_def
        test_openssl_digestsignverify_rsapss_def test_openssl_signverify_ecdsa_def
        test_openssl_encryptdecrypt_rsa_def test_openssl_encryptdecrypt_rsa_x509_def
        template_inv[where Q = Q, OF assms(1)])

lemma rsa_signverify_tests_inv:
  assumes "\<And>t rc sh. Q sh \<Longrightarrow> Q (log_test_result t rc sh)" and "Q (fst st)"
      and "rsa_signverify_tests E key_id region rsa_key st = Inr st'"
  shows "Q (fst st')"
proof -
  obtain st1 where p: "provision_key E key_id region rsa_key st = Inr st1"
    using assms(3) by (auto simp: rsa_signverify_tests_def bind_exit_Inr)
  have q1: "Q (fst st1)"
    using provision_key_shell[OF p] assms(2) by simp
  let ?st2 = "for_each TEST_LARGE_FILE_SIZES (\<lambda>fsize.
                   for_each TEST_DIGESTS (\<lambda>digest.
                     for_each TEST_RSAPSS_SALT_SIZES (\<lambda>slen.
                       test_openssl_digestsignverify_rsapss E fsize rsa_key slen digest))) st1"
  have q2: "Q (fst ?st2)"
    by (intro for_each_inv[where P = "\<lambda>s. Q (fst s)"] tests_inv[where Q = Q, OF assms(1)] q1)
  let ?st3 = "for_each TEST_LARGE_FILE_SIZES (\<lambda>fsize.
                   for_each TEST_DIGESTS (\<lambda>digest.
                     test_openssl_digestsignverify_rsa E fsize rsa_key digest)) ?st2"
  have q3: "Q (fst ?st3)"
    by (intro for_each_inv[where P = "\<lambda>s. Q (fst s)"] tests_inv[where Q = Q, OF assms(1)] q2)
  show ?thesis
    using assms(3) p q3
    by (auto simp: rsa_signverify_tests_def bind_exit_def Let_def cleanup_key_shell
          tests_inv(2)[where Q = Q, OF assms(1)] split: if_splits)
qed

lemma ecdsa_signverify_tests_inv:
  assumes "\<And>t rc sh. Q sh \<Longrightarrow> Q (log_test_result t rc sh)" and "Q (fst st)"
      and "ecdsa_signverify_tests E key_id region ec_key st = Inr st'"
  shows "Q (fst st')"
proof -
  obtain st1 where p: "provision_key E key_id region ec_key st = Inr st1"
    using assms(3) by (auto simp: ecdsa_signverify_tests_def bind_exit_Inr)
  have q1: "Q (fst st1)"
    using provision_key_shell[OF p] assms(2) by simp
  have "Q (fst (for_each TEST_ECDSA_FILE_SIZES (\<lambda>fsize.
                 test_openssl_signverify_ecdsa E fsize ec_key) st1))"
    by (intro for_each_inv[where P = "\<lambda>s. Q (fst s)"] tests_inv[where Q = Q, OF assms(1)] q1)
  then show ?thesis
    using assms(3) p
    by (auto simp: ecdsa_signverify_tests_def bind_exit_def cleanup_key_shell)
qed

lemma rsa_encryptdecrypt_tests_inv:
  assumes "\<And>t rc sh. Q sh \<Longrightarrow> Q (log_test_result t rc sh)" and "Q (fst st)"
      and "rsa_encryptdecrypt_tests E key_id region rsa_key st = Inr st'"
  shows "Q (fst st')"
proof -
  obtain st1 where p: "provision_key E key_id region rsa_key st = Inr st1"
    using assms(3) by (auto simp: rsa_encryptdecrypt_tests_def bind_exit_Inr)
  have q1: "Q (fst st1)"
    using provision_key_shell[OF p] assms(2) by simp
  let ?st2 = "for_each TEST_SMALL_FILE_SIZES (\<lambda>fsize.
                   test_openssl_encryptdecrypt_rsa E fsize rsa_key) st1"
  have q2: "Q (fst ?st2)"
    by (intro for_each_inv[where P = "\<lambda>s. Q (fst s)"] tests_inv[where Q = Q, OF assms(1)] q1)
  show ?thesis
    using assms(3) p q2
    by (auto simp: rsa_encryptdecrypt_tests_def bind_exit_def Let_def cleanup_key_shell
          tests_inv(6)[where Q = Q, OF assms(1)] split: if_splits)
qed

lemma x509_export_inv:
  assumes "\<And>t rc sh. Q sh \<Longrightarrow> Q (log_test_result t rc sh)" and "Q (fst st)"
      and "x509_export E key_id region label testname neg st = Inr st'"
  shows "Q (fst st')"
proof -
  obtain st1 where p: "provision_key_w_cert E key_id region label st = Inr st1"
    using assms(3) by (auto simp: x509_export_def bind_exit_Inr)
  have q1: "Q (fst st1)"
    using provision_key_w_cert_shell[OF p] assms(2) by simp
  show ?thesis
    using assms(3) p q1
    by (auto simp: x509_export_def bind_exit_def cleanup_key_shell assms(1)
          split: prod.splits)
qed

lemma x509_tests_inv:
  assumes "\<And>t rc sh. Q sh \<Longrightarrow> Q (log_test_result t rc sh)" and "Q (fst st)"
      and "x509_tests E key_id region st = Inr st'"
  shows "Q (fst st')"
proof -
  obtain sh w where st: "st = (sh, w)" by (cases st)
  obtain rc w1 where y: "yum E [''list'', ''installed'', ''gnutls-utils''] w = (rc, w1)"
    by (cases "yum E [''list'', ''installed'', ''gnutls-utils''] w")
  show ?thesis
  proof (cases "rc = 0")
    case False
    then show ?thesis using assms(2,3) st y by (auto simp: x509_tests_def)
  next
    case True
    then obtain s1 s2 s3 where
      e1: "x509_export E key_id region ''selfsigned'' ''test_x509_single_cert'' False
             (sh, make_certs E w1) = Inr s1" and
      e2: "x509_export E key_id region ''valid_chain'' ''test_x509_valid_chain'' False s1 = Inr s2" and
      e3: "x509_export E key_id region ''noroot_chain'' ''test_x509_noroot_chain'' False s2 = Inr s3" and
      e4: "x509_export E key_id region ''invalid_chain'' ''test_x509_invalid_chain'' True s3 = Inr st'"
      using assms(3) st y by (auto simp: x509_tests_def bind_exit_Inr)
    have "Q (fst (sh, make_certs E w1))" using assms(2) st by simp
    from x509_export_inv[where Q = Q, OF assms(1) this e1] have "Q (fst s1)" .
    from x509_export_inv[where Q = Q, OF assms(1) this e2] have "Q (fst s2)" .
    from x509_export_inv[where Q = Q, OF assms(1) this e3] have "Q (fst s3)" .
    from x509_export_inv[where Q = Q, OF assms(1) this e4] show ?thesis .
  qed
qed

lemma cmd_openssl_inv:
  assumes "\<And>t rc sh. Q sh \<Longrightarrow> Q (log_test_result t rc sh)" and "Q (fst st)"
      and "cmd_openssl E args st = Inr st'"
  shows "Q (fst st')"
proof -
  obtain key_id region st1 st2 st3 st4 st5 where
    a0: "parse_kms_args args ([], []) = Inr (key_id, region)" and
    a1: "prepare_test_env E st = Inr st1" and
    a2: "for_each_exit RSA_KEYS (rsa_signverify_tests E key_id region) st1 = Inr st2" and
    a3: "for_each_exit ECDSA_KEYS (ecdsa_signverify_tests E key_id region) st2 = Inr st3" and
    a4: "for_each_exit RSA_KEYS (rsa_encryptdecrypt_tests E key_id region) st3 = Inr st4" and
    a5: "x509_tests E key_id region st4 = Inr st5" and
    a6: "st' = cleanup_test_env E st5"
    using assms(3) by (auto simp: cmd_openssl_def bind_exit_Inr)
  have "Q (fst st1)"
    using prepare_test_env_shell[OF a1] assms(2) by simp
  then have "Q (fst st2)"
    using for_each_exit_inv[where P = "\<lambda>s. Q (fst s)", OF _ _ a2]
      rsa_signverify_tests_inv[where Q = Q, OF assms(1)] by blast
  then have "Q (fst st3)"
    using for_each_exit_inv[where P = "\<lambda>s. Q (fst s)", OF _ _ a3]
      ecdsa_signverify_tests_inv[where Q = Q, OF assms(1)] by blast
  then have "Q (fst st4)"
    using for_each_exit_inv[where P = "\<lambda>s. Q (fst s)", OF _ _ a4]
      rsa_encryptdecrypt_tests_inv[where Q = Q, OF assms(1)] by blast
  then have "Q (fst st5)"
    using x509_tests_inv[where Q = Q, OF assms(1) _ a5] by blast
  then show ?thesis
    by (simp add: a6 cleanup_test_env_shell)
qed

lemma run_cmd_inv:
  assumes "\<And>t rc sh. Q sh \<Longrightarrow> Q (log_test_result t rc sh)" and "Q (fst st)"
      and "run_cmd E args st = Inr st'"
  shows "Q (fst st')"
  using assms(2,3) cmd_openssl_inv[where Q = Q, OF assms(1), of st E "tl args" st']
  by (auto simp: run_cmd_def cmd_help_def split: if_splits)

section \<open>The ledger\<close>

lemma ledger_ok_log: "ledger_ok sh \<Longrightarrow> ledger_ok (log_test_result t rc sh)"
  by (simp add: ledger_ok_def log_test_result_def)

lemma ledger_ok_sum:
  "ledger_ok sh \<Longrightarrow> num_tests_passed sh + num_tests_failed sh = length (verdicts sh)"
  by (simp add: ledger_ok_def sum_length_filter_compl)

lemma ledger_ok_initial: "ledger_ok (initial_shell\<lparr>prng_seed := s\<rparr>)"
  by (simp add: ledger_ok_def initial_shell_def)

text \<open>
  C10: a call of \<^verbatim>\<open>log_test_result\<close> adds one to exactly one counter (the counter of
  passed tests exactly when the reported status is 0) and prints one verdict. Nothing else
  changes the counters: a test case changes the shell variables by its one call only, and
  the whole test set keeps each counter equal to the number of verdicts of its kind, so
  that their sum is the number of verdicts logged. The summary that \<^verbatim>\<open>main\<close> prints
  is made of these two counters.
\<close>

theorem ledger_invariant:
  "num_tests_passed (log_test_result t rc sh) = num_tests_passed sh + (if rc = 0 then 1 else 0)
   \<and> num_tests_failed (log_test_result t rc sh) = num_tests_failed sh + (if rc = 0 then 0 else 1)
   \<and> verdicts (log_test_result t rc sh) = verdicts sh @ [(t, rc = 0)]
   \<and> fst (testtemplate_generate_check E tb tf gp gr kp kr cc ig filesize kl ta (sh, w)) =
       log_test_result (testname_of E tb filesize kl ta)
         (fst (and_list (case_steps E sh tb tf gp gr kp kr cc ig filesize kl ta)
                 (case_start tb tf filesize kl ta w))) sh
   \<and> (ledger_ok sh \<longrightarrow>
        num_tests_passed sh + num_tests_failed sh = length (verdicts sh)
        \<and> ledger_ok (log_test_result t rc sh)
        \<and> (case cmd_openssl E args (sh, w) of
             Inl c \<Rightarrow> True
           | Inr st' \<Rightarrow> ledger_ok (fst st')
               \<and> num_tests_passed (fst st') + num_tests_failed (fst st') = length (verdicts (fst st'))))
   \<and> (case run_cmd E args (initial_shell\<lparr>prng_seed := dec random\<rparr>, w) of
        Inl c \<Rightarrow> main_group E random args (initial_shell, w) = (c, None)
      | Inr st' \<Rightarrow>
          ledger_ok (fst st')
          \<and> snd (main_group E random args (initial_shell, w)) =
              (if join_with '' '' args \<noteq> ''help''
               then Some ([CHR 0x0A] @ dec (num_tests_passed (fst st')) @ '' tests passed, ''
                            @ dec (num_tests_failed (fst st')) @ '' tests failed'' @ [CHR 0x0A])
               else None))"
proof -
  have c: "ledger_ok (fst st')" if "ledger_ok sh" "cmd_openssl E args (sh, w) = Inr st'" for st'
    using cmd_openssl_inv[where Q = ledger_ok, OF ledger_ok_log _ that(2)] that(1) by simp
  have r: "ledger_ok (fst st')"
    if "run_cmd E args (initial_shell\<lparr>prng_seed := dec random\<rparr>, w) = Inr st'" for st'
    using run_cmd_inv[where Q = ledger_ok, OF ledger_ok_log _ that] ledger_ok_initial by simp
  have p1: "ledger_ok sh \<longrightarrow>
        num_tests_passed sh + num_tests_failed sh = length (verdicts sh)
        \<and> ledger_ok (log_test_result t rc sh)
        \<and> (case cmd_openssl E args (sh, w) of
             Inl c \<Rightarrow> True
           | Inr st' \<Rightarrow> ledger_ok (fst st')
               \<and> num_tests_passed (fst st') + num_tests_failed (fst st') = length (verdicts (fst st')))"
    using c by (auto simp: ledger_ok_log ledger_ok_sum split: sum.splits)
  have p2: "(case run_cmd E args (initial_shell\<lparr>prng_seed := dec random\<rparr>, w) of
        Inl c \<Rightarrow> main_group E random args (initial_shell, w) = (c, None)
      | Inr st' \<Rightarrow>
          ledger_ok (fst st')
          \<and> snd (main_group E random args (initial_shell, w)) =
              (if join_with '' '' args \<noteq> ''help''
               then Some ([CHR 0x0A] @ dec (num_tests_passed (fst st')) @ '' tests passed, ''
                            @ dec (num_tests_failed (fst st')) @ '' tests failed'' @ [CHR 0x0A])
               else None))"
    using r by (auto simp: main_group_def test_results_summary_def split: sum.splits prod.splits)
  have p0: "fst (testtemplate_generate_check E tb tf gp gr kp kr cc ig filesize kl ta (sh, w)) =
       log_test_result (testname_of E tb filesize kl ta)
         (fst (and_list (case_steps E sh tb tf gp gr kp kr cc ig filesize kl ta)
                 (case_start tb tf filesize kl ta w))) sh"
    using template_shell[of E tb tf gp gr kp kr cc ig filesize kl ta "(sh, w)"] by simp
  show ?thesis
    using p0 p1 p2 by (simp add: log_test_result_def)
qed

theorem ledger_invariant_witness:
  "ledger_ok initial_shell
   \<and> num_tests_passed initial_shell + num_tests_failed initial_shell = length (verdicts initial_shell)
   \<and> ledger_ok (log_test_result ''test_x509_single_cert'' 1 initial_shell)
   \<and> num_tests_failed (log_test_result ''test_x509_single_cert'' 1 initial_shell) = 1
   \<and> num_tests_passed (log_test_result ''test_x509_single_cert'' 1 initial_shell) = 0
   \<and> verdicts (log_test_result ''test_x509_single_cert'' 1 initial_shell)
        = [(''test_x509_single_cert'', False)]"
proof -
  have h: "ledger_ok initial_shell"
    by (simp add: ledger_ok_def initial_shell_def)
  show ?thesis
    using h ledger_invariant[of "''test_x509_single_cert''" 1 initial_shell sample_tools
        "''t''" "''f''" accept_all accept_all accept_all accept_all true_cmd
        "create_test_random_file sample_tools" 0 "''k''" "[]" sample_world "[]" 0]
    by (simp add: initial_shell_def)
qed

section \<open>Steps of a passing case\<close>

lemma all_ok_nth:
  assumes "fst (and_list xs w) = 0" and "k < length xs"
  shows "reaches xs k w \<and> fst ((xs ! k) (world_at xs k w)) = 0"
proof -
  have "xs = take k xs @ (xs ! k) # drop (Suc k) xs"
    using assms(2) by (simp add: id_take_nth_drop)
  then have "fst (and_list (take k xs @ (xs ! k) # drop (Suc k) xs) w) = 0"
    using assms(1) by simp
  from and_list_ok_prefix[OF this] and_list_ok_Cons show ?thesis
    by (auto simp: reaches_def world_at_def dest!: and_list_ok_Cons)
qed

lemma case_steps_payload:
  assumes "0 < filesize"
  shows "case_steps E sh tb tf gp gr kp kr cc ig filesize kl ta =
     [echo_log (''Creating input file with size '' @ dec filesize @ '', path ''
                @ inputpath (test_dir_of E tb tf filesize kl ta)),
      ig (prng_seed sh) (inputpath (test_dir_of E tb tf filesize kl ta)) filesize,
      echo_log ''Corrupting input file'',
      bitflip E (prng_seed sh) (inputpath (test_dir_of E tb tf filesize kl ta))
        (corruptedinputpath (test_dir_of E tb tf filesize kl ta)) 0 (8 * filesize),
      negate (diff_files (inputpath (test_dir_of E tb tf filesize kl ta))
                (corruptedinputpath (test_dir_of E tb tf filesize kl ta))),
      echo_log ''PKCS library - generate'',
      gp kl (inputpath (test_dir_of E tb tf filesize kl ta))
        (pkcs_out_path (test_dir_of E tb tf filesize kl ta)) ta,
      echo_log ''Reference - generate'',
      gr kl (inputpath (test_dir_of E tb tf filesize kl ta))
        (ref_out_path (test_dir_of E tb tf filesize kl ta)) ta,
      echo_log ''Custom check pkcs output file against reference output file'',
      cc (pkcs_out_path (test_dir_of E tb tf filesize kl ta))
        (ref_out_path (test_dir_of E tb tf filesize kl ta)) ta,
      echo_log ''Reference check of pkcs output'',
      kr kl (inputpath (test_dir_of E tb tf filesize kl ta))
        (pkcs_out_path (test_dir_of E tb tf filesize kl ta)) ta,
      echo_log ''PKCS check of reference output'',
      kp kl (inputpath (test_dir_of E tb tf filesize kl ta))
        (ref_out_path (test_dir_of E tb tf filesize kl ta)) ta,
      echo_log (''Checking that the PKCS output can not be checked ''
                @ ''against corrupted input by reference checker''),
      negate (kr kl (corruptedinputpath (test_dir_of E tb tf filesize kl ta))
                (pkcs_out_path (test_dir_of E tb tf filesize kl ta)) ta),
      echo_log (''Checking that the reference output can not be checked ''
                @ ''against corrupted input using pkcs11 module''),
      negate (kp kl (corruptedinputpath (test_dir_of E tb tf filesize kl ta))
                (ref_out_path (test_dir_of E tb tf filesize kl ta)) ta)]"
  using assms
  by (simp add: case_steps_def template_steps_def positive_steps_def corrupt_steps_def
        negative_steps_def)

lemma case_steps_empty:
  "case_steps E sh tb tf gp gr kp kr cc ig 0 kl ta =
     [echo_log (''Creating input file with size '' @ dec 0 @ '', path ''
                @ inputpath (test_dir_of E tb tf 0 kl ta)),
      ig (prng_seed sh) (inputpath (test_dir_of E tb tf 0 kl ta)) 0,
      echo_log ''PKCS library - generate'',
      gp kl (inputpath (test_dir_of E tb tf 0 kl ta)) (pkcs_out_path (test_dir_of E tb tf 0 kl ta)) ta,
      echo_log ''Reference - generate'',
      gr kl (inputpath (test_dir_of E tb tf 0 kl ta)) (ref_out_path (test_dir_of E tb tf 0 kl ta)) ta,
      echo_log ''Custom check pkcs output file against reference output file'',
      cc (pkcs_out_path (test_dir_of E tb tf 0 kl ta)) (ref_out_path (test_dir_of E tb tf 0 kl ta)) ta,
      echo_log ''Reference check of pkcs output'',
      kr kl (inputpath (test_dir_of E tb tf 0 kl ta)) (pkcs_out_path (test_dir_of E tb tf 0 kl ta)) ta,
      echo_log ''PKCS check of reference output'',
      kp kl (inputpath (test_dir_of E tb tf 0 kl ta)) (ref_out_path (test_dir_of E tb tf 0 kl ta)) ta]"
  by (simp add: case_steps_def template_steps_def positive_steps_def)

lemma passes_case_steps:
  "passes (testtemplate_generate_check E tb tf gp gr kp kr cc ig filesize kl ta) (sh, w) \<longleftrightarrow>
     fst (and_list (case_steps E sh tb tf gp gr kp kr cc ig filesize kl ta)
            (case_start tb tf filesize kl ta w)) = 0"
  by (simp add: passes_template case_steps_def)



section \<open>Going on from a step of a chain\<close>

text \<open>A chain that has reached step \<open>k\<close> goes on from the world of that step.\<close>

lemma chain_from:
  assumes "reaches xs k w"
  shows "and_list xs w = and_list (drop k xs) (world_at xs k w)"
proof -
  have "and_list (take k xs @ drop k xs) w = and_list (drop k xs) (snd (and_list (take k xs) w))"
    using assms by (intro and_list_ok_snd) (simp add: reaches_def)
  then show ?thesis by (simp add: world_at_def)
qed

lemma template_from_step:
  assumes "reaches (case_steps E sh tb tf gp gr kp kr cc ig filesize kl ta) k
             (case_start tb tf filesize kl ta w)"
  shows "testtemplate_generate_check E tb tf gp gr kp kr cc ig filesize kl ta (sh, w) =
     (log_test_result (testname_of E tb filesize kl ta)
        (fst (and_list (drop k (case_steps E sh tb tf gp gr kp kr cc ig filesize kl ta))
                (world_at (case_steps E sh tb tf gp gr kp kr cc ig filesize kl ta) k
                   (case_start tb tf filesize kl ta w)))) sh,
      snd (and_list (drop k (case_steps E sh tb tf gp gr kp kr cc ig filesize kl ta))
             (world_at (case_steps E sh tb tf gp gr kp kr cc ig filesize kl ta) k
                (case_start tb tf filesize kl ta w))))"
  using chain_from[OF assms] by (simp add: template_case_steps)

lemma template_fails_at:
  assumes "k < length (case_steps E sh tb tf gp gr kp kr cc ig filesize kl ta)"
      and "reaches (case_steps E sh tb tf gp gr kp kr cc ig filesize kl ta) k
             (case_start tb tf filesize kl ta w)"
      and "fst ((case_steps E sh tb tf gp gr kp kr cc ig filesize kl ta ! k)
             (world_at (case_steps E sh tb tf gp gr kp kr cc ig filesize kl ta) k
                (case_start tb tf filesize kl ta w))) \<noteq> 0"
  shows "testtemplate_generate_check E tb tf gp gr kp kr cc ig filesize kl ta (sh, w) =
           (sh\<lparr>num_tests_failed := num_tests_failed sh + 1,
               verdicts := verdicts sh @ [(testname_of E tb filesize kl ta, False)]\<rparr>,
            snd ((case_steps E sh tb tf gp gr kp kr cc ig filesize kl ta ! k)
                   (world_at (case_steps E sh tb tf gp gr kp kr cc ig filesize kl ta) k
                      (case_start tb tf filesize kl ta w))))"
proof -
  let ?steps = "case_steps E sh tb tf gp gr kp kr cc ig filesize kl ta"
  let ?w0 = "case_start tb tf filesize kl ta w"
  have a2: "fst (and_list (take k ?steps) ?w0) = 0"
    using assms(2) by (simp add: reaches_def)
  have a3: "fst ((?steps ! k) (snd (and_list (take k ?steps) ?w0))) \<noteq> 0"
    using assms(3) by (simp add: world_at_def)
  have "and_list ?steps ?w0 = (?steps ! k) (world_at ?steps k ?w0)"
    using and_list_nth_fail[OF assms(1) a2 a3, of "drop (Suc k) ?steps"]
    by (simp add: world_at_def)
  then show ?thesis
    using assms(3) by (simp add: template_case_steps log_test_result_def)
qed

lemma passes_reaches:
  assumes "passes (testtemplate_generate_check E tb tf gp gr kp kr cc ig filesize kl ta) (sh, w)"
      and "k \<le> length (case_steps E sh tb tf gp gr kp kr cc ig filesize kl ta)"
  shows "reaches (case_steps E sh tb tf gp gr kp kr cc ig filesize kl ta) k
           (case_start tb tf filesize kl ta w)"
proof -
  let ?steps = "case_steps E sh tb tf gp gr kp kr cc ig filesize kl ta"
  have "fst (and_list (take k ?steps @ drop k ?steps) (case_start tb tf filesize kl ta w)) = 0"
    using assms(1) by (simp add: passes_case_steps)
  from and_list_ok_prefix[OF this] show ?thesis
    by (simp add: reaches_def)
qed


lemma chain_fails_at:
  assumes "k < length xs" and "reaches xs k w" and "fst ((xs ! k) (world_at xs k w)) \<noteq> 0"
  shows "and_list xs w = (xs ! k) (world_at xs k w)"
proof -
  have a2: "fst (and_list (take k xs) w) = 0"
    using assms(2) by (simp add: reaches_def)
  have a3: "fst ((xs ! k) (snd (and_list (take k xs) w))) \<noteq> 0"
    using assms(3) by (simp add: world_at_def)
  show ?thesis
    using and_list_nth_fail[OF assms(1) a2 a3, of "drop (Suc k) xs"]
    by (simp add: world_at_def)
qed

lemma group_case_steps:
  "testtemplate_group E (prng_seed sh) (join_with '' '' ([tb, tf, dec filesize, kl] @ ta))
       gp gr kp kr cc ig filesize kl ta (test_dir_of E tb tf filesize kl ta) (w\<lparr>caselog := []\<rparr>) =
     and_list (case_steps E sh tb tf gp gr kp kr cc ig filesize kl ta)
       (case_start tb tf filesize kl ta w)"
  by (simp add: group_flat case_steps_def case_start_def)


section \<open>The corruption\<close>

lemma bit_position: "j < 8 \<Longrightarrow> (i = k div 8 \<and> j = k mod 8) = (8 * i + j = (k::nat))"
  by auto

lemma bit_flipped:
  "j < 8 \<Longrightarrow> bit ((x::byte) XOR 2 ^ m) j = (bit x j \<noteq> (j = m))"
  by (auto simp: bit_xor_iff bit_exp_iff)

lemma flip_bit_differs:
  assumes "k < 8 * length bs"
  shows "differs_in_bit_only (flip_bit k bs) bs k"
proof -
  have d: "k div 8 < length bs" using assms by auto
  have "(bit (flip_bit k bs ! i) j \<noteq> bit (bs ! i) j) = (8 * i + j = k)"
    if "i < length bs" "j < 8" for i j
  proof (cases "i = k div 8")
    case True
    then show ?thesis
      using that d bit_position[of j i k] by (auto simp: flip_bit_def bit_flipped)
  next
    case False
    then show ?thesis
      using that bit_position[of j i k] by (auto simp: flip_bit_def)
  qed
  then show ?thesis
    using assms by (simp add: differs_in_bit_only_def flip_bit_def)
qed

lemma differs_neq: "differs_in_bit_only xs ys k \<Longrightarrow> xs \<noteq> ys"
proof
  assume a: "differs_in_bit_only xs ys k" and e: "xs = ys"
  have k: "k < 8 * length ys" using a by (simp add: differs_in_bit_only_def)
  then have "k div 8 < length ys" and "k mod 8 < 8" by auto
  then have "(bit (xs ! (k div 8)) (k mod 8) \<noteq> bit (ys ! (k div 8)) (k mod 8))
               = (8 * (k div 8) + k mod 8 = k)"
    using a by (simp add: differs_in_bit_only_def)
  then show False using e by simp
qed

lemma spec_prng_file:
  "testhelpers E = spec_testhelpers content pick \<Longrightarrow>
   create_test_random_file E seed p n w =
     (0, w\<lparr>files := (files w)(p \<mapsto> map (content seed n) [0..<n])\<rparr>)"
  by (simp add: create_test_random_file_def run_helper_def spec_testhelpers_def undec_dec)

lemma spec_bitflip:
  assumes "testhelpers E = spec_testhelpers content pick"
      and "0 < n" and "files w inp = Some bs" and "length bs = n" and "inp \<noteq> cor"
  shows "bitflip E seed inp cor 0 (8 * n) w =
     (0, w\<lparr>files := (files w)(cor \<mapsto> flip_bit (chosen_bit pick seed n) bs),
           caselog := caselog w @ [''Flipping bit '' @ dec (chosen_bit pick seed n)]\<rparr>)"
proof -
  have r: "chosen_bit pick seed n < 8 * length bs"
    using assms(2,4) by (simp add: chosen_bit_def)
  have i: "testhelpers E [''prng_int'', seed, dec 0, dec (8 * n)] v =
             (0, dec (chosen_bit pick seed n), v)" for v
    using assms(1,2) by (simp add: spec_testhelpers_def undec_dec chosen_bit_def)
  have f: "testhelpers E [''bitflip'', cor, dec (chosen_bit pick seed n)] v =
             (0, [], v\<lparr>files := (files v)(cor \<mapsto> flip_bit (chosen_bit pick seed n) bs)\<rparr>)"
    if "files v cor = Some bs" for v
    using assms(1) r that by (simp add: spec_testhelpers_def undec_dec)
  show ?thesis
    using assms(3) by (simp add: bitflip_def cp_def i and_then_def echo_log_def run_helper_def f)
qed

lemma and_list_single: "and_list [a] w = a w"
  by (simp split: prod.splits)

lemma paths_differ: "inputpath d \<noteq> corruptedinputpath d"
  by (simp add: inputpath_def corruptedinputpath_def)

lemma dec_int_minus_one: "0 < n \<Longrightarrow> dec_int (int n - 1) = dec (n - 1)"
  by (simp add: dec_int_def nat_diff_distrib')

lemma spec_prng_file_rsax509:
  assumes "testhelpers E = spec_testhelpers content pick" and "0 < n"
  shows "fst (create_test_random_file_rsax509 E seed p n w) = 0
       \<and> files (snd (create_test_random_file_rsax509 E seed p n w)) p =
           Some (0x41 # map (content seed (n - 1)) [0..<n - 1])"
proof -
  obtain d w0 where m: "mktemp E w = (d, w0)" by (cases "mktemp E w")
  have h: "run_helper E [''prng_file'', d @ ''/input'', dec (n - 1), seed] w0 =
             (0, w0\<lparr>files := (files w0)(d @ ''/input'' \<mapsto> map (content seed (n - 1)) [0..<n - 1])\<rparr>)"
    using assms(1) by (simp add: run_helper_def spec_testhelpers_def undec_dec)
  show ?thesis
    using assms(2) m h
    by (simp add: create_test_random_file_rsax509_def dec_int_minus_one and_then_def cat_A_def)
qed

lemma corruption_in_chain:
  assumes "0 < filesize" and "testhelpers E = spec_testhelpers content pick"
      and g: "\<And>v. fst (ig (prng_seed sh) (inputpath (test_dir_of E tb tf filesize kl ta)) filesize v) = 0
               \<and> files (snd (ig (prng_seed sh) (inputpath (test_dir_of E tb tf filesize kl ta))
                                 filesize v))
                     (inputpath (test_dir_of E tb tf filesize kl ta)) = Some bs"
      and "length bs = filesize"
  shows "reaches (case_steps E sh tb tf gp gr kp kr cc ig filesize kl ta) 5 w0
       \<and> files (world_at (case_steps E sh tb tf gp gr kp kr cc ig filesize kl ta) 5 w0)
           (inputpath (test_dir_of E tb tf filesize kl ta)) = Some bs
       \<and> files (world_at (case_steps E sh tb tf gp gr kp kr cc ig filesize kl ta) 5 w0)
           (corruptedinputpath (test_dir_of E tb tf filesize kl ta))
           = Some (flip_bit (chosen_bit pick (prng_seed sh) filesize) bs)"
proof -
  let ?d = "test_dir_of E tb tf filesize kl ta"
  let ?a = "inputpath ?d"
  let ?c = "corruptedinputpath ?d"
  let ?k = "chosen_bit pick (prng_seed sh) filesize"
  let ?e1 = "echo_log (''Creating input file with size '' @ dec filesize @ '', path '' @ ?a)"
  let ?w1 = "snd (?e1 w0)"
  obtain w2 where i: "ig (prng_seed sh) ?a filesize ?w1 = (0, w2)" and f2: "files w2 ?a = Some bs"
    using g[of ?w1] by (cases "ig (prng_seed sh) ?a filesize ?w1") auto
  let ?w3 = "snd (echo_log ''Corrupting input file'' w2)"
  have f3: "files ?w3 ?a = Some bs"
    using f2 by (simp add: echo_log_def)
  note b = spec_bitflip[OF assms(2) assms(1) f3 assms(4) paths_differ, of "prng_seed sh"]
  have r: "?k < 8 * length bs"
    using assms(1,4) by (simp add: chosen_bit_def)
  have n: "flip_bit ?k bs \<noteq> bs"
    using differs_neq[OF flip_bit_differs[OF r]] .
  have t: "take 5 (case_steps E sh tb tf gp gr kp kr cc ig filesize kl ta) =
      [?e1, ig (prng_seed sh) ?a filesize, echo_log ''Corrupting input file'',
       bitflip E (prng_seed sh) ?a ?c 0 (8 * filesize), negate (diff_files ?a ?c)]"
    by (simp add: case_steps_payload[OF assms(1)])
  have run: "and_list (take 5 (case_steps E sh tb tf gp gr kp kr cc ig filesize kl ta)) w0 =
      (0, ?w3\<lparr>files := (files ?w3)(?c \<mapsto> flip_bit ?k bs),
               caselog := caselog ?w3 @ [''Flipping bit '' @ dec ?k]\<rparr>)"
    unfolding t using i b f3 n paths_differ[of ?d]
    by (simp add: echo_log_def negate_def diff_files_def)
  show ?thesis
    using f3 paths_differ[of ?d] unfolding reaches_def world_at_def run by simp
qed

text \<open>
  C2: with the helper as the specification describes it, the corruption of a payload of
  \<open>size > 0\<close> bytes succeeds, leaves the original as it is, and makes a copy of the same
  length that differs from it in the bit \<open>chosen_bit pick seed size\<close> only, an index
  below \<open>8 * size\<close>; the copy is not byte-equal to the original and \<^verbatim>\<open>! diff\<close> returns
  0 on the two. In the chain of a case with either input generator, the first five steps
  (generation, corruption, assertion) then return 0, the corrupted file is the
  generated payload with that one bit flipped, and \<^verbatim>\<open>testtemplate_generate_check\<close> records
  what the rest of the chain returns from there. Whatever the helper does, step 4 of the
  chain is the assertion, and the generating operations are the steps 6 and 8, after it;
  if \<^verbatim>\<open>diff\<close> finds the corrupted file byte-equal to the input there,
  \<^verbatim>\<open>testtemplate_group\<close> returns 1 in the world of the assertion, no later step having run,
  and \<^verbatim>\<open>testtemplate_generate_check\<close> records the case as failed; a case that passes has
  seen \<^verbatim>\<open>diff\<close> return nonzero there, on two files that are not byte-equal.
\<close>

theorem corruption_flips_one_bit:
  assumes "0 < filesize" and "files w inp = Some bs" and "length bs = filesize" and "inp \<noteq> cor"
  shows "fst (bitflip (E\<lparr>testhelpers := spec_testhelpers content pick\<rparr>) seed inp cor 0 (8 * filesize) w) = 0
       \<and> files (snd (bitflip (E\<lparr>testhelpers := spec_testhelpers content pick\<rparr>) seed inp cor 0
                       (8 * filesize) w)) inp = Some bs
       \<and> files (snd (bitflip (E\<lparr>testhelpers := spec_testhelpers content pick\<rparr>) seed inp cor 0
                       (8 * filesize) w)) cor = Some (flip_bit (chosen_bit pick seed filesize) bs)
       \<and> chosen_bit pick seed filesize < 8 * filesize
       \<and> differs_in_bit_only (flip_bit (chosen_bit pick seed filesize) bs) bs
           (chosen_bit pick seed filesize)
       \<and> flip_bit (chosen_bit pick seed filesize) bs \<noteq> bs
       \<and> fst (negate (diff_files inp cor)
                (snd (bitflip (E\<lparr>testhelpers := spec_testhelpers content pick\<rparr>) seed inp cor 0
                        (8 * filesize) w))) = 0
       \<and> reaches (case_steps (E\<lparr>testhelpers := spec_testhelpers content pick\<rparr>) sh tb tf gp gr kp kr cc
                    (create_test_random_file (E\<lparr>testhelpers := spec_testhelpers content pick\<rparr>))
                    filesize kl ta) 5 w0
       \<and> files (world_at (case_steps (E\<lparr>testhelpers := spec_testhelpers content pick\<rparr>) sh tb tf gp gr
                    kp kr cc (create_test_random_file (E\<lparr>testhelpers := spec_testhelpers content pick\<rparr>))
                    filesize kl ta) 5 w0)
           (corruptedinputpath (test_dir_of (E\<lparr>testhelpers := spec_testhelpers content pick\<rparr>) tb tf
              filesize kl ta))
           = Some (flip_bit (chosen_bit pick (prng_seed sh) filesize)
                     (map (content (prng_seed sh) filesize) [0..<filesize]))
       \<and> reaches (case_steps (E\<lparr>testhelpers := spec_testhelpers content pick\<rparr>) sh tb tf gp gr kp kr cc
                    (create_test_random_file_rsax509 (E\<lparr>testhelpers := spec_testhelpers content pick\<rparr>))
                    filesize kl ta) 5 w0
       \<and> files (world_at (case_steps (E\<lparr>testhelpers := spec_testhelpers content pick\<rparr>) sh tb tf gp gr
                    kp kr cc
                    (create_test_random_file_rsax509 (E\<lparr>testhelpers := spec_testhelpers content pick\<rparr>))
                    filesize kl ta) 5 w0)
           (corruptedinputpath (test_dir_of (E\<lparr>testhelpers := spec_testhelpers content pick\<rparr>) tb tf
              filesize kl ta))
           = Some (flip_bit (chosen_bit pick (prng_seed sh) filesize)
                     (0x41 # map (content (prng_seed sh) (filesize - 1)) [0..<filesize - 1]))
       \<and> case_steps E2 sh tb tf gp gr kp kr cc ig filesize kl ta ! 4 =
           negate (diff_files (inputpath (test_dir_of E2 tb tf filesize kl ta))
                     (corruptedinputpath (test_dir_of E2 tb tf filesize kl ta)))
       \<and> (reaches (case_steps E2 sh tb tf gp gr kp kr cc ig filesize kl ta) 5 w0 \<longrightarrow>
            fst (diff_files (inputpath (test_dir_of E2 tb tf filesize kl ta))
                   (corruptedinputpath (test_dir_of E2 tb tf filesize kl ta))
                   (world_at (case_steps E2 sh tb tf gp gr kp kr cc ig filesize kl ta) 4 w0)) \<noteq> 0
            \<and> \<not> (files (world_at (case_steps E2 sh tb tf gp gr kp kr cc ig filesize kl ta) 5 w0)
                     (inputpath (test_dir_of E2 tb tf filesize kl ta)) \<noteq> None
                   \<and> files (world_at (case_steps E2 sh tb tf gp gr kp kr cc ig filesize kl ta) 5 w0)
                       (corruptedinputpath (test_dir_of E2 tb tf filesize kl ta))
                     = files (world_at (case_steps E2 sh tb tf gp gr kp kr cc ig filesize kl ta) 5 w0)
                         (inputpath (test_dir_of E2 tb tf filesize kl ta))))
       \<and> case_steps E2 sh tb tf gp gr kp kr cc ig filesize kl ta ! 6 =
           gp kl (inputpath (test_dir_of E2 tb tf filesize kl ta))
              (pkcs_out_path (test_dir_of E2 tb tf filesize kl ta)) ta
       \<and> case_steps E2 sh tb tf gp gr kp kr cc ig filesize kl ta ! 8 =
           gr kl (inputpath (test_dir_of E2 tb tf filesize kl ta))
              (ref_out_path (test_dir_of E2 tb tf filesize kl ta)) ta
       \<and> (reaches (case_steps E2 sh tb tf gp gr kp kr cc ig filesize kl ta) 4 (case_start tb tf filesize kl ta w2)
            \<and> fst (diff_files (inputpath (test_dir_of E2 tb tf filesize kl ta))
                   (corruptedinputpath (test_dir_of E2 tb tf filesize kl ta))
                   (world_at (case_steps E2 sh tb tf gp gr kp kr cc ig filesize kl ta) 4 (case_start tb tf filesize kl ta w2))) = 0 \<longrightarrow>
            testtemplate_group E2 (prng_seed sh)
                (join_with '' '' ([tb, tf, dec filesize, kl] @ ta)) gp gr kp kr cc ig filesize kl ta
                (test_dir_of E2 tb tf filesize kl ta) (w2\<lparr>caselog := []\<rparr>) =
              (1, world_at (case_steps E2 sh tb tf gp gr kp kr cc ig filesize kl ta) 4 (case_start tb tf filesize kl ta w2))
            \<and> testtemplate_generate_check E2 tb tf gp gr kp kr cc ig filesize kl ta (sh, w2) =
              (sh\<lparr>num_tests_failed := num_tests_failed sh + 1,
                  verdicts := verdicts sh @ [(testname_of E2 tb filesize kl ta, False)]\<rparr>,
               world_at (case_steps E2 sh tb tf gp gr kp kr cc ig filesize kl ta) 4 (case_start tb tf filesize kl ta w2)))
       \<and> (passes (testtemplate_generate_check E2 tb tf gp gr kp kr cc ig filesize kl ta) (sh, w2) \<longrightarrow>
            fst (diff_files (inputpath (test_dir_of E2 tb tf filesize kl ta))
                   (corruptedinputpath (test_dir_of E2 tb tf filesize kl ta))
                   (world_at (case_steps E2 sh tb tf gp gr kp kr cc ig filesize kl ta) 4 (case_start tb tf filesize kl ta w2))) \<noteq> 0
            \<and> \<not> (files (world_at (case_steps E2 sh tb tf gp gr kp kr cc ig filesize kl ta) 5 (case_start tb tf filesize kl ta w2))
                     (inputpath (test_dir_of E2 tb tf filesize kl ta)) \<noteq> None
                   \<and> files (world_at (case_steps E2 sh tb tf gp gr kp kr cc ig filesize kl ta) 5 (case_start tb tf filesize kl ta w2))
                       (corruptedinputpath (test_dir_of E2 tb tf filesize kl ta))
                     = files (world_at (case_steps E2 sh tb tf gp gr kp kr cc ig filesize kl ta) 5 (case_start tb tf filesize kl ta w2))
                         (inputpath (test_dir_of E2 tb tf filesize kl ta))))
       \<and> testtemplate_generate_check (E\<lparr>testhelpers := spec_testhelpers content pick\<rparr>) tb tf gp gr kp kr cc
           (create_test_random_file (E\<lparr>testhelpers := spec_testhelpers content pick\<rparr>)) filesize kl ta (sh, w2) =
           (log_test_result (testname_of (E\<lparr>testhelpers := spec_testhelpers content pick\<rparr>) tb filesize kl ta)
              (fst (and_list (drop 5 (case_steps (E\<lparr>testhelpers := spec_testhelpers content pick\<rparr>) sh tb tf gp gr kp kr cc
                    (create_test_random_file (E\<lparr>testhelpers := spec_testhelpers content pick\<rparr>)) filesize kl ta))
                  (world_at (case_steps (E\<lparr>testhelpers := spec_testhelpers content pick\<rparr>) sh tb tf gp gr kp kr cc
                    (create_test_random_file (E\<lparr>testhelpers := spec_testhelpers content pick\<rparr>)) filesize kl ta) 5
                     (case_start tb tf filesize kl ta w2)))) sh,
            snd (and_list (drop 5 (case_steps (E\<lparr>testhelpers := spec_testhelpers content pick\<rparr>) sh tb tf gp gr kp kr cc
                    (create_test_random_file (E\<lparr>testhelpers := spec_testhelpers content pick\<rparr>)) filesize kl ta))
                  (world_at (case_steps (E\<lparr>testhelpers := spec_testhelpers content pick\<rparr>) sh tb tf gp gr kp kr cc
                    (create_test_random_file (E\<lparr>testhelpers := spec_testhelpers content pick\<rparr>)) filesize kl ta) 5
                     (case_start tb tf filesize kl ta w2))))
       \<and> testtemplate_generate_check (E\<lparr>testhelpers := spec_testhelpers content pick\<rparr>) tb tf gp gr kp kr cc
           (create_test_random_file_rsax509 (E\<lparr>testhelpers := spec_testhelpers content pick\<rparr>)) filesize kl ta (sh, w2) =
           (log_test_result (testname_of (E\<lparr>testhelpers := spec_testhelpers content pick\<rparr>) tb filesize kl ta)
              (fst (and_list (drop 5 (case_steps (E\<lparr>testhelpers := spec_testhelpers content pick\<rparr>) sh tb tf gp gr kp kr cc
                    (create_test_random_file_rsax509 (E\<lparr>testhelpers := spec_testhelpers content pick\<rparr>)) filesize kl ta))
                  (world_at (case_steps (E\<lparr>testhelpers := spec_testhelpers content pick\<rparr>) sh tb tf gp gr kp kr cc
                    (create_test_random_file_rsax509 (E\<lparr>testhelpers := spec_testhelpers content pick\<rparr>)) filesize kl ta) 5
                     (case_start tb tf filesize kl ta w2)))) sh,
            snd (and_list (drop 5 (case_steps (E\<lparr>testhelpers := spec_testhelpers content pick\<rparr>) sh tb tf gp gr kp kr cc
                    (create_test_random_file_rsax509 (E\<lparr>testhelpers := spec_testhelpers content pick\<rparr>)) filesize kl ta))
                  (world_at (case_steps (E\<lparr>testhelpers := spec_testhelpers content pick\<rparr>) sh tb tf gp gr kp kr cc
                    (create_test_random_file_rsax509 (E\<lparr>testhelpers := spec_testhelpers content pick\<rparr>)) filesize kl ta) 5
                     (case_start tb tf filesize kl ta w2))))"
proof -
  let ?E = "E\<lparr>testhelpers := spec_testhelpers content pick\<rparr>"
  let ?k = "chosen_bit pick seed filesize"
  have h: "testhelpers ?E = spec_testhelpers content pick" by simp
  note b = spec_bitflip[OF h assms(1,2,3,4), of seed]
  have r: "?k < 8 * length bs"
    using assms(1,3) by (simp add: chosen_bit_def)
  note d = flip_bit_differs[OF r]
  have n: "flip_bit ?k bs \<noteq> bs" using differs_neq[OF d] .
  have part1: "fst (bitflip ?E seed inp cor 0 (8 * filesize) w) = 0
       \<and> files (snd (bitflip ?E seed inp cor 0 (8 * filesize) w)) inp = Some bs
       \<and> files (snd (bitflip ?E seed inp cor 0 (8 * filesize) w)) cor = Some (flip_bit ?k bs)
       \<and> fst (negate (diff_files inp cor) (snd (bitflip ?E seed inp cor 0 (8 * filesize) w))) = 0"
    using assms(2,4) n by (simp add: b negate_def diff_files_def)
  let ?steps = "case_steps E2 sh tb tf gp gr kp kr cc ig filesize kl ta"
  let ?a = "inputpath (test_dir_of E2 tb tf filesize kl ta)"
  let ?c = "corruptedinputpath (test_dir_of E2 tb tf filesize kl ta)"
  have s4: "?steps ! 4 = negate (diff_files ?a ?c)"
    by (simp add: case_steps_payload[OF assms(1)])
  have len: "length ?steps = 19"
    by (simp add: case_steps_payload[OF assms(1)])
  have part2: "fst (diff_files ?a ?c (world_at ?steps 4 v)) \<noteq> 0
      \<and> \<not> (files (world_at ?steps 5 v) ?a \<noteq> None
            \<and> files (world_at ?steps 5 v) ?c = files (world_at ?steps 5 v) ?a)"
    if re: "reaches ?steps 5 v" for v
  proof -
    have t: "take 5 ?steps = take 4 ?steps @ [?steps ! 4]"
      using len by (simp add: take_Suc_conv_app_nth[of 4, simplified])
    have ok: "fst (and_list (take 4 ?steps @ [negate (diff_files ?a ?c)]) v) = 0"
      using re by (simp add: reaches_def t s4)
    from and_list_ok_prefix[OF ok]
    have p: "fst (and_list (take 4 ?steps) v) = 0"
      and q0: "fst (and_list [negate (diff_files ?a ?c)] (snd (and_list (take 4 ?steps) v))) = 0"
      by simp_all
    have q: "fst (negate (diff_files ?a ?c) (world_at ?steps 4 v)) = 0"
      using q0 unfolding and_list_single world_at_def .
    have w5: "world_at ?steps 5 v = world_at ?steps 4 v"
      using and_list_ok_snd[OF p, of "[negate (diff_files ?a ?c)]"]
      by (simp add: world_at_def t s4 negate_def diff_files_def split: prod.splits option.splits)
    have dq: "fst (diff_files ?a ?c (world_at ?steps 4 v)) \<noteq> 0"
      using q by (simp add: negate_ok)
    then show ?thesis
      by (auto simp: w5 diff_files_def split: option.splits if_splits)
  qed
  have g1: "fst (create_test_random_file ?E (prng_seed sh) p filesize x) = 0
      \<and> files (snd (create_test_random_file ?E (prng_seed sh) p filesize x)) p
          = Some (map (content (prng_seed sh) filesize) [0..<filesize])" for p x
    by (simp add: spec_prng_file[OF h])
  have c1: "reaches (case_steps ?E sh tb tf gp gr kp kr cc (create_test_random_file ?E)
                    filesize kl ta) 5 v
       \<and> files (world_at (case_steps ?E sh tb tf gp gr kp kr cc (create_test_random_file ?E)
                    filesize kl ta) 5 v)
           (corruptedinputpath (test_dir_of ?E tb tf filesize kl ta))
           = Some (flip_bit (chosen_bit pick (prng_seed sh) filesize)
                     (map (content (prng_seed sh) filesize) [0..<filesize]))" for v
    using corruption_in_chain[where E = ?E and ig = "create_test_random_file ?E" and sh = sh
        and filesize = filesize and content = content and pick = pick
        and bs = "map (content (prng_seed sh) filesize) [0..<filesize]"
        and tb = tb and tf = tf and kl = kl and ta = ta and gp = gp and gr = gr and kp = kp
        and kr = kr and cc = cc and ?w0.0 = v, OF assms(1) h g1]
    by simp
  have c2: "reaches (case_steps ?E sh tb tf gp gr kp kr cc (create_test_random_file_rsax509 ?E)
                    filesize kl ta) 5 v
       \<and> files (world_at (case_steps ?E sh tb tf gp gr kp kr cc (create_test_random_file_rsax509 ?E)
                    filesize kl ta) 5 v)
           (corruptedinputpath (test_dir_of ?E tb tf filesize kl ta))
           = Some (flip_bit (chosen_bit pick (prng_seed sh) filesize)
                     (0x41 # map (content (prng_seed sh) (filesize - 1)) [0..<filesize - 1]))" for v
    using corruption_in_chain[where E = ?E and ig = "create_test_random_file_rsax509 ?E" and sh = sh
        and filesize = filesize and content = content and pick = pick
        and bs = "0x41 # map (content (prng_seed sh) (filesize - 1)) [0..<filesize - 1]"
        and tb = tb and tf = tf and kl = kl and ta = ta and gp = gp and gr = gr and kp = kp
        and kr = kr and cc = cc and ?w0.0 = v, OF assms(1) h spec_prng_file_rsax509[OF h assms(1)]]
      assms(1)
    by simp
  let ?st = "case_start tb tf filesize kl ta w2"
  have s6: "?steps ! 6 = gp kl ?a (pkcs_out_path (test_dir_of E2 tb tf filesize kl ta)) ta"
    by (simp add: case_steps_payload[OF assms(1)])
  have s8: "?steps ! 8 = gr kl ?a (ref_out_path (test_dir_of E2 tb tf filesize kl ta)) ta"
    by (simp add: case_steps_payload[OF assms(1)])
  have part3: "testtemplate_group E2 (prng_seed sh)
                (join_with '' '' ([tb, tf, dec filesize, kl] @ ta)) gp gr kp kr cc ig filesize kl ta
                (test_dir_of E2 tb tf filesize kl ta) (w2\<lparr>caselog := []\<rparr>) =
              (1, world_at ?steps 4 ?st)
            \<and> testtemplate_generate_check E2 tb tf gp gr kp kr cc ig filesize kl ta (sh, w2) =
              (sh\<lparr>num_tests_failed := num_tests_failed sh + 1,
                  verdicts := verdicts sh @ [(testname_of E2 tb filesize kl ta, False)]\<rparr>,
               world_at ?steps 4 ?st)"
    if re: "reaches ?steps 4 ?st" and eq: "fst (diff_files ?a ?c (world_at ?steps 4 ?st)) = 0"
  proof -
    have l4: "4 < length ?steps" using len by simp
    have v: "(?steps ! 4) (world_at ?steps 4 ?st) = (1, world_at ?steps 4 ?st)"
      using eq unfolding s4 by (simp add: negate_def diff_files_def split: option.splits if_splits)
    then have f: "fst ((?steps ! 4) (world_at ?steps 4 ?st)) \<noteq> 0" by simp
    have g: "and_list ?steps ?st = (1, world_at ?steps 4 ?st)"
      using chain_fails_at[OF l4 re f] v by simp
    have gr: "testtemplate_group E2 (prng_seed sh)
                (join_with '' '' ([tb, tf, dec filesize, kl] @ ta)) gp gr kp kr cc ig filesize kl ta
                (test_dir_of E2 tb tf filesize kl ta) (w2\<lparr>caselog := []\<rparr>) =
              (1, world_at ?steps 4 ?st)"
      unfolding group_case_steps using g .
    note tfa = template_fails_at[OF l4 re f, unfolded v snd_conv]
    show ?thesis
      by (rule conjI[OF gr tfa])
  qed
  have part4: "fst (diff_files ?a ?c (world_at ?steps 4 ?st)) \<noteq> 0
      \<and> \<not> (files (world_at ?steps 5 ?st) ?a \<noteq> None
            \<and> files (world_at ?steps 5 ?st) ?c = files (world_at ?steps 5 ?st) ?a)"
    if p: "passes (testtemplate_generate_check E2 tb tf gp gr kp kr cc ig filesize kl ta) (sh, w2)"
  proof -
    have "reaches ?steps 5 ?st"
      using passes_reaches[OF p, of 5] len by simp
    then show ?thesis by (rule part2)
  qed
  have c1r: "reaches (case_steps ?E sh tb tf gp gr kp kr cc (create_test_random_file ?E)
                    filesize kl ta) 5 v" for v
    using c1[of v] by blast
  have c2r: "reaches (case_steps ?E sh tb tf gp gr kp kr cc (create_test_random_file_rsax509 ?E)
                    filesize kl ta) 5 v" for v
    using c2[of v] by blast
  note t1 = template_from_step[OF c1r[of ?st]]
  note t2 = template_from_step[OF c2r[of ?st]]
  have old: "fst (bitflip ?E seed inp cor 0 (8 * filesize) w) = 0
       \<and> files (snd (bitflip ?E seed inp cor 0 (8 * filesize) w)) inp = Some bs
       \<and> files (snd (bitflip ?E seed inp cor 0 (8 * filesize) w)) cor = Some (flip_bit ?k bs)
       \<and> ?k < 8 * filesize
       \<and> differs_in_bit_only (flip_bit ?k bs) bs ?k
       \<and> flip_bit ?k bs \<noteq> bs
       \<and> fst (negate (diff_files inp cor) (snd (bitflip ?E seed inp cor 0 (8 * filesize) w))) = 0"
    using part1 r assms(3) d n by simp
  have i2: "reaches ?steps 5 w0 \<longrightarrow>
       fst (diff_files ?a ?c (world_at ?steps 4 w0)) \<noteq> 0
       \<and> \<not> (files (world_at ?steps 5 w0) ?a \<noteq> None
            \<and> files (world_at ?steps 5 w0) ?c = files (world_at ?steps 5 w0) ?a)"
    using part2[of w0] by blast
  have i3: "reaches ?steps 4 ?st \<and> fst (diff_files ?a ?c (world_at ?steps 4 ?st)) = 0 \<longrightarrow>
       testtemplate_group E2 (prng_seed sh)
           (join_with '' '' ([tb, tf, dec filesize, kl] @ ta)) gp gr kp kr cc ig filesize kl ta
           (test_dir_of E2 tb tf filesize kl ta) (w2\<lparr>caselog := []\<rparr>) =
         (1, world_at ?steps 4 ?st)
       \<and> testtemplate_generate_check E2 tb tf gp gr kp kr cc ig filesize kl ta (sh, w2) =
         (sh\<lparr>num_tests_failed := num_tests_failed sh + 1,
             verdicts := verdicts sh @ [(testname_of E2 tb filesize kl ta, False)]\<rparr>,
          world_at ?steps 4 ?st)"
    using part3 by blast
  have i4: "passes (testtemplate_generate_check E2 tb tf gp gr kp kr cc ig filesize kl ta) (sh, w2) \<longrightarrow>
       fst (diff_files ?a ?c (world_at ?steps 4 ?st)) \<noteq> 0
       \<and> \<not> (files (world_at ?steps 5 ?st) ?a \<noteq> None
            \<and> files (world_at ?steps 5 ?st) ?c = files (world_at ?steps 5 ?st) ?a)"
    using part4 by blast
  show ?thesis
    using old c1[of w0] c2[of w0] s4 i2 s6 s8 i3 i4 t1 t2
    by (elim conjE) (intro conjI; assumption)
qed

theorem corruption_flips_one_bit_witness:
  "(0::nat) < 2
   \<and> files (sample_world\<lparr>files := (files sample_world)(''in'' \<mapsto> [3, 10])\<rparr>) ''in'' = Some [3, 10]
   \<and> length [3::byte, 10] = 2
   \<and> ''in'' \<noteq> ''in_corrupted''
   \<and> chosen_bit sample_pick ''7'' 2 = 4
   \<and> files (snd (bitflip (sample_tools\<lparr>testhelpers := spec_testhelpers sample_content sample_pick\<rparr>)
                    ''7'' ''in'' ''in_corrupted'' 0 (8 * 2)
                    (sample_world\<lparr>files := (files sample_world)(''in'' \<mapsto> [3, 10])\<rparr>)))
       ''in_corrupted'' = Some [19, 10]
   \<and> differs_in_bit_only [19, 10] [3, 10] 4
   \<and> reaches (case_steps sample_tools initial_shell ''test_openssl_digestsignverify_rsa''
         ''signverify/rsa_pkcs/rsa2048''
         (openssl_pkcs_digestsign_rsa sample_tools) (openssl_ref_digestsign_rsa sample_tools)
         (openssl_pkcs_digestverify_rsa sample_tools) (openssl_ref_digestverify_rsa sample_tools)
         check_outfiles_diff (create_test_random_file sample_tools) 2 ''rsa2048'' [''sha256'']) 5
        (case_start ''test_openssl_digestsignverify_rsa'' ''signverify/rsa_pkcs/rsa2048'' 2
           ''rsa2048'' [''sha256''] sample_world)
   \<and> \<not> (files (world_at (case_steps sample_tools initial_shell ''test_openssl_digestsignverify_rsa''
         ''signverify/rsa_pkcs/rsa2048''
         (openssl_pkcs_digestsign_rsa sample_tools) (openssl_ref_digestsign_rsa sample_tools)
         (openssl_pkcs_digestverify_rsa sample_tools) (openssl_ref_digestverify_rsa sample_tools)
         check_outfiles_diff (create_test_random_file sample_tools) 2 ''rsa2048'' [''sha256'']) 5
           (case_start ''test_openssl_digestsignverify_rsa'' ''signverify/rsa_pkcs/rsa2048'' 2
           ''rsa2048'' [''sha256''] sample_world))
            (inputpath (test_dir_of sample_tools ''test_openssl_digestsignverify_rsa''
           ''signverify/rsa_pkcs/rsa2048'' 2 ''rsa2048'' [''sha256''])) \<noteq> None
        \<and> files (world_at (case_steps sample_tools initial_shell ''test_openssl_digestsignverify_rsa''
         ''signverify/rsa_pkcs/rsa2048''
         (openssl_pkcs_digestsign_rsa sample_tools) (openssl_ref_digestsign_rsa sample_tools)
         (openssl_pkcs_digestverify_rsa sample_tools) (openssl_ref_digestverify_rsa sample_tools)
         check_outfiles_diff (create_test_random_file sample_tools) 2 ''rsa2048'' [''sha256'']) 5
           (case_start ''test_openssl_digestsignverify_rsa'' ''signverify/rsa_pkcs/rsa2048'' 2
           ''rsa2048'' [''sha256''] sample_world))
            (corruptedinputpath (test_dir_of sample_tools ''test_openssl_digestsignverify_rsa''
           ''signverify/rsa_pkcs/rsa2048'' 2 ''rsa2048'' [''sha256'']))
          = files (world_at (case_steps sample_tools initial_shell ''test_openssl_digestsignverify_rsa''
         ''signverify/rsa_pkcs/rsa2048''
         (openssl_pkcs_digestsign_rsa sample_tools) (openssl_ref_digestsign_rsa sample_tools)
         (openssl_pkcs_digestverify_rsa sample_tools) (openssl_ref_digestverify_rsa sample_tools)
         check_outfiles_diff (create_test_random_file sample_tools) 2 ''rsa2048'' [''sha256'']) 5
           (case_start ''test_openssl_digestsignverify_rsa'' ''signverify/rsa_pkcs/rsa2048'' 2
           ''rsa2048'' [''sha256''] sample_world))
              (inputpath (test_dir_of sample_tools ''test_openssl_digestsignverify_rsa''
           ''signverify/rsa_pkcs/rsa2048'' 2 ''rsa2048'' [''sha256''])))
   \<and> passes (testtemplate_generate_check sample_tools ''test_openssl_digestsignverify_rsa''
         ''signverify/rsa_pkcs/rsa2048''
         (openssl_pkcs_digestsign_rsa sample_tools) (openssl_ref_digestsign_rsa sample_tools)
         (openssl_pkcs_digestverify_rsa sample_tools) (openssl_ref_digestverify_rsa sample_tools)
         check_outfiles_diff (create_test_random_file sample_tools) 2 ''rsa2048'' [''sha256'']) (initial_shell, sample_world)
   \<and> fst (diff_files
        (inputpath (test_dir_of sample_tools ''test_openssl_digestsignverify_rsa''
           ''signverify/rsa_pkcs/rsa2048'' 2 ''rsa2048'' [''sha256'']))
        (corruptedinputpath (test_dir_of sample_tools ''test_openssl_digestsignverify_rsa''
           ''signverify/rsa_pkcs/rsa2048'' 2 ''rsa2048'' [''sha256'']))
        (world_at (case_steps sample_tools initial_shell ''test_openssl_digestsignverify_rsa''
         ''signverify/rsa_pkcs/rsa2048''
         (openssl_pkcs_digestsign_rsa sample_tools) (openssl_ref_digestsign_rsa sample_tools)
         (openssl_pkcs_digestverify_rsa sample_tools) (openssl_ref_digestverify_rsa sample_tools)
         check_outfiles_diff (create_test_random_file sample_tools) 2 ''rsa2048'' [''sha256'']) 4
           (case_start ''test_openssl_digestsignverify_rsa'' ''signverify/rsa_pkcs/rsa2048'' 2
           ''rsa2048'' [''sha256''] sample_world))) \<noteq> 0
   \<and> reaches (case_steps noflip_tools initial_shell ''test_openssl_digestsignverify_rsa''
         ''signverify/rsa_pkcs/rsa2048''
         (openssl_pkcs_digestsign_rsa noflip_tools) (openssl_ref_digestsign_rsa noflip_tools)
         (openssl_pkcs_digestverify_rsa noflip_tools) (openssl_ref_digestverify_rsa noflip_tools)
         check_outfiles_diff (create_test_random_file noflip_tools) 2 ''rsa2048'' [''sha256'']) 4
        (case_start ''test_openssl_digestsignverify_rsa'' ''signverify/rsa_pkcs/rsa2048'' 2
           ''rsa2048'' [''sha256''] sample_world)
   \<and> fst (diff_files
        (inputpath (test_dir_of noflip_tools ''test_openssl_digestsignverify_rsa''
           ''signverify/rsa_pkcs/rsa2048'' 2 ''rsa2048'' [''sha256'']))
        (corruptedinputpath (test_dir_of noflip_tools ''test_openssl_digestsignverify_rsa''
           ''signverify/rsa_pkcs/rsa2048'' 2 ''rsa2048'' [''sha256'']))
        (world_at (case_steps noflip_tools initial_shell ''test_openssl_digestsignverify_rsa''
         ''signverify/rsa_pkcs/rsa2048''
         (openssl_pkcs_digestsign_rsa noflip_tools) (openssl_ref_digestsign_rsa noflip_tools)
         (openssl_pkcs_digestverify_rsa noflip_tools) (openssl_ref_digestverify_rsa noflip_tools)
         check_outfiles_diff (create_test_random_file noflip_tools) 2 ''rsa2048'' [''sha256'']) 4
           (case_start ''test_openssl_digestsignverify_rsa'' ''signverify/rsa_pkcs/rsa2048'' 2
           ''rsa2048'' [''sha256''] sample_world))) = 0
   \<and> testtemplate_group noflip_tools (prng_seed initial_shell)
         (join_with '' '' ([''test_openssl_digestsignverify_rsa'', ''signverify/rsa_pkcs/rsa2048'',
                             dec 2, ''rsa2048''] @ [''sha256'']))
         (openssl_pkcs_digestsign_rsa noflip_tools) (openssl_ref_digestsign_rsa noflip_tools)
         (openssl_pkcs_digestverify_rsa noflip_tools) (openssl_ref_digestverify_rsa noflip_tools)
         check_outfiles_diff (create_test_random_file noflip_tools) 2 ''rsa2048'' [''sha256'']
         (test_dir_of noflip_tools ''test_openssl_digestsignverify_rsa''
           ''signverify/rsa_pkcs/rsa2048'' 2 ''rsa2048'' [''sha256'']) (sample_world\<lparr>caselog := []\<rparr>) =
       (1, world_at (case_steps noflip_tools initial_shell ''test_openssl_digestsignverify_rsa''
         ''signverify/rsa_pkcs/rsa2048''
         (openssl_pkcs_digestsign_rsa noflip_tools) (openssl_ref_digestsign_rsa noflip_tools)
         (openssl_pkcs_digestverify_rsa noflip_tools) (openssl_ref_digestverify_rsa noflip_tools)
         check_outfiles_diff (create_test_random_file noflip_tools) 2 ''rsa2048'' [''sha256'']) 4
          (case_start ''test_openssl_digestsignverify_rsa'' ''signverify/rsa_pkcs/rsa2048'' 2
           ''rsa2048'' [''sha256''] sample_world))
   \<and> (testtemplate_generate_check noflip_tools ''test_openssl_digestsignverify_rsa''
         ''signverify/rsa_pkcs/rsa2048''
         (openssl_pkcs_digestsign_rsa noflip_tools) (openssl_ref_digestsign_rsa noflip_tools)
         (openssl_pkcs_digestverify_rsa noflip_tools) (openssl_ref_digestverify_rsa noflip_tools)
         check_outfiles_diff (create_test_random_file noflip_tools) 2 ''rsa2048'' [''sha256'']) (initial_shell, sample_world) =
       (initial_shell\<lparr>num_tests_failed := num_tests_failed initial_shell + 1,
          verdicts := verdicts initial_shell
            @ [(testname_of noflip_tools ''test_openssl_digestsignverify_rsa'' 2 ''rsa2048''
                  [''sha256''], False)]\<rparr>,
        world_at (case_steps noflip_tools initial_shell ''test_openssl_digestsignverify_rsa''
         ''signverify/rsa_pkcs/rsa2048''
         (openssl_pkcs_digestsign_rsa noflip_tools) (openssl_ref_digestsign_rsa noflip_tools)
         (openssl_pkcs_digestverify_rsa noflip_tools) (openssl_ref_digestverify_rsa noflip_tools)
         check_outfiles_diff (create_test_random_file noflip_tools) 2 ''rsa2048'' [''sha256'']) 4
          (case_start ''test_openssl_digestsignverify_rsa'' ''signverify/rsa_pkcs/rsa2048'' 2
           ''rsa2048'' [''sha256''] sample_world))
   \<and> files (world_at (case_steps noflip_tools initial_shell ''test_openssl_digestsignverify_rsa''
         ''signverify/rsa_pkcs/rsa2048''
         (openssl_pkcs_digestsign_rsa noflip_tools) (openssl_ref_digestsign_rsa noflip_tools)
         (openssl_pkcs_digestverify_rsa noflip_tools) (openssl_ref_digestverify_rsa noflip_tools)
         check_outfiles_diff (create_test_random_file noflip_tools) 2 ''rsa2048'' [''sha256'']) 4
          (case_start ''test_openssl_digestsignverify_rsa'' ''signverify/rsa_pkcs/rsa2048'' 2
           ''rsa2048'' [''sha256''] sample_world))
        (pkcs_out_path (test_dir_of noflip_tools ''test_openssl_digestsignverify_rsa''
           ''signverify/rsa_pkcs/rsa2048'' 2 ''rsa2048'' [''sha256''])) = None"
proof -
  have h1: "(0::nat) < 2" by simp
  have h2: "files (sample_world\<lparr>files := (files sample_world)(''in'' \<mapsto> [3, 10])\<rparr>) ''in''
              = Some [3, 10]" by simp
  have h3: "length [3::byte, 10] = 2" by simp
  have h4: "''in'' \<noteq> ''in_corrupted''" by simp
  have k: "chosen_bit sample_pick ''7'' 2 = 4"
    by (simp add: chosen_bit_def sample_pick_def)
  have f: "flip_bit 4 [3::byte, 10] = [19, 10]"
    by (simp add: flip_bit_def)
  have h5: "reaches (case_steps sample_tools initial_shell ''test_openssl_digestsignverify_rsa''
         ''signverify/rsa_pkcs/rsa2048''
         (openssl_pkcs_digestsign_rsa sample_tools) (openssl_ref_digestsign_rsa sample_tools)
         (openssl_pkcs_digestverify_rsa sample_tools) (openssl_ref_digestverify_rsa sample_tools)
         check_outfiles_diff (create_test_random_file sample_tools) 2 ''rsa2048'' [''sha256'']) 5
        (case_start ''test_openssl_digestsignverify_rsa'' ''signverify/rsa_pkcs/rsa2048'' 2
           ''rsa2048'' [''sha256''] sample_world)"
    by code_simp
  have h6: "passes (testtemplate_generate_check sample_tools ''test_openssl_digestsignverify_rsa''
         ''signverify/rsa_pkcs/rsa2048''
         (openssl_pkcs_digestsign_rsa sample_tools) (openssl_ref_digestsign_rsa sample_tools)
         (openssl_pkcs_digestverify_rsa sample_tools) (openssl_ref_digestverify_rsa sample_tools)
         check_outfiles_diff (create_test_random_file sample_tools) 2 ''rsa2048'' [''sha256'']) (initial_shell, sample_world)"
    by code_simp
  have h7: "reaches (case_steps noflip_tools initial_shell ''test_openssl_digestsignverify_rsa''
         ''signverify/rsa_pkcs/rsa2048''
         (openssl_pkcs_digestsign_rsa noflip_tools) (openssl_ref_digestsign_rsa noflip_tools)
         (openssl_pkcs_digestverify_rsa noflip_tools) (openssl_ref_digestverify_rsa noflip_tools)
         check_outfiles_diff (create_test_random_file noflip_tools) 2 ''rsa2048'' [''sha256'']) 4
        (case_start ''test_openssl_digestsignverify_rsa'' ''signverify/rsa_pkcs/rsa2048'' 2
           ''rsa2048'' [''sha256''] sample_world)"
    by code_simp
  have h8: "fst (diff_files
        (inputpath (test_dir_of noflip_tools ''test_openssl_digestsignverify_rsa''
           ''signverify/rsa_pkcs/rsa2048'' 2 ''rsa2048'' [''sha256'']))
        (corruptedinputpath (test_dir_of noflip_tools ''test_openssl_digestsignverify_rsa''
           ''signverify/rsa_pkcs/rsa2048'' 2 ''rsa2048'' [''sha256'']))
        (world_at (case_steps noflip_tools initial_shell ''test_openssl_digestsignverify_rsa''
         ''signverify/rsa_pkcs/rsa2048''
         (openssl_pkcs_digestsign_rsa noflip_tools) (openssl_ref_digestsign_rsa noflip_tools)
         (openssl_pkcs_digestverify_rsa noflip_tools) (openssl_ref_digestverify_rsa noflip_tools)
         check_outfiles_diff (create_test_random_file noflip_tools) 2 ''rsa2048'' [''sha256'']) 4
           (case_start ''test_openssl_digestsignverify_rsa'' ''signverify/rsa_pkcs/rsa2048'' 2
           ''rsa2048'' [''sha256''] sample_world))) = 0"
    by code_simp
  have h9: "files (world_at (case_steps noflip_tools initial_shell ''test_openssl_digestsignverify_rsa''
         ''signverify/rsa_pkcs/rsa2048''
         (openssl_pkcs_digestsign_rsa noflip_tools) (openssl_ref_digestsign_rsa noflip_tools)
         (openssl_pkcs_digestverify_rsa noflip_tools) (openssl_ref_digestverify_rsa noflip_tools)
         check_outfiles_diff (create_test_random_file noflip_tools) 2 ''rsa2048'' [''sha256'']) 4
          (case_start ''test_openssl_digestsignverify_rsa'' ''signverify/rsa_pkcs/rsa2048'' 2
           ''rsa2048'' [''sha256''] sample_world))
        (pkcs_out_path (test_dir_of noflip_tools ''test_openssl_digestsignverify_rsa''
           ''signverify/rsa_pkcs/rsa2048'' 2 ''rsa2048'' [''sha256''])) = None"
    by code_simp
  note i1 = corruption_flips_one_bit[OF h1 h2 h3 h4, where E = sample_tools
        and content = sample_content and pick = sample_pick and seed = "''7''"
        and ?E2.0 = sample_tools and sh = initial_shell
        and tb = "''test_openssl_digestsignverify_rsa''"
        and tf = "''signverify/rsa_pkcs/rsa2048''"
        and gp = "openssl_pkcs_digestsign_rsa sample_tools"
        and gr = "openssl_ref_digestsign_rsa sample_tools"
        and kp = "openssl_pkcs_digestverify_rsa sample_tools"
        and kr = "openssl_ref_digestverify_rsa sample_tools"
        and cc = check_outfiles_diff and ig = "create_test_random_file sample_tools"
        and kl = "''rsa2048''" and ta = "[''sha256'']"
        and ?w0.0 = "case_start ''test_openssl_digestsignverify_rsa'' ''signverify/rsa_pkcs/rsa2048'' 2
           ''rsa2048'' [''sha256''] sample_world"
        and ?w2.0 = sample_world]
  note i2 = corruption_flips_one_bit[OF h1 h2 h3 h4, where E = sample_tools
        and content = sample_content and pick = sample_pick and seed = "''7''"
        and ?E2.0 = noflip_tools and sh = initial_shell
        and tb = "''test_openssl_digestsignverify_rsa''"
        and tf = "''signverify/rsa_pkcs/rsa2048''"
        and gp = "openssl_pkcs_digestsign_rsa noflip_tools"
        and gr = "openssl_ref_digestsign_rsa noflip_tools"
        and kp = "openssl_pkcs_digestverify_rsa noflip_tools"
        and kr = "openssl_ref_digestverify_rsa noflip_tools"
        and cc = check_outfiles_diff and ig = "create_test_random_file noflip_tools"
        and kl = "''rsa2048''" and ta = "[''sha256'']"
        and ?w0.0 = "case_start ''test_openssl_digestsignverify_rsa'' ''signverify/rsa_pkcs/rsa2048'' 2
           ''rsa2048'' [''sha256''] sample_world"
        and ?w2.0 = sample_world]
  have a1: "files (snd (bitflip (sample_tools\<lparr>testhelpers := spec_testhelpers sample_content sample_pick\<rparr>)
                    ''7'' ''in'' ''in_corrupted'' 0 (8 * 2)
                    (sample_world\<lparr>files := (files sample_world)(''in'' \<mapsto> [3, 10])\<rparr>)))
       ''in_corrupted'' = Some (flip_bit (chosen_bit sample_pick ''7'' 2) [3, 10])
     \<and> differs_in_bit_only (flip_bit (chosen_bit sample_pick ''7'' 2) [3, 10]) [3, 10]
         (chosen_bit sample_pick ''7'' 2)"
    using i1 by blast
  have a2: "fst (diff_files
        (inputpath (test_dir_of sample_tools ''test_openssl_digestsignverify_rsa''
           ''signverify/rsa_pkcs/rsa2048'' 2 ''rsa2048'' [''sha256'']))
        (corruptedinputpath (test_dir_of sample_tools ''test_openssl_digestsignverify_rsa''
           ''signverify/rsa_pkcs/rsa2048'' 2 ''rsa2048'' [''sha256'']))
        (world_at (case_steps sample_tools initial_shell ''test_openssl_digestsignverify_rsa''
         ''signverify/rsa_pkcs/rsa2048''
         (openssl_pkcs_digestsign_rsa sample_tools) (openssl_ref_digestsign_rsa sample_tools)
         (openssl_pkcs_digestverify_rsa sample_tools) (openssl_ref_digestverify_rsa sample_tools)
         check_outfiles_diff (create_test_random_file sample_tools) 2 ''rsa2048'' [''sha256'']) 4
           (case_start ''test_openssl_digestsignverify_rsa'' ''signverify/rsa_pkcs/rsa2048'' 2
           ''rsa2048'' [''sha256''] sample_world))) \<noteq> 0"
    using i1 h5 by blast
  have a3: "\<not> (files (world_at (case_steps sample_tools initial_shell ''test_openssl_digestsignverify_rsa''
         ''signverify/rsa_pkcs/rsa2048''
         (openssl_pkcs_digestsign_rsa sample_tools) (openssl_ref_digestsign_rsa sample_tools)
         (openssl_pkcs_digestverify_rsa sample_tools) (openssl_ref_digestverify_rsa sample_tools)
         check_outfiles_diff (create_test_random_file sample_tools) 2 ''rsa2048'' [''sha256'']) 5
           (case_start ''test_openssl_digestsignverify_rsa'' ''signverify/rsa_pkcs/rsa2048'' 2
           ''rsa2048'' [''sha256''] sample_world))
            (inputpath (test_dir_of sample_tools ''test_openssl_digestsignverify_rsa''
           ''signverify/rsa_pkcs/rsa2048'' 2 ''rsa2048'' [''sha256''])) \<noteq> None
        \<and> files (world_at (case_steps sample_tools initial_shell ''test_openssl_digestsignverify_rsa''
         ''signverify/rsa_pkcs/rsa2048''
         (openssl_pkcs_digestsign_rsa sample_tools) (openssl_ref_digestsign_rsa sample_tools)
         (openssl_pkcs_digestverify_rsa sample_tools) (openssl_ref_digestverify_rsa sample_tools)
         check_outfiles_diff (create_test_random_file sample_tools) 2 ''rsa2048'' [''sha256'']) 5
           (case_start ''test_openssl_digestsignverify_rsa'' ''signverify/rsa_pkcs/rsa2048'' 2
           ''rsa2048'' [''sha256''] sample_world))
            (corruptedinputpath (test_dir_of sample_tools ''test_openssl_digestsignverify_rsa''
           ''signverify/rsa_pkcs/rsa2048'' 2 ''rsa2048'' [''sha256'']))
          = files (world_at (case_steps sample_tools initial_shell ''test_openssl_digestsignverify_rsa''
         ''signverify/rsa_pkcs/rsa2048''
         (openssl_pkcs_digestsign_rsa sample_tools) (openssl_ref_digestsign_rsa sample_tools)
         (openssl_pkcs_digestverify_rsa sample_tools) (openssl_ref_digestverify_rsa sample_tools)
         check_outfiles_diff (create_test_random_file sample_tools) 2 ''rsa2048'' [''sha256'']) 5
           (case_start ''test_openssl_digestsignverify_rsa'' ''signverify/rsa_pkcs/rsa2048'' 2
           ''rsa2048'' [''sha256''] sample_world))
              (inputpath (test_dir_of sample_tools ''test_openssl_digestsignverify_rsa''
           ''signverify/rsa_pkcs/rsa2048'' 2 ''rsa2048'' [''sha256''])))"
    using i1 h6 by blast
  have a4: "testtemplate_group noflip_tools (prng_seed initial_shell)
         (join_with '' '' ([''test_openssl_digestsignverify_rsa'', ''signverify/rsa_pkcs/rsa2048'',
                             dec 2, ''rsa2048''] @ [''sha256'']))
         (openssl_pkcs_digestsign_rsa noflip_tools) (openssl_ref_digestsign_rsa noflip_tools)
         (openssl_pkcs_digestverify_rsa noflip_tools) (openssl_ref_digestverify_rsa noflip_tools)
         check_outfiles_diff (create_test_random_file noflip_tools) 2 ''rsa2048'' [''sha256'']
         (test_dir_of noflip_tools ''test_openssl_digestsignverify_rsa''
           ''signverify/rsa_pkcs/rsa2048'' 2 ''rsa2048'' [''sha256'']) (sample_world\<lparr>caselog := []\<rparr>) =
       (1, world_at (case_steps noflip_tools initial_shell ''test_openssl_digestsignverify_rsa''
         ''signverify/rsa_pkcs/rsa2048''
         (openssl_pkcs_digestsign_rsa noflip_tools) (openssl_ref_digestsign_rsa noflip_tools)
         (openssl_pkcs_digestverify_rsa noflip_tools) (openssl_ref_digestverify_rsa noflip_tools)
         check_outfiles_diff (create_test_random_file noflip_tools) 2 ''rsa2048'' [''sha256'']) 4
          (case_start ''test_openssl_digestsignverify_rsa'' ''signverify/rsa_pkcs/rsa2048'' 2
           ''rsa2048'' [''sha256''] sample_world))
   \<and> (testtemplate_generate_check noflip_tools ''test_openssl_digestsignverify_rsa''
         ''signverify/rsa_pkcs/rsa2048''
         (openssl_pkcs_digestsign_rsa noflip_tools) (openssl_ref_digestsign_rsa noflip_tools)
         (openssl_pkcs_digestverify_rsa noflip_tools) (openssl_ref_digestverify_rsa noflip_tools)
         check_outfiles_diff (create_test_random_file noflip_tools) 2 ''rsa2048'' [''sha256'']) (initial_shell, sample_world) =
       (initial_shell\<lparr>num_tests_failed := num_tests_failed initial_shell + 1,
          verdicts := verdicts initial_shell
            @ [(testname_of noflip_tools ''test_openssl_digestsignverify_rsa'' 2 ''rsa2048''
                  [''sha256''], False)]\<rparr>,
        world_at (case_steps noflip_tools initial_shell ''test_openssl_digestsignverify_rsa''
         ''signverify/rsa_pkcs/rsa2048''
         (openssl_pkcs_digestsign_rsa noflip_tools) (openssl_ref_digestsign_rsa noflip_tools)
         (openssl_pkcs_digestverify_rsa noflip_tools) (openssl_ref_digestverify_rsa noflip_tools)
         check_outfiles_diff (create_test_random_file noflip_tools) 2 ''rsa2048'' [''sha256'']) 4
          (case_start ''test_openssl_digestsignverify_rsa'' ''signverify/rsa_pkcs/rsa2048'' 2
           ''rsa2048'' [''sha256''] sample_world))"
    using i2 h7 h8 by blast
  have a5: "files (snd (bitflip (sample_tools\<lparr>testhelpers := spec_testhelpers sample_content sample_pick\<rparr>)
                    ''7'' ''in'' ''in_corrupted'' 0 (8 * 2)
                    (sample_world\<lparr>files := (files sample_world)(''in'' \<mapsto> [3, 10])\<rparr>)))
       ''in_corrupted'' = Some [19, 10]
     \<and> differs_in_bit_only [19, 10] [3, 10] 4"
    using a1 unfolding k f .
  show ?thesis
    using h1 h2 h3 h4 k h5 h6 h7 h8 h9 a2 a3 a4 a5
    by (elim conjE) (intro conjI; assumption)
qed

section \<open>Comparators\<close>

lemma case_steps_compare:
  "compare_index filesize < length (case_steps E sh tb tf gp gr kp kr cc ig filesize kl ta)
   \<and> case_steps E sh tb tf gp gr kp kr cc ig filesize kl ta ! compare_index filesize =
       cc (pkcs_out_path (test_dir_of E tb tf filesize kl ta))
          (ref_out_path (test_dir_of E tb tf filesize kl ta)) ta"
proof (cases "0 < filesize")
  case True
  then show ?thesis
    by (simp add: case_steps_payload[OF True] compare_index_def)
next
  case False
  then have z: "filesize = 0" by simp
  show ?thesis
    unfolding z by (simp add: case_steps_empty compare_index_def)
qed

lemma diff_files_zero:
  "fst (diff_files a b w) = 0 \<longleftrightarrow> files w a \<noteq> None \<and> files w a = files w b"
  by (auto simp: diff_files_def split: option.splits)

lemma snd_diff_files: "snd (diff_files a b w) = w"
  by (auto simp: diff_files_def split: option.splits)





text \<open>
  C4: a case whose comparator is \<^verbatim>\<open>check_outfiles_diff\<close> passes only if, when the
  comparator runs, the subject's and the reference's artifacts both exist and hold the same
  bytes; the comparator step is \<^verbatim>\<open>diff\<close> of the two artifacts. The RSA PKCS#1v1.5
  digest-sign cases and the raw (X.509) RSA sign cases are such cases.
\<close>

theorem deterministic_signatures_byte_identical:
  assumes "passes (testtemplate_generate_check E tb tf gp gr kp kr check_outfiles_diff ig
                     filesize kl ta) (sh, w)"
  shows "case_steps E sh tb tf gp gr kp kr check_outfiles_diff ig filesize kl ta
           ! compare_index filesize =
           diff_files (pkcs_out_path (test_dir_of E tb tf filesize kl ta))
             (ref_out_path (test_dir_of E tb tf filesize kl ta))
       \<and> files (world_at (case_steps E sh tb tf gp gr kp kr check_outfiles_diff ig filesize kl ta)
                  (compare_index filesize) (case_start tb tf filesize kl ta w))
           (pkcs_out_path (test_dir_of E tb tf filesize kl ta)) \<noteq> None
       \<and> files (world_at (case_steps E sh tb tf gp gr kp kr check_outfiles_diff ig filesize kl ta)
                  (compare_index filesize) (case_start tb tf filesize kl ta w))
           (pkcs_out_path (test_dir_of E tb tf filesize kl ta)) =
         files (world_at (case_steps E sh tb tf gp gr kp kr check_outfiles_diff ig filesize kl ta)
                  (compare_index filesize) (case_start tb tf filesize kl ta w))
           (ref_out_path (test_dir_of E tb tf filesize kl ta))
       \<and> test_openssl_digestsignverify_rsa E filesize kl digest =
           testtemplate_generate_check E ''test_openssl_digestsignverify_rsa''
             (''signverify/rsa_pkcs/'' @ kl)
             (openssl_pkcs_digestsign_rsa E) (openssl_ref_digestsign_rsa E)
             (openssl_pkcs_digestverify_rsa E) (openssl_ref_digestverify_rsa E)
             check_outfiles_diff (create_test_random_file E) filesize kl [digest]
       \<and> test_openssl_signverify_rsa_x509 E filesize kl =
           testtemplate_generate_check E ''test_openssl_signverify_rsa_x509''
             (''signverify/rsa_x509/'' @ kl)
             (openssl_pkcs_sign_rsa_x509 E) (openssl_ref_sign_rsa_x509 E)
             (openssl_pkcs_verify_rsa_x509 E) (openssl_ref_verify_rsa_x509 E)
             check_outfiles_diff (create_test_random_file_rsax509 E) filesize kl []"
proof -
  let ?steps = "case_steps E sh tb tf gp gr kp kr check_outfiles_diff ig filesize kl ta"
  let ?w0 = "case_start tb tf filesize kl ta w"
  let ?d = "test_dir_of E tb tf filesize kl ta"
  have ok: "fst (and_list ?steps ?w0) = 0"
    using assms by (simp add: passes_case_steps)
  have s: "?steps ! compare_index filesize = diff_files (pkcs_out_path ?d) (ref_out_path ?d)"
    using case_steps_compare[of filesize E sh tb tf gp gr kp kr check_outfiles_diff ig kl ta]
    by (simp add: check_outfiles_diff_def)
  have "fst ((?steps ! compare_index filesize) (world_at ?steps (compare_index filesize) ?w0)) = 0"
    using all_ok_nth[OF ok] case_steps_compare by blast
  then have "fst (diff_files (pkcs_out_path ?d) (ref_out_path ?d)
                     (world_at ?steps (compare_index filesize) ?w0)) = 0"
    by (simp only: s)
  then have e: "files (world_at ?steps (compare_index filesize) ?w0) (pkcs_out_path ?d) \<noteq> None
      \<and> files (world_at ?steps (compare_index filesize) ?w0) (pkcs_out_path ?d)
          = files (world_at ?steps (compare_index filesize) ?w0) (ref_out_path ?d)"
    unfolding diff_files_zero .
  have t1: "test_openssl_digestsignverify_rsa E filesize kl digest =
           testtemplate_generate_check E ''test_openssl_digestsignverify_rsa''
             (''signverify/rsa_pkcs/'' @ kl)
             (openssl_pkcs_digestsign_rsa E) (openssl_ref_digestsign_rsa E)
             (openssl_pkcs_digestverify_rsa E) (openssl_ref_digestverify_rsa E)
             check_outfiles_diff (create_test_random_file E) filesize kl [digest]"
    by (simp add: test_openssl_digestsignverify_rsa_def)
  have t2: "test_openssl_signverify_rsa_x509 E filesize kl =
           testtemplate_generate_check E ''test_openssl_signverify_rsa_x509''
             (''signverify/rsa_x509/'' @ kl)
             (openssl_pkcs_sign_rsa_x509 E) (openssl_ref_sign_rsa_x509 E)
             (openssl_pkcs_verify_rsa_x509 E) (openssl_ref_verify_rsa_x509 E)
             check_outfiles_diff (create_test_random_file_rsax509 E) filesize kl []"
    by (simp add: test_openssl_signverify_rsa_x509_def)
  show ?thesis
    using s e t1 t2 by blast
qed

theorem deterministic_signatures_byte_identical_witness:
  "passes (test_openssl_digestsignverify_rsa sample_tools 2 ''rsa2048'' ''sha256'')
     (initial_shell, sample_world)
   \<and> passes (test_openssl_signverify_rsa_x509 sample_tools 2 ''rsa2048'')
       (initial_shell, sample_world)
   \<and> files (world_at (case_steps sample_tools initial_shell ''test_openssl_digestsignverify_rsa''
                 (''signverify/rsa_pkcs/'' @ ''rsa2048'')
                 (openssl_pkcs_digestsign_rsa sample_tools) (openssl_ref_digestsign_rsa sample_tools)
                 (openssl_pkcs_digestverify_rsa sample_tools) (openssl_ref_digestverify_rsa sample_tools)
                 check_outfiles_diff (create_test_random_file sample_tools) 2 ''rsa2048'' [''sha256''])
              (compare_index 2)
              (case_start ''test_openssl_digestsignverify_rsa'' (''signverify/rsa_pkcs/'' @ ''rsa2048'')
                 2 ''rsa2048'' [''sha256''] sample_world))
       (pkcs_out_path (test_dir_of sample_tools ''test_openssl_digestsignverify_rsa''
          (''signverify/rsa_pkcs/'' @ ''rsa2048'') 2 ''rsa2048'' [''sha256''])) =
     files (world_at (case_steps sample_tools initial_shell ''test_openssl_digestsignverify_rsa''
                 (''signverify/rsa_pkcs/'' @ ''rsa2048'')
                 (openssl_pkcs_digestsign_rsa sample_tools) (openssl_ref_digestsign_rsa sample_tools)
                 (openssl_pkcs_digestverify_rsa sample_tools) (openssl_ref_digestverify_rsa sample_tools)
                 check_outfiles_diff (create_test_random_file sample_tools) 2 ''rsa2048'' [''sha256''])
              (compare_index 2)
              (case_start ''test_openssl_digestsignverify_rsa'' (''signverify/rsa_pkcs/'' @ ''rsa2048'')
                 2 ''rsa2048'' [''sha256''] sample_world))
       (ref_out_path (test_dir_of sample_tools ''test_openssl_digestsignverify_rsa''
          (''signverify/rsa_pkcs/'' @ ''rsa2048'') 2 ''rsa2048'' [''sha256'']))"
proof -
  have h1: "passes (test_openssl_digestsignverify_rsa sample_tools 2 ''rsa2048'' ''sha256'')
     (initial_shell, sample_world)"
    by code_simp
  have h2: "passes (test_openssl_signverify_rsa_x509 sample_tools 2 ''rsa2048'')
       (initial_shell, sample_world)"
    by code_simp
  have h: "passes (testtemplate_generate_check sample_tools ''test_openssl_digestsignverify_rsa''
             (''signverify/rsa_pkcs/'' @ ''rsa2048'')
             (openssl_pkcs_digestsign_rsa sample_tools) (openssl_ref_digestsign_rsa sample_tools)
             (openssl_pkcs_digestverify_rsa sample_tools) (openssl_ref_digestverify_rsa sample_tools)
             check_outfiles_diff (create_test_random_file sample_tools) 2 ''rsa2048'' [''sha256''])
            (initial_shell, sample_world)"
    using h1 by (simp add: test_openssl_digestsignverify_rsa_def)
  show ?thesis
    using deterministic_signatures_byte_identical[OF h] h1 h2 by blast
qed

section \<open>Encryption cases\<close>

lemma world_at_Suc:
  assumes "fst (and_list xs w) = 0" and "k < length xs"
  shows "world_at xs (Suc k) w = snd ((xs ! k) (world_at xs k w))"
proof -
  have r: "fst (and_list (take k xs) w) = 0"
    using all_ok_nth[OF assms] by (simp add: reaches_def)
  have "take (Suc k) xs = take k xs @ [xs ! k]"
    using assms(2) by (simp add: take_Suc_conv_app_nth)
  then show ?thesis
    using and_list_ok_snd[OF r, of "[xs ! k]"]
    by (simp add: world_at_def and_list_single del: and_list.simps)
qed

lemma decrypt_round_trip:
  assumes "fst (and_then (run_openssl E argv) (diff_files inp out) v) = 0"
  shows "files (snd (and_then (run_openssl E argv) (diff_files inp out) v)) inp \<noteq> None
       \<and> files (snd (and_then (run_openssl E argv) (diff_files inp out) v)) out
           = files (snd (and_then (run_openssl E argv) (diff_files inp out) v)) inp"
proof -
  obtain rc v1 where o: "run_openssl E argv v = (rc, v1)"
    by (cases "run_openssl E argv v")
  have z: "rc = 0" using assms o by (auto simp: and_then_def split: if_splits)
  have d: "fst (diff_files inp out v1) = 0"
    using assms o z by (simp add: and_then_def)
  have s: "snd (and_then (run_openssl E argv) (diff_files inp out) v) = v1"
    using o z by (simp add: and_then_def snd_diff_files)
  have "files v1 inp \<noteq> None \<and> files v1 inp = files v1 out"
    using d unfolding diff_files_zero .
  then have "files v1 inp \<noteq> None \<and> files v1 out = files v1 inp"
    by metis
  then show ?thesis
    unfolding s .
qed

lemma encdec_rsa_passes:
  "passes (test_openssl_encryptdecrypt_rsa E filesize kl) (sh, w) \<longleftrightarrow>
     \<not> (kl = ''rsa1024'' \<and> dec filesize = ''128'')
     \<and> fst (and_list (encdec_rsa_steps E sh filesize kl) (encdec_rsa_start filesize kl w)) = 0"
  using passes_case_steps[of E "''test_openssl_encryptdecrypt_rsa''"
      "''encryptdecrypt/rsa_pkcs/'' @ kl" "openssl_pkcs_encrypt_rsa E" "openssl_ref_encrypt_rsa E"
      "openssl_pkcs_decrypt_rsa E" "openssl_ref_decrypt_rsa E" true_cmd
      "create_test_random_file E" filesize kl "[]" sh w]
  by (auto simp: passes_def test_openssl_encryptdecrypt_rsa_def encdec_rsa_steps_def
        encdec_rsa_start_def)

lemma encdec_x509_passes:
  "passes (test_openssl_encryptdecrypt_rsa_x509 E filesize kl) (sh, w) \<longleftrightarrow>
     fst (and_list (encdec_x509_steps E sh filesize kl) (encdec_x509_start filesize kl w)) = 0"
  using passes_case_steps[of E "''test_openssl_encryptdecrypt_rsa_x509''"
      "''encryptdecrypt/rsa_x509/'' @ kl" "openssl_pkcs_encrypt_rsax509 E"
      "openssl_ref_encrypt_rsax509 E" "openssl_pkcs_decrypt_rsax509 E"
      "openssl_ref_decrypt_rsax509 E" check_outfiles_diff
      "create_test_random_file_rsax509 E" filesize kl "[]" sh w]
  by (simp add: test_openssl_encryptdecrypt_rsa_x509_def encdec_x509_steps_def
        encdec_x509_start_def)

lemma case_steps_checks:
  "compare_index filesize + 4 < length (case_steps E sh tb tf gp gr kp kr cc ig filesize kl ta)
   \<and> case_steps E sh tb tf gp gr kp kr cc ig filesize kl ta ! (compare_index filesize + 2) =
       kr kl (inputpath (test_dir_of E tb tf filesize kl ta))
          (pkcs_out_path (test_dir_of E tb tf filesize kl ta)) ta
   \<and> case_steps E sh tb tf gp gr kp kr cc ig filesize kl ta ! (compare_index filesize + 4) =
       kp kl (inputpath (test_dir_of E tb tf filesize kl ta))
          (ref_out_path (test_dir_of E tb tf filesize kl ta)) ta"
proof (cases "0 < filesize")
  case True
  then show ?thesis
    by (simp add: case_steps_payload[OF True] compare_index_def)
next
  case False
  then have z: "filesize = 0" by simp
  show ?thesis
    unfolding z by (simp add: case_steps_empty compare_index_def)
qed

lemma checks_of_passing_case:
  assumes "fst (and_list (case_steps E sh tb tf gp gr kp kr cc ig filesize kl ta) w0) = 0"
  shows "fst (kr kl (inputpath (test_dir_of E tb tf filesize kl ta))
                (pkcs_out_path (test_dir_of E tb tf filesize kl ta)) ta
                (world_at (case_steps E sh tb tf gp gr kp kr cc ig filesize kl ta)
                   (compare_index filesize + 2) w0)) = 0"
    and "world_at (case_steps E sh tb tf gp gr kp kr cc ig filesize kl ta)
           (compare_index filesize + 3) w0 =
         snd (kr kl (inputpath (test_dir_of E tb tf filesize kl ta))
                (pkcs_out_path (test_dir_of E tb tf filesize kl ta)) ta
                (world_at (case_steps E sh tb tf gp gr kp kr cc ig filesize kl ta)
                   (compare_index filesize + 2) w0))"
    and "fst (kp kl (inputpath (test_dir_of E tb tf filesize kl ta))
                (ref_out_path (test_dir_of E tb tf filesize kl ta)) ta
                (world_at (case_steps E sh tb tf gp gr kp kr cc ig filesize kl ta)
                   (compare_index filesize + 4) w0)) = 0"
    and "world_at (case_steps E sh tb tf gp gr kp kr cc ig filesize kl ta)
           (compare_index filesize + 5) w0 =
         snd (kp kl (inputpath (test_dir_of E tb tf filesize kl ta))
                (ref_out_path (test_dir_of E tb tf filesize kl ta)) ta
                (world_at (case_steps E sh tb tf gp gr kp kr cc ig filesize kl ta)
                   (compare_index filesize + 4) w0))"
proof -
  let ?steps = "case_steps E sh tb tf gp gr kp kr cc ig filesize kl ta"
  note c = case_steps_checks[of filesize E sh tb tf gp gr kp kr cc ig kl ta]
  have l2: "compare_index filesize + 2 < length ?steps"
    and l4: "compare_index filesize + 4 < length ?steps"
    using c by simp_all
  show "fst (kr kl (inputpath (test_dir_of E tb tf filesize kl ta))
                (pkcs_out_path (test_dir_of E tb tf filesize kl ta)) ta
                (world_at ?steps (compare_index filesize + 2) w0)) = 0"
    using all_ok_nth[OF assms l2] c by simp
  show "world_at ?steps (compare_index filesize + 3) w0 =
         snd (kr kl (inputpath (test_dir_of E tb tf filesize kl ta))
                (pkcs_out_path (test_dir_of E tb tf filesize kl ta)) ta
                (world_at ?steps (compare_index filesize + 2) w0))"
    using world_at_Suc[OF assms l2] c by (simp add: numeral_3_eq_3 numeral_2_eq_2)
  show "fst (kp kl (inputpath (test_dir_of E tb tf filesize kl ta))
                (ref_out_path (test_dir_of E tb tf filesize kl ta)) ta
                (world_at ?steps (compare_index filesize + 4) w0)) = 0"
    using all_ok_nth[OF assms l4] c by simp
  have "Suc (compare_index filesize + 4) = compare_index filesize + 5" by simp
  then show "world_at ?steps (compare_index filesize + 5) w0 =
         snd (kp kl (inputpath (test_dir_of E tb tf filesize kl ta))
                (ref_out_path (test_dir_of E tb tf filesize kl ta)) ta
                (world_at ?steps (compare_index filesize + 4) w0))"
    using world_at_Suc[OF assms l4] c by metis
qed

lemma decrypt_providers_round_trip:
  "fst (openssl_ref_decrypt_rsa E kl inp enc ta v) = 0 \<Longrightarrow>
     files (snd (openssl_ref_decrypt_rsa E kl inp enc ta v)) inp \<noteq> None
     \<and> files (snd (openssl_ref_decrypt_rsa E kl inp enc ta v)) (enc @ ''.refdecrypted'')
         = files (snd (openssl_ref_decrypt_rsa E kl inp enc ta v)) inp"
  "fst (openssl_pkcs_decrypt_rsa E kl inp enc ta v) = 0 \<Longrightarrow>
     files (snd (openssl_pkcs_decrypt_rsa E kl inp enc ta v)) inp \<noteq> None
     \<and> files (snd (openssl_pkcs_decrypt_rsa E kl inp enc ta v)) (enc @ ''.pkcsdecrypted'')
         = files (snd (openssl_pkcs_decrypt_rsa E kl inp enc ta v)) inp"
  "fst (openssl_ref_decrypt_rsax509 E kl inp enc ta v) = 0 \<Longrightarrow>
     files (snd (openssl_ref_decrypt_rsax509 E kl inp enc ta v)) inp \<noteq> None
     \<and> files (snd (openssl_ref_decrypt_rsax509 E kl inp enc ta v)) ''.refdecrypted''
         = files (snd (openssl_ref_decrypt_rsax509 E kl inp enc ta v)) inp"
  "fst (openssl_pkcs_decrypt_rsax509 E kl inp enc ta v) = 0 \<Longrightarrow>
     files (snd (openssl_pkcs_decrypt_rsax509 E kl inp enc ta v)) inp \<noteq> None
     \<and> files (snd (openssl_pkcs_decrypt_rsax509 E kl inp enc ta v)) ''.pkcsdecrypted''
         = files (snd (openssl_pkcs_decrypt_rsax509 E kl inp enc ta v)) inp"
  unfolding openssl_ref_decrypt_rsa_def openssl_pkcs_decrypt_rsa_def
    openssl_ref_decrypt_rsax509_def openssl_pkcs_decrypt_rsax509_def
  by (erule decrypt_round_trip)+

text \<open>
  C5, as the code has it: an RSA encryption case that passes has the round trip on both
  sides (after the reference's decryption of the subject's ciphertext the decrypted file
  holds the bytes of the input, and likewise after the subject's decryption of the
  reference's ciphertext). In the PKCS#1 cases the comparator is \<^verbatim>\<open>true\<close>, which returns
  0 in every world, so the ciphertexts need not be equal; the negative path still runs for
  a payload: each decryption compared with the corrupted input must return non-zero. In
  the raw (X.509) cases the comparator is \<^verbatim>\<open>diff\<close>: the two ciphertexts also have to be
  byte-identical, and the negative path runs for a payload there in the same way.
\<close>

theorem encrypt_decrypt_round_trip:
  "(passes (test_openssl_encryptdecrypt_rsa E filesize kl) (sh, w) \<longrightarrow>
      encdec_rsa_steps E sh filesize kl ! compare_index filesize =
        true_cmd (pkcs_out_path (encdec_rsa_dir E filesize kl))
          (ref_out_path (encdec_rsa_dir E filesize kl)) []
      \<and> true_cmd (pkcs_out_path (encdec_rsa_dir E filesize kl))
          (ref_out_path (encdec_rsa_dir E filesize kl)) [] v = (0, v)
      \<and> files (world_at (encdec_rsa_steps E sh filesize kl) (compare_index filesize + 3)
                 (encdec_rsa_start filesize kl w))
          (inputpath (encdec_rsa_dir E filesize kl)) \<noteq> None
      \<and> files (world_at (encdec_rsa_steps E sh filesize kl) (compare_index filesize + 3)
                 (encdec_rsa_start filesize kl w))
          (pkcs_out_path (encdec_rsa_dir E filesize kl) @ ''.refdecrypted'') =
        files (world_at (encdec_rsa_steps E sh filesize kl) (compare_index filesize + 3)
                 (encdec_rsa_start filesize kl w))
          (inputpath (encdec_rsa_dir E filesize kl))
      \<and> files (world_at (encdec_rsa_steps E sh filesize kl) (compare_index filesize + 5)
                 (encdec_rsa_start filesize kl w))
          (inputpath (encdec_rsa_dir E filesize kl)) \<noteq> None
      \<and> files (world_at (encdec_rsa_steps E sh filesize kl) (compare_index filesize + 5)
                 (encdec_rsa_start filesize kl w))
          (ref_out_path (encdec_rsa_dir E filesize kl) @ ''.pkcsdecrypted'') =
        files (world_at (encdec_rsa_steps E sh filesize kl) (compare_index filesize + 5)
                 (encdec_rsa_start filesize kl w))
          (inputpath (encdec_rsa_dir E filesize kl))
      \<and> (0 < filesize \<longrightarrow>
            fst (openssl_ref_decrypt_rsa E kl (corruptedinputpath (encdec_rsa_dir E filesize kl))
                   (pkcs_out_path (encdec_rsa_dir E filesize kl)) []
                   (world_at (encdec_rsa_steps E sh filesize kl) 16
                      (encdec_rsa_start filesize kl w))) \<noteq> 0
            \<and> fst (openssl_pkcs_decrypt_rsa E kl (corruptedinputpath (encdec_rsa_dir E filesize kl))
                   (ref_out_path (encdec_rsa_dir E filesize kl)) []
                   (world_at (encdec_rsa_steps E sh filesize kl) 18
                      (encdec_rsa_start filesize kl w))) \<noteq> 0))
   \<and> (passes (test_openssl_encryptdecrypt_rsa_x509 E filesize kl) (sh, w) \<longrightarrow>
      files (world_at (encdec_x509_steps E sh filesize kl) (compare_index filesize)
               (encdec_x509_start filesize kl w))
        (pkcs_out_path (encdec_x509_dir E filesize kl)) \<noteq> None
      \<and> files (world_at (encdec_x509_steps E sh filesize kl) (compare_index filesize)
               (encdec_x509_start filesize kl w))
          (pkcs_out_path (encdec_x509_dir E filesize kl)) =
        files (world_at (encdec_x509_steps E sh filesize kl) (compare_index filesize)
               (encdec_x509_start filesize kl w))
          (ref_out_path (encdec_x509_dir E filesize kl))
      \<and> files (world_at (encdec_x509_steps E sh filesize kl) (compare_index filesize + 3)
                 (encdec_x509_start filesize kl w))
          (inputpath (encdec_x509_dir E filesize kl)) \<noteq> None
      \<and> files (world_at (encdec_x509_steps E sh filesize kl) (compare_index filesize + 3)
                 (encdec_x509_start filesize kl w)) ''.refdecrypted'' =
        files (world_at (encdec_x509_steps E sh filesize kl) (compare_index filesize + 3)
                 (encdec_x509_start filesize kl w))
          (inputpath (encdec_x509_dir E filesize kl))
      \<and> files (world_at (encdec_x509_steps E sh filesize kl) (compare_index filesize + 5)
                 (encdec_x509_start filesize kl w))
          (inputpath (encdec_x509_dir E filesize kl)) \<noteq> None
      \<and> files (world_at (encdec_x509_steps E sh filesize kl) (compare_index filesize + 5)
                 (encdec_x509_start filesize kl w)) ''.pkcsdecrypted'' =
        files (world_at (encdec_x509_steps E sh filesize kl) (compare_index filesize + 5)
                 (encdec_x509_start filesize kl w))
          (inputpath (encdec_x509_dir E filesize kl))
      \<and> (0 < filesize \<longrightarrow>
            fst (openssl_ref_decrypt_rsax509 E kl
                   (corruptedinputpath (encdec_x509_dir E filesize kl))
                   (pkcs_out_path (encdec_x509_dir E filesize kl)) []
                   (world_at (encdec_x509_steps E sh filesize kl) 16
                      (encdec_x509_start filesize kl w))) \<noteq> 0
            \<and> fst (openssl_pkcs_decrypt_rsax509 E kl
                   (corruptedinputpath (encdec_x509_dir E filesize kl))
                   (ref_out_path (encdec_x509_dir E filesize kl)) []
                   (world_at (encdec_x509_steps E sh filesize kl) 18
                      (encdec_x509_start filesize kl w))) \<noteq> 0))"
proof (intro conjI impI)
  assume p: "passes (test_openssl_encryptdecrypt_rsa E filesize kl) (sh, w)"
  let ?steps = "encdec_rsa_steps E sh filesize kl"
  let ?w0 = "encdec_rsa_start filesize kl w"
  let ?d = "encdec_rsa_dir E filesize kl"
  have ok: "fst (and_list ?steps ?w0) = 0"
    using p by (simp add: encdec_rsa_passes)
  note ok' = ok[unfolded encdec_rsa_steps_def]
  note k = checks_of_passing_case[OF ok', folded encdec_rsa_steps_def encdec_rsa_dir_def]
  show "?steps ! compare_index filesize = true_cmd (pkcs_out_path ?d) (ref_out_path ?d) []"
    using case_steps_compare[of filesize E sh "''test_openssl_encryptdecrypt_rsa''"
        "''encryptdecrypt/rsa_pkcs/'' @ kl" "openssl_pkcs_encrypt_rsa E" "openssl_ref_encrypt_rsa E"
        "openssl_pkcs_decrypt_rsa E" "openssl_ref_decrypt_rsa E" true_cmd
        "create_test_random_file E" kl "[]"]
    by (simp add: encdec_rsa_steps_def encdec_rsa_dir_def)
  show "true_cmd (pkcs_out_path ?d) (ref_out_path ?d) [] v = (0, v)"
    by (simp add: true_cmd_def succeed_def)
  note r = decrypt_providers_round_trip(1)[OF k(1)]
  show "files (world_at ?steps (compare_index filesize + 3) ?w0) (inputpath ?d) \<noteq> None"
    unfolding k(2) using r by blast
  show "files (world_at ?steps (compare_index filesize + 3) ?w0)
          (pkcs_out_path ?d @ ''.refdecrypted'') =
        files (world_at ?steps (compare_index filesize + 3) ?w0) (inputpath ?d)"
    unfolding k(2) using r by blast
  note q = decrypt_providers_round_trip(2)[OF k(3)]
  show "files (world_at ?steps (compare_index filesize + 5) ?w0) (inputpath ?d) \<noteq> None"
    unfolding k(4) using q by blast
  show "files (world_at ?steps (compare_index filesize + 5) ?w0)
          (ref_out_path ?d @ ''.pkcsdecrypted'') =
        files (world_at ?steps (compare_index filesize + 5) ?w0) (inputpath ?d)"
    unfolding k(4) using q by blast
  {
    assume f: "0 < filesize"
    have len: "length ?steps = 19"
      by (simp add: encdec_rsa_steps_def case_steps_payload[OF f])
    have s16: "?steps ! 16 = negate (openssl_ref_decrypt_rsa E kl (corruptedinputpath ?d)
                                       (pkcs_out_path ?d) [])"
      by (simp add: encdec_rsa_steps_def encdec_rsa_dir_def case_steps_payload[OF f])
    have s18: "?steps ! 18 = negate (openssl_pkcs_decrypt_rsa E kl (corruptedinputpath ?d)
                                       (ref_out_path ?d) [])"
      by (simp add: encdec_rsa_steps_def encdec_rsa_dir_def case_steps_payload[OF f])
    have "fst ((?steps ! 16) (world_at ?steps 16 ?w0)) = 0"
      using all_ok_nth[OF ok, of 16] len by simp
    then show "fst (openssl_ref_decrypt_rsa E kl (corruptedinputpath ?d) (pkcs_out_path ?d) []
                 (world_at ?steps 16 ?w0)) \<noteq> 0"
      by (simp add: s16 negate_ok)
    have "fst ((?steps ! 18) (world_at ?steps 18 ?w0)) = 0"
      using all_ok_nth[OF ok, of 18] len by simp
    then show "fst (openssl_pkcs_decrypt_rsa E kl (corruptedinputpath ?d) (ref_out_path ?d) []
                 (world_at ?steps 18 ?w0)) \<noteq> 0"
      by (simp add: s18 negate_ok)
  }
next
  assume p: "passes (test_openssl_encryptdecrypt_rsa_x509 E filesize kl) (sh, w)"
  let ?steps = "encdec_x509_steps E sh filesize kl"
  let ?w0 = "encdec_x509_start filesize kl w"
  let ?d = "encdec_x509_dir E filesize kl"
  have ok: "fst (and_list ?steps ?w0) = 0"
    using p by (simp add: encdec_x509_passes)
  note ok' = ok[unfolded encdec_x509_steps_def]
  note k = checks_of_passing_case[OF ok', folded encdec_x509_steps_def encdec_x509_dir_def]
  note c = case_steps_compare[of filesize E sh "''test_openssl_encryptdecrypt_rsa_x509''"
        "''encryptdecrypt/rsa_x509/'' @ kl" "openssl_pkcs_encrypt_rsax509 E"
        "openssl_ref_encrypt_rsax509 E" "openssl_pkcs_decrypt_rsax509 E"
        "openssl_ref_decrypt_rsax509 E" check_outfiles_diff
        "create_test_random_file_rsax509 E" kl "[]",
        folded encdec_x509_steps_def encdec_x509_dir_def]
  have "fst ((?steps ! compare_index filesize) (world_at ?steps (compare_index filesize) ?w0)) = 0"
    using all_ok_nth[OF ok] c by blast
  then have "fst (diff_files (pkcs_out_path ?d) (ref_out_path ?d)
                    (world_at ?steps (compare_index filesize) ?w0)) = 0"
    using c by (simp add: check_outfiles_diff_def)
  then have e: "files (world_at ?steps (compare_index filesize) ?w0) (pkcs_out_path ?d) \<noteq> None
      \<and> files (world_at ?steps (compare_index filesize) ?w0) (pkcs_out_path ?d)
          = files (world_at ?steps (compare_index filesize) ?w0) (ref_out_path ?d)"
    unfolding diff_files_zero .
  show "files (world_at ?steps (compare_index filesize) ?w0) (pkcs_out_path ?d) \<noteq> None"
    using e by blast
  show "files (world_at ?steps (compare_index filesize) ?w0) (pkcs_out_path ?d)
          = files (world_at ?steps (compare_index filesize) ?w0) (ref_out_path ?d)"
    using e by blast
  note r = decrypt_providers_round_trip(3)[OF k(1)]
  show "files (world_at ?steps (compare_index filesize + 3) ?w0) (inputpath ?d) \<noteq> None"
    unfolding k(2) using r by blast
  show "files (world_at ?steps (compare_index filesize + 3) ?w0) ''.refdecrypted'' =
        files (world_at ?steps (compare_index filesize + 3) ?w0) (inputpath ?d)"
    unfolding k(2) using r by blast
  note q = decrypt_providers_round_trip(4)[OF k(3)]
  show "files (world_at ?steps (compare_index filesize + 5) ?w0) (inputpath ?d) \<noteq> None"
    unfolding k(4) using q by blast
  show "files (world_at ?steps (compare_index filesize + 5) ?w0) ''.pkcsdecrypted'' =
        files (world_at ?steps (compare_index filesize + 5) ?w0) (inputpath ?d)"
    unfolding k(4) using q by blast
  {
    assume f: "0 < filesize"
    have len: "length ?steps = 19"
      by (simp add: encdec_x509_steps_def case_steps_payload[OF f])
    have s16: "?steps ! 16 = negate (openssl_ref_decrypt_rsax509 E kl (corruptedinputpath ?d)
                                       (pkcs_out_path ?d) [])"
      by (simp add: encdec_x509_steps_def encdec_x509_dir_def case_steps_payload[OF f])
    have s18: "?steps ! 18 = negate (openssl_pkcs_decrypt_rsax509 E kl (corruptedinputpath ?d)
                                       (ref_out_path ?d) [])"
      by (simp add: encdec_x509_steps_def encdec_x509_dir_def case_steps_payload[OF f])
    have "fst ((?steps ! 16) (world_at ?steps 16 ?w0)) = 0"
      using all_ok_nth[OF ok, of 16] len by simp
    then show "fst (openssl_ref_decrypt_rsax509 E kl (corruptedinputpath ?d) (pkcs_out_path ?d) []
                 (world_at ?steps 16 ?w0)) \<noteq> 0"
      by (simp add: s16 negate_ok)
    have "fst ((?steps ! 18) (world_at ?steps 18 ?w0)) = 0"
      using all_ok_nth[OF ok, of 18] len by simp
    then show "fst (openssl_pkcs_decrypt_rsax509 E kl (corruptedinputpath ?d) (ref_out_path ?d) []
                 (world_at ?steps 18 ?w0)) \<noteq> 0"
      by (simp add: s18 negate_ok)
  }
qed

theorem encrypt_decrypt_round_trip_witness:
  "passes (test_openssl_encryptdecrypt_rsa sample_tools 2 ''rsa2048'') (initial_shell, sample_world)
   \<and> files (world_at (encdec_rsa_steps sample_tools initial_shell 2 ''rsa2048'') (compare_index 2)
              (encdec_rsa_start 2 ''rsa2048'' sample_world))
        (pkcs_out_path (encdec_rsa_dir sample_tools 2 ''rsa2048''))
      \<noteq> files (world_at (encdec_rsa_steps sample_tools initial_shell 2 ''rsa2048'') (compare_index 2)
              (encdec_rsa_start 2 ''rsa2048'' sample_world))
        (ref_out_path (encdec_rsa_dir sample_tools 2 ''rsa2048''))
   \<and> files (world_at (encdec_rsa_steps sample_tools initial_shell 2 ''rsa2048'') (compare_index 2 + 3)
              (encdec_rsa_start 2 ''rsa2048'' sample_world))
        (pkcs_out_path (encdec_rsa_dir sample_tools 2 ''rsa2048'') @ ''.refdecrypted'') =
      files (world_at (encdec_rsa_steps sample_tools initial_shell 2 ''rsa2048'') (compare_index 2 + 3)
              (encdec_rsa_start 2 ''rsa2048'' sample_world))
        (inputpath (encdec_rsa_dir sample_tools 2 ''rsa2048''))
   \<and> passes (test_openssl_encryptdecrypt_rsa_x509 same_byte_tools 2 ''rsa2048'')
       (initial_shell, sample_world)
   \<and> files (world_at (encdec_x509_steps same_byte_tools initial_shell 2 ''rsa2048'') (compare_index 2)
               (encdec_x509_start 2 ''rsa2048'' sample_world))
          (pkcs_out_path (encdec_x509_dir same_byte_tools 2 ''rsa2048'')) =
        files (world_at (encdec_x509_steps same_byte_tools initial_shell 2 ''rsa2048'') (compare_index 2)
               (encdec_x509_start 2 ''rsa2048'' sample_world))
          (ref_out_path (encdec_x509_dir same_byte_tools 2 ''rsa2048''))
   \<and> fst (openssl_ref_decrypt_rsa sample_tools ''rsa2048''
            (corruptedinputpath (encdec_rsa_dir sample_tools 2 ''rsa2048''))
            (pkcs_out_path (encdec_rsa_dir sample_tools 2 ''rsa2048'')) []
            (world_at (encdec_rsa_steps sample_tools initial_shell 2 ''rsa2048'') 16
               (encdec_rsa_start 2 ''rsa2048'' sample_world))) \<noteq> 0
   \<and> fst (openssl_ref_decrypt_rsax509 same_byte_tools ''rsa2048''
            (corruptedinputpath (encdec_x509_dir same_byte_tools 2 ''rsa2048''))
            (pkcs_out_path (encdec_x509_dir same_byte_tools 2 ''rsa2048'')) []
            (world_at (encdec_x509_steps same_byte_tools initial_shell 2 ''rsa2048'') 16
               (encdec_x509_start 2 ''rsa2048'' sample_world))) \<noteq> 0
   \<and> fst (openssl_pkcs_decrypt_rsax509 same_byte_tools ''rsa2048''
            (corruptedinputpath (encdec_x509_dir same_byte_tools 2 ''rsa2048''))
            (ref_out_path (encdec_x509_dir same_byte_tools 2 ''rsa2048'')) []
            (world_at (encdec_x509_steps same_byte_tools initial_shell 2 ''rsa2048'') 18
               (encdec_x509_start 2 ''rsa2048'' sample_world))) \<noteq> 0"
proof -
  have h1: "passes (test_openssl_encryptdecrypt_rsa sample_tools 2 ''rsa2048'')
              (initial_shell, sample_world)"
    by code_simp
  have h2: "passes (test_openssl_encryptdecrypt_rsa_x509 same_byte_tools 2 ''rsa2048'')
              (initial_shell, sample_world)"
    by code_simp
  have h3: "0 < (2::nat)" by simp
  have d: "files (world_at (encdec_rsa_steps sample_tools initial_shell 2 ''rsa2048'') (compare_index 2)
              (encdec_rsa_start 2 ''rsa2048'' sample_world))
        (pkcs_out_path (encdec_rsa_dir sample_tools 2 ''rsa2048''))
      \<noteq> files (world_at (encdec_rsa_steps sample_tools initial_shell 2 ''rsa2048'') (compare_index 2)
              (encdec_rsa_start 2 ''rsa2048'' sample_world))
        (ref_out_path (encdec_rsa_dir sample_tools 2 ''rsa2048''))"
    by code_simp
  note t1 = encrypt_decrypt_round_trip[of sample_tools 2 "''rsa2048''" initial_shell sample_world
      sample_world]
  note t2 = encrypt_decrypt_round_trip[of same_byte_tools 2 "''rsa2048''" initial_shell sample_world
      sample_world]
  show ?thesis
    using h1 h2 h3 d t1 t2 by blast
qed

text \<open>
  The claim C5 as it is stated fails on a raw (X.509) encryption case: with the sample
  collaborators both decryptions reproduce the input, the two ciphertexts differ, and the
  case does not pass.
\<close>

theorem encrypt_decrypt_claim_counterexample:
  "fst (openssl_ref_decrypt_rsax509 sample_tools ''rsa2048''
          (inputpath (encdec_x509_dir sample_tools 2 ''rsa2048''))
          (pkcs_out_path (encdec_x509_dir sample_tools 2 ''rsa2048'')) []
          (world_at (encdec_x509_steps sample_tools initial_shell 2 ''rsa2048'') 9
             (encdec_x509_start 2 ''rsa2048'' sample_world))) = 0
   \<and> fst (openssl_pkcs_decrypt_rsax509 sample_tools ''rsa2048''
          (inputpath (encdec_x509_dir sample_tools 2 ''rsa2048''))
          (ref_out_path (encdec_x509_dir sample_tools 2 ''rsa2048'')) []
          (world_at (encdec_x509_steps sample_tools initial_shell 2 ''rsa2048'') 9
             (encdec_x509_start 2 ''rsa2048'' sample_world))) = 0
   \<and> files (world_at (encdec_x509_steps sample_tools initial_shell 2 ''rsa2048'') 9
               (encdec_x509_start 2 ''rsa2048'' sample_world))
        (pkcs_out_path (encdec_x509_dir sample_tools 2 ''rsa2048''))
      \<noteq> files (world_at (encdec_x509_steps sample_tools initial_shell 2 ''rsa2048'') 9
               (encdec_x509_start 2 ''rsa2048'' sample_world))
        (ref_out_path (encdec_x509_dir sample_tools 2 ''rsa2048''))
   \<and> \<not> passes (test_openssl_encryptdecrypt_rsa_x509 sample_tools 2 ''rsa2048'')
         (initial_shell, sample_world)"
  by code_simp

section \<open>The RSA-PSS skip rule\<close>

lemma template_adds_verdict:
  "verdicts (fst (testtemplate_generate_check E tb tf gp gr kp kr cc ig filesize kl ta st))
     \<noteq> verdicts (fst st)"
  by (simp add: template_shell log_test_result_def)

lemma pss_skips_iff:
  "skips (test_openssl_digestsignverify_rsapss E filesize kl saltlen digest) st \<longleftrightarrow>
     kl = ''rsa1024'' \<and> saltlen = ''64''"
  by (auto simp: skips_def test_openssl_digestsignverify_rsapss_def template_adds_verdict)

lemma undec_salts:
  "undec ''0'' = Some 0" "undec ''1'' = Some 1" "undec ''2'' = Some 2" "undec ''4'' = Some 4"
  "undec ''16'' = Some 16" "undec ''48'' = Some 48" "undec ''64'' = Some 64"
  by (simp_all add: undec_def digit_val_def)

text \<open>
  C6 on the code: the skip of an RSA-PSS combination is decided by two word comparisons,
  on the key label and on the salt length; the digest is not looked at and no capacity is
  computed. A case is skipped exactly when the key is \<^verbatim>\<open>rsa1024\<close> and the salt length is
  \<^verbatim>\<open>64\<close>. So RSA-1024 with a 64-byte salt and SHA-512, whose 64 + 64 bytes exceed the
  126 usable bytes of the modulus, is skipped, as the comment of the source says; but
  RSA-1024 with a 64-byte salt and SHA-1, a combination of the matrix whose 20 + 64 bytes
  fit, is skipped too. Over the matrix, skipping and exceeding the capacity disagree on
  the four combinations of RSA-1024 and salt 64 with SHA-1, SHA-224, SHA-256, SHA-384 and
  on no other.
\<close>

theorem pss_skip_ignores_digest:
  "skips (test_openssl_digestsignverify_rsapss E filesize kl saltlen digest) st =
     (kl = ''rsa1024'' \<and> saltlen = ''64'')
   \<and> ''rsa1024'' \<in> set RSA_KEYS \<and> ''sha1'' \<in> set TEST_DIGESTS
   \<and> ''64'' \<in> set TEST_RSAPSS_SALT_SIZES \<and> 32 \<in> set TEST_LARGE_FILE_SIZES
   \<and> \<not> spec_pss_capacity_exceeded ''rsa1024'' ''sha1'' ''64''
   \<and> skips (test_openssl_digestsignverify_rsapss E 32 ''rsa1024'' ''64'' ''sha1'') st
   \<and> spec_pss_capacity_exceeded ''rsa1024'' ''sha512'' ''64''
   \<and> skips (test_openssl_digestsignverify_rsapss E 32 ''rsa1024'' ''64'' ''sha512'') st
   \<and> [(k, d, s). k \<leftarrow> RSA_KEYS, d \<leftarrow> TEST_DIGESTS, s \<leftarrow> TEST_RSAPSS_SALT_SIZES,
        skips (test_openssl_digestsignverify_rsapss E filesize k s d) st
          \<noteq> spec_pss_capacity_exceeded k d s] =
     [(''rsa1024'', ''sha1'', ''64''), (''rsa1024'', ''sha224'', ''64''),
      (''rsa1024'', ''sha256'', ''64''), (''rsa1024'', ''sha384'', ''64'')]"
  by (simp add: pss_skips_iff RSA_KEYS_def TEST_DIGESTS_def TEST_RSAPSS_SALT_SIZES_def
        TEST_LARGE_FILE_SIZES_def spec_pss_capacity_exceeded_def modulus_bytes_def
        digest_bytes_def undec_salts)

section \<open>The seed\<close>




section \<open>The exit status of the process\<close>

lemma main_status:
  "main E random args w =
     (if args = [] \<or> \<not> declared_cmd (hd args) then 1
      else if cd_root E \<noteq> 0 then cd_root E else tee E)"
  by (simp add: main_def pipeline_status_def)

lemma for_each_exit_total:
  assumes "\<And>x s. \<exists>s'. body x s = Inr s'"
  shows "\<exists>s'. for_each_exit xs body s = Inr s'"
proof (induction xs arbitrary: s)
  case Nil
  show ?case by simp
next
  case (Cons x xs)
  obtain s1 where "body x s = Inr s1" using assms by blast
  then show ?case using Cons[of s1] by simp
qed

lemma provision_key_ok:
  assumes "p11ne_db E = sample_ok" and "p11ne_cli E = sample_ok"
  shows "provision_key E key_id region keylabel st = Inr st"
    and "provision_key_w_cert E key_id region keylabel st = Inr st"
    and "cleanup_key E keylabel st = st"
  using assms
  by (cases st; simp add: provision_key_def provision_key_w_cert_def cleanup_key_def
        sample_ok_def succeed_def)+

lemma key_suites_return:
  assumes "p11ne_db E = sample_ok" and "p11ne_cli E = sample_ok"
  shows "\<exists>st'. rsa_signverify_tests E key_id region k st = Inr st'"
    and "\<exists>st'. ecdsa_signverify_tests E key_id region k st = Inr st'"
    and "\<exists>st'. rsa_encryptdecrypt_tests E key_id region k st = Inr st'"
  by (simp_all add: rsa_signverify_tests_def ecdsa_signverify_tests_def
        rsa_encryptdecrypt_tests_def bind_exit_def provision_key_ok[OF assms] Let_def)

lemma x509_export_ok:
  assumes "p11ne_db E = sample_ok" and "p11ne_cli E = sample_ok" and "p11tool E = sample_ok"
  shows "x509_export E key_id region label testname neg st =
           Inr (log_test_result testname (if neg then 1 else 0) (fst st), snd st)"
  using assms(3)
  by (cases st) (simp add: x509_export_def bind_exit_def provision_key_ok[OF assms(1,2)]
        sample_ok_def succeed_def)

lemma x509_tests_record_failure:
  assumes "p11ne_db E = sample_ok" and "p11ne_cli E = sample_ok" and "p11tool E = sample_ok"
      and "yum E = sample_ok"
  shows "\<exists>st'. x509_tests E key_id region st = Inr st' \<and> 0 < num_tests_failed (fst st')"
  using assms(4)
  by (cases st) (simp add: x509_tests_def bind_exit_def x509_export_ok[OF assms(1,2,3)]
        sample_ok_def succeed_def log_test_result_def)

lemma cmd_openssl_records_failure:
  assumes "p11ne_db E = sample_ok" and "p11ne_cli E = sample_ok" and "p11tool E = sample_ok"
      and "yum E = sample_ok" and "parse_kms_args args ([], []) = Inr (key_id, region)"
  shows "\<exists>st'. cmd_openssl E args st = Inr st' \<and> 0 < num_tests_failed (fst st')"
proof -
  have p: "prepare_test_env E st = Inr st"
    using assms(2) by (cases st) (simp add: prepare_test_env_def sample_ok_def succeed_def)
  obtain st2 where a2: "for_each_exit RSA_KEYS (rsa_signverify_tests E key_id region) st = Inr st2"
    using for_each_exit_total[of "rsa_signverify_tests E key_id region" RSA_KEYS st]
      key_suites_return(1)[OF assms(1,2)] by blast
  obtain st3 where a3: "for_each_exit ECDSA_KEYS (ecdsa_signverify_tests E key_id region) st2 = Inr st3"
    using for_each_exit_total[of "ecdsa_signverify_tests E key_id region" ECDSA_KEYS st2]
      key_suites_return(2)[OF assms(1,2)] by blast
  obtain st4 where a4: "for_each_exit RSA_KEYS (rsa_encryptdecrypt_tests E key_id region) st3 = Inr st4"
    using for_each_exit_total[of "rsa_encryptdecrypt_tests E key_id region" RSA_KEYS st3]
      key_suites_return(3)[OF assms(1,2)] by blast
  obtain st5 where a5: "x509_tests E key_id region st4 = Inr st5"
    and f: "0 < num_tests_failed (fst st5)"
    using x509_tests_record_failure[OF assms(1,2,3,4)] by blast
  have "cmd_openssl E args st = Inr (cleanup_test_env E st5)"
    by (simp add: cmd_openssl_def bind_exit_def assms(5) p a2 a3 a4 a5)
  then show ?thesis
    using f by (simp add: cleanup_test_env_shell)
qed

text \<open>
  C3 on the code: a run of the \<^verbatim>\<open>openssl\<close> test set in which test cases fail (here all
  signing, encryption and input generation fails, and the export of the invalid
  certificate chain succeeds) ends its subshell with \<^verbatim>\<open>exit 2\<close>, and the process exits
  with the status of \<^verbatim>\<open>tee\<close>, 0. An unknown option ends the subshell with 1 and the
  process again with 0. Only the checks \<^verbatim>\<open>main\<close> makes before the pipeline end the
  process with 1.
\<close>

theorem failed_tests_exit_status:
  "fst (main_group failing_tools 5 [''openssl'', ''--kms-key-id'', ''k'', ''--kms-region'', ''r'']
          (initial_shell, sample_world)) = EXIT_CODE_FAILED_TESTS
   \<and> main failing_tools 5 [''openssl'', ''--kms-key-id'', ''k'', ''--kms-region'', ''r'']
         sample_world = 0
   \<and> fst (main_group failing_tools 5 [''openssl'', ''--bogus''] (initial_shell, sample_world)) = 1
   \<and> main failing_tools 5 [''openssl'', ''--bogus''] sample_world = 0
   \<and> main failing_tools 5 [] sample_world = 1
   \<and> main failing_tools 5 [''frobnicate''] sample_world = 1
   \<and> main E random (''openssl'' # rest) w = (if cd_root E \<noteq> 0 then cd_root E else tee E)"
proof -
  have t: "p11ne_db failing_tools = sample_ok" "p11ne_cli failing_tools = sample_ok"
    "p11tool failing_tools = sample_ok" "yum failing_tools = sample_ok"
    "cd_root failing_tools = 0" "tee failing_tools = 0"
    by (simp_all add: failing_tools_def sample_tools_def)
  have k: "parse_kms_args [''--kms-key-id'', ''k'', ''--kms-region'', ''r''] ([], []) = Inr (''k'', ''r'')"
    by simp
  obtain st' where
    c: "cmd_openssl failing_tools [''--kms-key-id'', ''k'', ''--kms-region'', ''r'']
          (initial_shell\<lparr>prng_seed := dec 5\<rparr>, sample_world) = Inr st'"
    and f: "0 < num_tests_failed (fst st')"
    using cmd_openssl_records_failure[OF t(1,2,3,4) k] by blast
  have a: "fst (main_group failing_tools 5 [''openssl'', ''--kms-key-id'', ''k'', ''--kms-region'', ''r'']
          (initial_shell, sample_world)) = EXIT_CODE_FAILED_TESTS"
    using c f by (cases st') (simp add: main_group_def run_cmd_def)
  have b: "fst (main_group failing_tools 5 [''openssl'', ''--bogus''] (initial_shell, sample_world)) = 1"
    by (simp add: main_group_def run_cmd_def cmd_openssl_def bind_exit_def)
  show ?thesis
    using a b by (simp add: main_status declared_cmd_def t)
qed

end
